theory Spec2Isabelle
  imports Complex_Main "HOL-Library.Word"
begin

unbundle bit_operations_syntax

section \<open>Shared vocabulary\<close>

text \<open>
  The development embeds the bake orchestration of
  \<^verbatim>\<open>source/blender/editors/physics/physics_fluid.c\<close>.
  C \<^verbatim>\<open>float\<close> and \<^verbatim>\<open>double\<close> values are read as exact reals (rounding is
  not modelled).  The \<^verbatim>\<open>int\<close> arithmetic on the cache frames of a Mantaflow bake wraps
  around at 32 bits (\<open>int32\<close>); the counts, sizes and indices of the legacy bake are
  integers, and bit sets are 32-bit words.  A pointer
  that may be \<^verbatim>\<open>NULL\<close> is an \<open>option\<close>.  Reports sent to \<^verbatim>\<open>BKE_report\<close> and
  \<^verbatim>\<open>WM_reportf\<close> are collected in a list, oldest first.
\<close>

datatype ReportType = RPT_INFO | RPT_WARNING | RPT_ERROR

type_synonym report = "ReportType \<times> string"

datatype operator_ret = OPERATOR_FINISHED | OPERATOR_CANCELLED | OPERATOR_RUNNING_MODAL

text \<open>
  The values of a C \<^verbatim>\<open>int\<close>, and the value an \<^verbatim>\<open>int\<close> operation leaves when its
  exact result is \<open>x\<close>: the result wraps around modulo \<open>2^32\<close>.
\<close>

definition is_int32 :: "int \<Rightarrow> bool" where
  "is_int32 x = (- 2147483648 \<le> x \<and> x \<le> 2147483647)"

definition int32 :: "int \<Rightarrow> int" where
  "int32 x = (x + 2147483648) mod 4294967296 - 2147483648"

section \<open>Mantaflow bake and free jobs\<close>

subsection \<open>Domain settings and cache flags\<close>

text \<open>
  Modelled from the spec: the cache-flag constants \<^verbatim>\<open>FLUID_DOMAIN_BAKING_*\<close> and
  \<^verbatim>\<open>FLUID_DOMAIN_BAKED_*\<close> are declared in \<^verbatim>\<open>DNA_smoke_types.h\<close>, which is not
  part of the sources at hand.  The specification describes the bake state as a bit set
  over BAKING_X and BAKED_X for the five stages; the ten constants are therefore ten
  distinct single bits of the \<^verbatim>\<open>int\<close> field \<^verbatim>\<open>cache_flag\<close>.
\<close>

definition FLUID_DOMAIN_BAKING_DATA :: "32 word" where
  "FLUID_DOMAIN_BAKING_DATA = 1"

definition FLUID_DOMAIN_BAKED_DATA :: "32 word" where
  "FLUID_DOMAIN_BAKED_DATA = 2"

definition FLUID_DOMAIN_BAKING_NOISE :: "32 word" where
  "FLUID_DOMAIN_BAKING_NOISE = 4"

definition FLUID_DOMAIN_BAKED_NOISE :: "32 word" where
  "FLUID_DOMAIN_BAKED_NOISE = 8"

definition FLUID_DOMAIN_BAKING_MESH :: "32 word" where
  "FLUID_DOMAIN_BAKING_MESH = 16"

definition FLUID_DOMAIN_BAKED_MESH :: "32 word" where
  "FLUID_DOMAIN_BAKED_MESH = 32"

definition FLUID_DOMAIN_BAKING_PARTICLES :: "32 word" where
  "FLUID_DOMAIN_BAKING_PARTICLES = 64"

definition FLUID_DOMAIN_BAKED_PARTICLES :: "32 word" where
  "FLUID_DOMAIN_BAKED_PARTICLES = 128"

definition FLUID_DOMAIN_BAKING_GUIDING :: "32 word" where
  "FLUID_DOMAIN_BAKING_GUIDING = 256"

definition FLUID_DOMAIN_BAKED_GUIDING :: "32 word" where
  "FLUID_DOMAIN_BAKED_GUIDING = 512"

text \<open>
  Modelled from the spec: the names of the per-stage cache sub-directories
  (\<^verbatim>\<open>FLUID_DOMAIN_DIR_*\<close>, also from \<^verbatim>\<open>DNA_smoke_types.h\<close>) follow the cache layout
  of the specification.
\<close>

definition FLUID_DOMAIN_DIR_DATA :: string where
  "FLUID_DOMAIN_DIR_DATA = ''data''"

definition FLUID_DOMAIN_DIR_NOISE :: string where
  "FLUID_DOMAIN_DIR_NOISE = ''noise''"

definition FLUID_DOMAIN_DIR_MESH :: string where
  "FLUID_DOMAIN_DIR_MESH = ''mesh''"

definition FLUID_DOMAIN_DIR_PARTICLES :: string where
  "FLUID_DOMAIN_DIR_PARTICLES = ''particles''"

definition FLUID_DOMAIN_DIR_GUIDING :: string where
  "FLUID_DOMAIN_DIR_GUIDING = ''guiding''"

text \<open>The fields of \<^verbatim>\<open>SmokeDomainSettings\<close> that the job controller reads or writes.\<close>

record SmokeDomainSettings =
  cache_flag :: "32 word"
  cache_frame_start :: int
  cache_frame_end :: int
  cache_frame_pause_data :: int
  cache_frame_pause_noise :: int
  cache_frame_pause_mesh :: int
  cache_frame_pause_particles :: int
  cache_frame_pause_guiding :: int
  error :: string
  cache_directory :: string

record SmokeModifierData =
  domain :: "SmokeDomainSettings option"

text \<open>
  \<^verbatim>\<open>job->pause_frame\<close> points at one of the five pause markers of the domain.
\<close>

datatype pause_ptr = PauseData | PauseNoise | PauseMesh | PauseParticles | PauseGuiding

fun pause_deref :: "pause_ptr \<Rightarrow> SmokeDomainSettings \<Rightarrow> int" where
  "pause_deref PauseData d = cache_frame_pause_data d"
| "pause_deref PauseNoise d = cache_frame_pause_noise d"
| "pause_deref PauseMesh d = cache_frame_pause_mesh d"
| "pause_deref PauseParticles d = cache_frame_pause_particles d"
| "pause_deref PauseGuiding d = cache_frame_pause_guiding d"

fun pause_assign :: "pause_ptr \<Rightarrow> int \<Rightarrow> SmokeDomainSettings \<Rightarrow> SmokeDomainSettings" where
  "pause_assign PauseData v d = d\<lparr>cache_frame_pause_data := v\<rparr>"
| "pause_assign PauseNoise v d = d\<lparr>cache_frame_pause_noise := v\<rparr>"
| "pause_assign PauseMesh v d = d\<lparr>cache_frame_pause_mesh := v\<rparr>"
| "pause_assign PauseParticles v d = d\<lparr>cache_frame_pause_particles := v\<rparr>"
| "pause_assign PauseGuiding v d = d\<lparr>cache_frame_pause_guiding := v\<rparr>"

text \<open>
  \<^verbatim>\<open>FluidMantaflowJob\<close>.  The job is obtained from \<^verbatim>\<open>MEM_mallocN\<close>, so
  \<^verbatim>\<open>pause_frame\<close> holds no pointer (\<open>None\<close>) until a start hook assigns one.  The
  three slots \<^verbatim>\<open>stop\<close>, \<^verbatim>\<open>do_update\<close> and \<^verbatim>\<open>progress\<close> are pointers into the
  window manager's job; \<open>None\<close> is \<^verbatim>\<open>NULL\<close>, \<open>Some v\<close> a cell holding \<open>v\<close>.
\<close>

record FluidMantaflowJob =
  job_type :: string
  job_name :: string
  success :: int
  pause_frame :: "pause_ptr option"
  stop :: "int option"
  do_update :: "bool option"
  progress :: "real option"

text \<open>
  The state the job hooks act on: the domain settings behind \<^verbatim>\<open>job->smd->domain\<close>,
  the job, the scene's current frame \<^verbatim>\<open>scene->r.cfra\<close>, the process-global flags
  \<^verbatim>\<open>G.is_break\<close> and \<^verbatim>\<open>G.is_rendering\<close>, the disk and the reports.  A path built by
  \<^verbatim>\<open>BLI_path_join(tmpDir, ..., sds->cache_directory, name, NULL)\<close> is the pair of the
  cache directory and the sub-directory name; \<open>disk\<close> maps such a path to the files
  below it when the directory exists.
\<close>

record manta_state =
  sds :: SmokeDomainSettings
  job :: FluidMantaflowJob
  cfra :: int
  is_break :: bool
  is_rendering :: bool
  disk :: "(string \<times> string) \<rightharpoonup> string list"
  reports :: "report list"

definition BLI_path_join :: "string \<Rightarrow> string \<Rightarrow> string \<times> string" where
  "BLI_path_join dir name = (dir, name)"

text \<open>
  \<^verbatim>\<open>BLI_dir_create_recursive\<close>: an existing directory is kept, a missing one is
  created empty when the file system allows it (\<open>creatable\<close>).
\<close>

definition BLI_dir_create_recursive ::
  "((string \<times> string) \<Rightarrow> bool) \<Rightarrow> string \<times> string \<Rightarrow> manta_state \<Rightarrow> manta_state" where
  "BLI_dir_create_recursive creatable p s =
     (case disk s p of
        Some _ \<Rightarrow> s
      | None \<Rightarrow> if creatable p then s\<lparr>disk := (disk s)(p \<mapsto> [])\<rparr> else s)"

text \<open>\<^verbatim>\<open>if (BLI_exists(tmpDir)) BLI_delete(tmpDir, true, true);\<close>\<close>

definition delete_if_exists :: "string \<times> string \<Rightarrow> manta_state \<Rightarrow> manta_state" where
  "delete_if_exists p s =
     (case disk s p of
        Some _ \<Rightarrow> s\<lparr>disk := (disk s)(p := None)\<rparr>
      | None \<Rightarrow> s)"

subsection \<open>The pause operator\<close>

text \<open>
  \<^verbatim>\<open>fluid_manta_pause_exec\<close> runs on the main thread while a bake job works; with a
  modifier and a domain present it raises the global break flag.
\<close>

definition fluid_manta_pause_exec ::
  "SmokeModifierData option \<Rightarrow> manta_state \<Rightarrow> operator_ret \<times> manta_state" where
  "fluid_manta_pause_exec smd s =
     (case smd of
        None \<Rightarrow>
          (OPERATOR_CANCELLED,
           s\<lparr>reports := reports s @ [(RPT_ERROR, ''Bake free failed: no Fluid modifier found'')]\<rparr>)
      | Some m \<Rightarrow>
          (case domain m of
             None \<Rightarrow>
               (OPERATOR_CANCELLED,
                s\<lparr>reports := reports s @ [(RPT_ERROR, ''Bake free failed: invalid domain'')]\<rparr>)
           | Some _ \<Rightarrow> (OPERATOR_FINISHED, s\<lparr>is_break := True\<rparr>)))"

subsection \<open>The frame loop of a bake\<close>

text \<open>
  The loop of \<^verbatim>\<open>fluid_manta_bake_sequence\<close>.  The environment is \<open>pause_at\<close>:
  \<open>pause_at f\<close> says that the pause operator ran (with the domain's modifier) after the
  previous test of \<^verbatim>\<open>G.is_break\<close> and before the test made for frame \<open>f\<close>.
  \<^verbatim>\<open>ED_update_for_newframe\<close> belongs to the host and is taken to leave the fields
  modelled here alone.  The loop either returns from the function (\<open>Returned\<close>) or
  runs to its end (\<open>Completed\<close>).  With the last cache frame at the largest \<^verbatim>\<open>int\<close>
  the counter wraps and the loop does not end unless it is stopped; then its value is
  \<open>None\<close>.
\<close>

datatype loop_exit = Returned | Completed

definition set_success :: "int \<Rightarrow> manta_state \<Rightarrow> manta_state" where
  "set_success v s = s\<lparr>job := (job s)\<lparr>success := v\<rparr>\<rparr>"

definition set_do_update :: "manta_state \<Rightarrow> manta_state" where
  "set_do_update s =
     (case do_update (job s) of
        None \<Rightarrow> s
      | Some _ \<Rightarrow> s\<lparr>job := (job s)\<lparr>do_update := Some True\<rparr>\<rparr>)"

definition set_progress :: "real \<Rightarrow> manta_state \<Rightarrow> manta_state" where
  "set_progress v s =
     (case progress (job s) of
        None \<Rightarrow> s
      | Some _ \<Rightarrow> s\<lparr>job := (job s)\<lparr>progress := Some v\<rparr>\<rparr>)"

definition observe_pause :: "bool \<Rightarrow> manta_state \<Rightarrow> manta_state" where
  "observe_pause p s = (if p then s\<lparr>is_break := True\<rparr> else s)"

text \<open>The body of the loop for one frame, up to the test of the break flag.\<close>

definition enter_frame :: "(int \<Rightarrow> bool) \<Rightarrow> pause_ptr \<Rightarrow> int \<Rightarrow> manta_state \<Rightarrow> manta_state" where
  "enter_frame pause_at pf frame s =
     observe_pause (pause_at frame) (s\<lparr>sds := pause_assign pf frame (sds s)\<rparr>)"

text \<open>The rest of the body: progress, current frame and scene update.\<close>

definition finish_frame :: "int \<Rightarrow> int \<Rightarrow> manta_state \<Rightarrow> manta_state" where
  "finish_frame frames frame s =
     (let prog = real_of_int (int32 (frame - cache_frame_start (sds s))) / real_of_int frames
      in (set_progress prog (set_do_update s))\<lparr>cfra := frame\<rparr>)"

partial_function (option) bake_frames ::
  "(int \<Rightarrow> bool) \<Rightarrow> pause_ptr \<Rightarrow> int \<Rightarrow> int \<Rightarrow> manta_state \<Rightarrow> (loop_exit \<times> manta_state) option" where
  "bake_frames pause_at pf frames frame s =
     (if frame \<le> cache_frame_end (sds s) then
        (if is_break (enter_frame pause_at pf frame s) then
           Some (Returned, set_success 0 (enter_frame pause_at pf frame s))
         else bake_frames pause_at pf frames (int32 (frame + 1))
                (finish_frame frames frame (enter_frame pause_at pf frame s)))
      else Some (Completed, s))"

text \<open>
  The frame a bake starts at: the first cache frame when the pause marker is 0, the pause
  marker otherwise.
\<close>

definition initial_frame :: "pause_ptr \<Rightarrow> SmokeDomainSettings \<Rightarrow> int" where
  "initial_frame pf d =
     (let is_first_frame = (pause_deref pf d = 0)
      in if is_first_frame then cache_frame_start d else pause_deref pf d)"

definition fluid_manta_bake_sequence :: "(int \<Rightarrow> bool) \<Rightarrow> manta_state \<Rightarrow> manta_state option" where
  "fluid_manta_bake_sequence pause_at s =
     (let d = sds s;
          frames = int32 (int32 (cache_frame_end d - cache_frame_start d) + 1)
      in if frames \<le> 0 then Some (s\<lparr>sds := d\<lparr>error := ''No frames to bake''\<rparr>\<rparr>)
         else
           (let s1 = set_do_update s
            in case pause_frame (job s1) of
                 None \<Rightarrow> None
               | Some pf \<Rightarrow>
                   (let frame = initial_frame pf (sds s1);
                        orig_frame = cfra s1;
                        s2 = s1\<lparr>cfra := frame\<rparr>
                    in case bake_frames pause_at pf frames frame s2 of
                         None \<Rightarrow> None
                       | Some (Returned, s3) \<Rightarrow> Some s3
                       | Some (Completed, s3) \<Rightarrow> Some (s3\<lparr>cfra := orig_frame\<rparr>))))"

subsection \<open>Start and end hooks of a bake job\<close>

text \<open>
  \<^verbatim>\<open>fluid_manta_bake_startjob\<close>.  The calls into the dependency graph and the draw
  locks are the host's and are left out.  The result is \<open>None\<close> when the frame loop
  would read the pause pointer of a job whose type names none of the five bakes, or when
  the frame loop does not end.
\<close>

definition start_stage ::
  "((string \<times> string) \<Rightarrow> bool) \<Rightarrow> string \<Rightarrow> 32 word \<Rightarrow> 32 word \<Rightarrow> pause_ptr \<Rightarrow>
   manta_state \<Rightarrow> manta_state" where
  "start_stage creatable dir baked baking pf s =
     (let s1 = BLI_dir_create_recursive creatable (BLI_path_join (cache_directory (sds s)) dir) s;
          d1 = (sds s1)\<lparr>cache_flag := cache_flag (sds s1) AND NOT baked\<rparr>;
          d2 = d1\<lparr>cache_flag := cache_flag d1 OR baking\<rparr>
      in s1\<lparr>sds := d2, job := (job s1)\<lparr>pause_frame := Some pf\<rparr>\<rparr>)"

definition fluid_manta_bake_startjob ::
  "((string \<times> string) \<Rightarrow> bool) \<Rightarrow> (int \<Rightarrow> bool) \<Rightarrow> int option \<Rightarrow> bool option \<Rightarrow> real option \<Rightarrow>
   manta_state \<Rightarrow> manta_state option" where
  "fluid_manta_bake_startjob creatable pause_at stop_p do_update_p progress_p s =
     (let s1 = s\<lparr>job := (job s)\<lparr>stop := stop_p, do_update := do_update_p,
                                  progress := progress_p, success := 1\<rparr>,
                  is_break := False, is_rendering := True\<rparr>;
          s2 = (if job_type (job s1) = ''MANTA_OT_bake_data'' then
                  start_stage creatable FLUID_DOMAIN_DIR_DATA
                    FLUID_DOMAIN_BAKED_DATA FLUID_DOMAIN_BAKING_DATA PauseData s1
                else if job_type (job s1) = ''MANTA_OT_bake_noise'' then
                  start_stage creatable FLUID_DOMAIN_DIR_NOISE
                    FLUID_DOMAIN_BAKED_NOISE FLUID_DOMAIN_BAKING_NOISE PauseNoise s1
                else if job_type (job s1) = ''MANTA_OT_bake_mesh'' then
                  start_stage creatable FLUID_DOMAIN_DIR_MESH
                    FLUID_DOMAIN_BAKED_MESH FLUID_DOMAIN_BAKING_MESH PauseMesh s1
                else if job_type (job s1) = ''MANTA_OT_bake_particles'' then
                  start_stage creatable FLUID_DOMAIN_DIR_PARTICLES
                    FLUID_DOMAIN_BAKED_PARTICLES FLUID_DOMAIN_BAKING_PARTICLES PauseParticles s1
                else if job_type (job s1) = ''MANTA_OT_bake_guiding'' then
                  start_stage creatable FLUID_DOMAIN_DIR_GUIDING
                    FLUID_DOMAIN_BAKED_GUIDING FLUID_DOMAIN_BAKING_GUIDING PauseGuiding s1
                else s1)
      in case fluid_manta_bake_sequence pause_at s2 of
           None \<Rightarrow> None
         | Some s3 \<Rightarrow>
             (let s4 = set_do_update s3
              in Some (case stop (job s4) of
                         None \<Rightarrow> s4
                       | Some _ \<Rightarrow> s4\<lparr>job := (job s4)\<lparr>stop := Some 0\<rparr>\<rparr>)))"

text \<open>
  \<^verbatim>\<open>fluid_manta_bake_endjob\<close>.  The elapsed time printed with the completion message
  is not modelled.
\<close>

definition end_stage :: "32 word \<Rightarrow> 32 word \<Rightarrow> manta_state \<Rightarrow> manta_state" where
  "end_stage baking baked s =
     (let d1 = (sds s)\<lparr>cache_flag := cache_flag (sds s) AND NOT baking\<rparr>;
          d2 = d1\<lparr>cache_flag := cache_flag d1 OR baked\<rparr>
      in s\<lparr>sds := d2\<rparr>)"

definition job_report :: "manta_state \<Rightarrow> manta_state" where
  "job_report s =
     (if success (job s) \<noteq> 0 then
        s\<lparr>reports := reports s @
            [(RPT_INFO, ''Fluid Mantaflow: '' @ job_name (job s) @ '' complete!'')]\<rparr>
      else if error (sds s) \<noteq> [] then
        s\<lparr>reports := reports s @
            [(RPT_ERROR, ''Fluid Mantaflow: '' @ job_name (job s) @ '' failed: '' @ error (sds s))]\<rparr>
      else
        s\<lparr>reports := reports s @
            [(RPT_WARNING, ''Fluid Mantaflow: '' @ job_name (job s) @ '' canceled!'')]\<rparr>)"

definition fluid_manta_bake_endjob :: "manta_state \<Rightarrow> manta_state" where
  "fluid_manta_bake_endjob s =
     (let s1 = s\<lparr>is_rendering := False\<rparr>;
          s2 = (if job_type (job s1) = ''MANTA_OT_bake_data'' then
                  end_stage FLUID_DOMAIN_BAKING_DATA FLUID_DOMAIN_BAKED_DATA s1
                else if job_type (job s1) = ''MANTA_OT_bake_noise'' then
                  end_stage FLUID_DOMAIN_BAKING_NOISE FLUID_DOMAIN_BAKED_NOISE s1
                else if job_type (job s1) = ''MANTA_OT_bake_mesh'' then
                  end_stage FLUID_DOMAIN_BAKING_MESH FLUID_DOMAIN_BAKED_MESH s1
                else if job_type (job s1) = ''MANTA_OT_bake_particles'' then
                  end_stage FLUID_DOMAIN_BAKING_PARTICLES FLUID_DOMAIN_BAKED_PARTICLES s1
                else if job_type (job s1) = ''MANTA_OT_bake_guiding'' then
                  end_stage FLUID_DOMAIN_BAKING_GUIDING FLUID_DOMAIN_BAKED_GUIDING s1
                else s1)
      in job_report s2)"

text \<open>
  A bake job as the job system (or \<^verbatim>\<open>fluid_manta_bake_exec\<close>) runs it: the start hook,
  then the end hook.
\<close>

definition fluid_manta_bake_job ::
  "((string \<times> string) \<Rightarrow> bool) \<Rightarrow> (int \<Rightarrow> bool) \<Rightarrow> int option \<Rightarrow> bool option \<Rightarrow> real option \<Rightarrow>
   manta_state \<Rightarrow> manta_state option" where
  "fluid_manta_bake_job creatable pause_at stop_p do_update_p progress_p s =
     map_option fluid_manta_bake_endjob
       (fluid_manta_bake_startjob creatable pause_at stop_p do_update_p progress_p s)"

text \<open>The five stages, their operator names, flag bits and pause markers.\<close>

datatype stage = DATA | NOISE | MESH | PARTICLES | GUIDING

fun bake_idname :: "stage \<Rightarrow> string" where
  "bake_idname DATA = ''MANTA_OT_bake_data''"
| "bake_idname NOISE = ''MANTA_OT_bake_noise''"
| "bake_idname MESH = ''MANTA_OT_bake_mesh''"
| "bake_idname PARTICLES = ''MANTA_OT_bake_particles''"
| "bake_idname GUIDING = ''MANTA_OT_bake_guiding''"

fun free_idname :: "stage \<Rightarrow> string" where
  "free_idname DATA = ''MANTA_OT_free_data''"
| "free_idname NOISE = ''MANTA_OT_free_noise''"
| "free_idname MESH = ''MANTA_OT_free_mesh''"
| "free_idname PARTICLES = ''MANTA_OT_free_particles''"
| "free_idname GUIDING = ''MANTA_OT_free_guiding''"

fun BAKING :: "stage \<Rightarrow> 32 word" where
  "BAKING DATA = FLUID_DOMAIN_BAKING_DATA"
| "BAKING NOISE = FLUID_DOMAIN_BAKING_NOISE"
| "BAKING MESH = FLUID_DOMAIN_BAKING_MESH"
| "BAKING PARTICLES = FLUID_DOMAIN_BAKING_PARTICLES"
| "BAKING GUIDING = FLUID_DOMAIN_BAKING_GUIDING"

fun BAKED :: "stage \<Rightarrow> 32 word" where
  "BAKED DATA = FLUID_DOMAIN_BAKED_DATA"
| "BAKED NOISE = FLUID_DOMAIN_BAKED_NOISE"
| "BAKED MESH = FLUID_DOMAIN_BAKED_MESH"
| "BAKED PARTICLES = FLUID_DOMAIN_BAKED_PARTICLES"
| "BAKED GUIDING = FLUID_DOMAIN_BAKED_GUIDING"

fun pause_of :: "stage \<Rightarrow> pause_ptr" where
  "pause_of DATA = PauseData"
| "pause_of NOISE = PauseNoise"
| "pause_of MESH = PauseMesh"
| "pause_of PARTICLES = PauseParticles"
| "pause_of GUIDING = PauseGuiding"

fun stage_dir :: "stage \<Rightarrow> string" where
  "stage_dir DATA = FLUID_DOMAIN_DIR_DATA"
| "stage_dir NOISE = FLUID_DOMAIN_DIR_NOISE"
| "stage_dir MESH = FLUID_DOMAIN_DIR_MESH"
| "stage_dir PARTICLES = FLUID_DOMAIN_DIR_PARTICLES"
| "stage_dir GUIDING = FLUID_DOMAIN_DIR_GUIDING"

text \<open>A flag bit is set in a flag word.\<close>

definition flag_set :: "32 word \<Rightarrow> 32 word \<Rightarrow> bool" where
  "flag_set flags b = (flags AND b \<noteq> 0)"

subsection \<open>Freeing a stage\<close>

text \<open>
  \<^verbatim>\<open>fluid_manta_free_startjob\<close>.  It stores through \<^verbatim>\<open>do_update\<close> and \<^verbatim>\<open>stop\<close>
  without a test, so a \<^verbatim>\<open>NULL\<close> there has no result (\<open>None\<close>).
\<close>

definition clear_flags :: "32 word \<Rightarrow> manta_state \<Rightarrow> manta_state" where
  "clear_flags bits s = s\<lparr>sds := (sds s)\<lparr>cache_flag := cache_flag (sds s) AND NOT bits\<rparr>\<rparr>"

definition free_dir :: "string \<Rightarrow> manta_state \<Rightarrow> manta_state" where
  "free_dir dir s = delete_if_exists (BLI_path_join (cache_directory (sds s)) dir) s"

definition fluid_manta_free_startjob ::
  "int option \<Rightarrow> bool option \<Rightarrow> real option \<Rightarrow> manta_state \<Rightarrow> manta_state option" where
  "fluid_manta_free_startjob stop_p do_update_p progress_p s =
     (let s1 = s\<lparr>job := (job s)\<lparr>stop := stop_p, do_update := do_update_p,
                                  progress := progress_p, success := 1\<rparr>,
                  is_break := False, is_rendering := True\<rparr>;
          s2 = (if job_type (job s1) = ''MANTA_OT_free_data'' then
                  (let a = clear_flags
                             (FLUID_DOMAIN_BAKING_DATA OR FLUID_DOMAIN_BAKED_DATA OR
                              FLUID_DOMAIN_BAKING_NOISE OR FLUID_DOMAIN_BAKED_NOISE OR
                              FLUID_DOMAIN_BAKING_MESH OR FLUID_DOMAIN_BAKED_MESH OR
                              FLUID_DOMAIN_BAKING_PARTICLES OR FLUID_DOMAIN_BAKED_PARTICLES) s1;
                       b = free_dir FLUID_DOMAIN_DIR_DATA a;
                       c = free_dir FLUID_DOMAIN_DIR_NOISE b;
                       d = free_dir FLUID_DOMAIN_DIR_MESH c;
                       e = free_dir FLUID_DOMAIN_DIR_PARTICLES d
                   in e\<lparr>sds := (sds e)\<lparr>cache_frame_pause_data := 0\<rparr>\<rparr>)
                else if job_type (job s1) = ''MANTA_OT_free_noise'' then
                  (let a = clear_flags (FLUID_DOMAIN_BAKING_NOISE OR FLUID_DOMAIN_BAKED_NOISE) s1;
                       b = free_dir FLUID_DOMAIN_DIR_NOISE a
                   in b\<lparr>sds := (sds b)\<lparr>cache_frame_pause_noise := 0\<rparr>\<rparr>)
                else if job_type (job s1) = ''MANTA_OT_free_mesh'' then
                  (let a = clear_flags (FLUID_DOMAIN_BAKING_MESH OR FLUID_DOMAIN_BAKED_MESH) s1;
                       b = free_dir FLUID_DOMAIN_DIR_MESH a
                   in b\<lparr>sds := (sds b)\<lparr>cache_frame_pause_mesh := 0\<rparr>\<rparr>)
                else if job_type (job s1) = ''MANTA_OT_free_particles'' then
                  (let a = clear_flags
                             (FLUID_DOMAIN_BAKING_PARTICLES OR FLUID_DOMAIN_BAKED_PARTICLES) s1;
                       b = free_dir FLUID_DOMAIN_DIR_PARTICLES a
                   in b\<lparr>sds := (sds b)\<lparr>cache_frame_pause_particles := 0\<rparr>\<rparr>)
                else if job_type (job s1) = ''MANTA_OT_free_guiding'' then
                  (let a = clear_flags
                             (FLUID_DOMAIN_BAKING_GUIDING OR FLUID_DOMAIN_BAKED_GUIDING) s1;
                       b = free_dir FLUID_DOMAIN_DIR_GUIDING a
                   in b\<lparr>sds := (sds b)\<lparr>cache_frame_pause_guiding := 0\<rparr>\<rparr>)
                else s1)
      in case (do_update (job s2), stop (job s2)) of
           (Some _, Some _) \<Rightarrow>
             Some (s2\<lparr>job := (job s2)\<lparr>do_update := Some True, stop := Some 0\<rparr>,
                      cfra := cache_frame_start (sds s2)\<rparr>)
         | _ \<Rightarrow> None)"

definition fluid_manta_free_endjob :: "manta_state \<Rightarrow> manta_state" where
  "fluid_manta_free_endjob s = job_report (s\<lparr>is_rendering := False\<rparr>)"

subsection \<open>The cache path of a Mantaflow domain\<close>

text \<open>
  What the path resolvers need from the host and the file system: the base for relative
  paths, the default path that \<^verbatim>\<open>modifier_path_init\<close> writes for a default name, the
  path helpers, and the outcome of creating a directory and of probing a file.  The
  constants \<^verbatim>\<open>FILE_MAXDIR\<close>, \<^verbatim>\<open>FILE_MAX\<close>, \<^verbatim>\<open>OB_FLUIDSIM_SURF_DIR_DEFAULT\<close> and
  \<^verbatim>\<open>FLUID_DOMAIN_DIR_DEFAULT\<close> come from headers outside the sources at hand and
  are parameters as well.
\<close>

record path_env =
  relbase :: string
  modifier_path_init :: "string \<Rightarrow> string"
  BLI_path_abs :: "string \<Rightarrow> string \<Rightarrow> string"
  BLI_join_dirfile :: "string \<Rightarrow> string \<Rightarrow> string"
  dir_create_ok :: "string \<Rightarrow> bool"
  file_is_writable :: "string \<Rightarrow> bool"
  FILE_MAXDIR :: nat
  FILE_MAX :: nat
  OB_FLUIDSIM_SURF_DIR_DEFAULT :: string
  FLUID_DOMAIN_DIR_DEFAULT :: string

text \<open>\<^verbatim>\<open>BLI_strncpy\<close> copies at most \<open>maxncpy - 1\<close> characters.\<close>

definition BLI_strncpy :: "nat \<Rightarrow> string \<Rightarrow> string" where
  "BLI_strncpy maxncpy src = take (maxncpy - 1) src"

definition quoted :: "string \<Rightarrow> string" where
  "quoted p = [CHR 0x27] @ p @ [CHR 0x27]"

definition fluid_manta_initpaths ::
  "path_env \<Rightarrow> SmokeDomainSettings \<Rightarrow> report list \<Rightarrow> bool \<times> SmokeDomainSettings \<times> report list" where
  "fluid_manta_initpaths env d0 reps0 =
     (let (d1, reps1) =
            (if cache_directory d0 = [] then
               (let d = d0\<lparr>cache_directory := modifier_path_init env (FLUID_DOMAIN_DIR_DEFAULT env)\<rparr>
                in (d, reps0 @ [(RPT_WARNING,
                      ''Fluid Mantaflow: Empty cache path, reset to default ''
                        @ quoted (cache_directory d))]))
             else (d0, reps0));
          tmpDir = BLI_path_abs env (BLI_strncpy (FILE_MAXDIR env) (cache_directory d1)) (relbase env);
          dir_exists = dir_create_ok env tmpDir
      in if \<not> dir_exists then
           (let d2 = d1\<lparr>cache_directory := modifier_path_init env (FLUID_DOMAIN_DIR_DEFAULT env)\<rparr>;
                reps2 = reps1 @ [(RPT_ERROR,
                      ''Fluid Mantaflow: Could not create cache directory '' @ quoted tmpDir
                        @ '', reset to default '' @ quoted (cache_directory d2))];
                tmpDir2 = BLI_path_abs env (BLI_strncpy (FILE_MAXDIR env) (cache_directory d2))
                            (relbase env);
                reps3 = (if \<not> dir_create_ok env tmpDir2 then
                           reps2 @ [(RPT_ERROR,
                             ''Fluid Mantaflow: Could not use default cache directory ''
                               @ quoted tmpDir2
                               @ '', please define a valid cache path manually'')]
                         else reps2)
            in (False, d2, reps3))
         else (True, d1\<lparr>cache_directory := BLI_strncpy (FILE_MAXDIR env) tmpDir\<rparr>, reps1))"

subsection \<open>The free operator\<close>

text \<open>
  \<^verbatim>\<open>fluid_manta_free_exec\<close> for the operator with the given \<^verbatim>\<open>idname\<close> and
  \<^verbatim>\<open>name\<close>, on the smoke modifier of the active object (\<open>None\<close> when it has none).
  It returns the operator's return value, the modifier, the reports and, when a job was
  handed to the job system, that job.
\<close>

definition fluid_manta_free_exec ::
  "path_env \<Rightarrow> string \<Rightarrow> string \<Rightarrow> SmokeModifierData option \<Rightarrow> report list \<Rightarrow>
   operator_ret \<times> SmokeModifierData option \<times> report list \<times> FluidMantaflowJob option" where
  "fluid_manta_free_exec env idname name smd reps =
     (case smd of
        None \<Rightarrow>
          (OPERATOR_CANCELLED, smd,
           reps @ [(RPT_ERROR, ''Bake free failed: no Fluid modifier found'')], None)
      | Some m \<Rightarrow>
          (case domain m of
             None \<Rightarrow>
               (OPERATOR_CANCELLED, smd,
                reps @ [(RPT_ERROR, ''Bake free failed: invalid domain'')], None)
           | Some d \<Rightarrow>
               if cache_flag d AND (FLUID_DOMAIN_BAKING_DATA OR FLUID_DOMAIN_BAKING_NOISE OR
                                    FLUID_DOMAIN_BAKING_MESH OR FLUID_DOMAIN_BAKING_PARTICLES) \<noteq> 0
               then
                 (OPERATOR_CANCELLED, smd,
                  reps @ [(RPT_ERROR, ''Bake free failed: pending bake jobs found'')], None)
               else
                 (let (ok, d', reps') = fluid_manta_initpaths env d reps;
                      j = \<lparr>job_type = idname, job_name = name, success = 0, pause_frame = None,
                           stop = None, do_update = None, progress = None\<rparr>
                  in (OPERATOR_FINISHED, Some (m\<lparr>domain := Some d'\<rparr>), reps', Some j))))"

text \<open>
  The free job as the job system runs it on the domain: start hook with the job system's
  own cells for \<^verbatim>\<open>stop\<close>, \<^verbatim>\<open>do_update\<close> and \<^verbatim>\<open>progress\<close>, then the end hook.
\<close>

definition fluid_manta_free_job :: "manta_state \<Rightarrow> manta_state option" where
  "fluid_manta_free_job s =
     map_option fluid_manta_free_endjob
       (fluid_manta_free_startjob (Some 0) (Some False) (Some 0) s)"

section \<open>Legacy bake\<close>

subsection \<open>Scene, objects and fluid settings\<close>

type_synonym vec3 = "real \<times> real \<times> real"

type_synonym mat4 = "real list list"

definition vec_list :: "vec3 \<Rightarrow> real list" where
  "vec_list v = (case v of (x, y, z) \<Rightarrow> [x, y, z])"

definition mul_v3_fl :: "vec3 \<Rightarrow> real \<Rightarrow> vec3" where
  "mul_v3_fl v f = (case v of (x, y, z) \<Rightarrow> (x * f, y * f, z * f))"

text \<open>
  The object kinds \<^verbatim>\<open>OB_FLUIDSIM_*\<close> of \<^verbatim>\<open>DNA_object_fluidsim_types.h\<close>, the values
  of the field \<^verbatim>\<open>type\<close>.
\<close>

datatype fluidsim_type =
  OB_FLUIDSIM_DOMAIN | OB_FLUIDSIM_FLUID | OB_FLUIDSIM_OBSTACLE | OB_FLUIDSIM_INFLOW
| OB_FLUIDSIM_OUTFLOW | OB_FLUIDSIM_PARTICLE | OB_FLUIDSIM_CONTROL

text \<open>
  The fields of \<^verbatim>\<open>FluidsimSettings\<close> that sampling, validation, the bake and the
  export of the meshes read or write.  \<open>active\<close> and \<open>reverse\<close> are the bits
  \<^verbatim>\<open>OB_FLUIDSIM_ACTIVE\<close> and \<^verbatim>\<open>OB_FLUIDSIM_REVERSE\<close> of \<^verbatim>\<open>flag\<close>; \<open>fsbnd_noslip\<close>,
  \<open>fsbnd_partslip\<close>, \<open>fsbnd_freeslip\<close> and \<open>fsinflow_localcoord\<close> are the bits
  \<^verbatim>\<open>OB_FSBND_NOSLIP\<close>, \<^verbatim>\<open>OB_FSBND_PARTSLIP\<close>, \<^verbatim>\<open>OB_FSBND_FREESLIP\<close> and
  \<^verbatim>\<open>OB_FSINFLOW_LOCALCOORD\<close> of \<^verbatim>\<open>typeFlags\<close>; \<open>iniVel\<close> is the three floats starting
  at \<^verbatim>\<open>iniVelx\<close>.
\<close>

record FluidsimSettings =
  fss_type :: fluidsim_type
  active :: bool
  domainNovecgen :: bool
  animRate :: real
  animStart :: real
  animEnd :: real
  viscosityValue :: real
  viscosityExponent :: int
  grav :: vec3
  iniVel :: vec3
  attractforceStrength :: real
  attractforceRadius :: real
  velocityforceStrength :: real
  velocityforceRadius :: real
  bakeStart :: int
  bakeEnd :: int
  lastgoodframe :: int
  surfdataPath :: string
  resolutionxyz :: int
  previewresxyz :: int
  maxRefine :: int
  reverse :: bool
  fsbnd_noslip :: bool
  fsbnd_partslip :: bool
  fsbnd_freeslip :: bool
  fsinflow_localcoord :: bool
  partSlipValue :: real
  volumeInitType :: int
  surfaceSmoothing :: real
  cpsTimeStart :: real
  cpsTimeEnd :: real
  cpsQuality :: real

text \<open>
  An object: whether it is a mesh (\<^verbatim>\<open>ob->type == OB_MESH\<close>), the settings of its
  fluid modifier (\<open>None\<close> when \<^verbatim>\<open>modifiers_findByType\<close> finds none), and the
  fields \<^verbatim>\<open>loc\<close>, \<^verbatim>\<open>size\<close> and \<^verbatim>\<open>obmat\<close>.
\<close>

record Object =
  ob_name :: string
  is_mesh :: bool
  fluidmd :: "FluidsimSettings option"
  ob_loc :: vec3
  ob_size :: vec3
  obmat :: mat4

text \<open>
  The scene: the objects of \<^verbatim>\<open>scene->base\<close> in order, as pointers into the object
  store \<open>obs\<close>; current and end frame; the global gravity switch and vector.
\<close>

record Scene =
  base :: "nat list"
  obs :: "nat \<Rightarrow> Object"
  r_cfra :: int
  r_efra :: int
  global_gravity :: bool
  physics_gravity :: vec3

text \<open>
  The value of \<^verbatim>\<open>obstacleType\<close> of a mesh handed to the solver: one of the three
  boundary kinds, or, for a control object, the bit \<^verbatim>\<open>OB_FLUIDSIM_REVERSE\<close> of the
  object's \<^verbatim>\<open>flag\<close>.
\<close>

datatype obstacle_type =
  FLUIDSIM_OBSTACLE_NOSLIP | FLUIDSIM_OBSTACLE_PARTSLIP | FLUIDSIM_OBSTACLE_FREESLIP
| ReverseBit bool

text \<open>
  \<^verbatim>\<open>elbeemMesh\<close>, the description of one object for the solver.  A channel is a pointer
  to a buffer of floats, the vertex channel an address in the heap of vertex caches.
\<close>

record elbeemMesh =
  mesh_type :: fluidsim_type
  mesh_name :: string
  numVertices :: int
  numTriangles :: int
  vertices :: "vec3 list"
  triangles :: "(int \<times> int \<times> int) list"
  channelSizeTranslation :: int
  channelSizeRotation :: int
  channelSizeScale :: int
  channelSizeInitialVel :: int
  channelSizeActive :: int
  channelTranslation :: "real list option"
  channelRotation :: "real list option"
  channelScale :: "real list option"
  channelActive :: "real list option"
  channelInitialVel :: "real list option"
  localInivelCoords :: int
  obstacleType :: obstacle_type
  obstaclePartslip :: real
  mesh_volumeInitType :: int
  obstacleImpactFactor :: real
  mesh_cpsTimeStart :: real
  mesh_cpsTimeEnd :: real
  mesh_cpsQuality :: real
  channelSizeAttractforceStrength :: int
  channelSizeAttractforceRadius :: int
  channelSizeVelocityforceStrength :: int
  channelSizeVelocityforceRadius :: int
  channelAttractforceStrength :: "real list option"
  channelAttractforceRadius :: "real list option"
  channelVelocityforceStrength :: "real list option"
  channelVelocityforceRadius :: "real list option"
  channelSizeVertices :: int
  channelVertices :: "nat option"

text \<open>
  The host functions the legacy bake calls: the scene update after a frame change (it may
  rewrite any object), the mesh of an object as \<^verbatim>\<open>initElbeemMesh\<close> delivers it
  (vertices and triangles, in local or global coordinates), the compatible Euler
  decomposition, the matrix inverse (\<open>None\<close> when the matrix is singular) and the
  mesh description as the solver's \<^verbatim>\<open>elbeemResetMesh\<close> initialises it.
\<close>

record legacy_host =
  ED_update_for_newframe :: "Scene \<Rightarrow> Scene"
  initElbeemMesh :: "Scene \<Rightarrow> nat \<Rightarrow> bool \<Rightarrow> vec3 list \<times> (int \<times> int \<times> int) list"
  mat4_to_compatible_eulO :: "vec3 \<Rightarrow> mat4 \<Rightarrow> vec3"
  invert_m4_m4 :: "mat4 \<Rightarrow> mat4 option"
  elbeemResetMesh :: elbeemMesh

definition get_fluid_viscosity :: "FluidsimSettings \<Rightarrow> real" where
  "get_fluid_viscosity settings = (1 / (10 powi viscosityExponent settings)) * viscosityValue settings"

definition get_fluid_rate :: "FluidsimSettings \<Rightarrow> real" where
  "get_fluid_rate settings = (let rate = animRate settings in if rate < 0 then 0 else rate)"

definition get_fluid_gravity :: "Scene \<Rightarrow> FluidsimSettings \<Rightarrow> vec3" where
  "get_fluid_gravity scene fss = (if global_gravity scene then physics_gravity scene else grav fss)"

definition fluid_is_animated_mesh :: "FluidsimSettings \<Rightarrow> bool" where
  "fluid_is_animated_mesh fss = (fss_type fss = OB_FLUIDSIM_CONTROL \<or> domainNovecgen fss)"

subsection \<open>Memory\<close>

text \<open>
  Faults of the C program are results of the model.  A channel buffer is a list of
  floats behind a pointer (\<open>None\<close> is \<^verbatim>\<open>NULL\<close>).  The vertex caches live in an explicit
  heap, because a cache can be freed while the object still points at it: an address is
  an index into the heap, a block is live with its contents or has been freed.
\<close>

datatype mem_error = NullDeref | OutOfBounds | UseAfterFree | DoubleFree

datatype mem_block = Live "real list" | Freed

type_synonym heap = "mem_block list"

definition then_do :: "mem_error + 'a \<Rightarrow> ('a \<Rightarrow> mem_error + 'b) \<Rightarrow> mem_error + 'b" where
  "then_do m f = (case m of Inl e \<Rightarrow> Inl e | Inr x \<Rightarrow> f x)"

fun for_each :: "('a \<Rightarrow> 's \<Rightarrow> mem_error + 's) \<Rightarrow> 'a list \<Rightarrow> 's \<Rightarrow> mem_error + 's" where
  "for_each body [] s = Inr s"
| "for_each body (x # xs) s = then_do (body x s) (for_each body xs)"

definition load :: "real list \<Rightarrow> int \<Rightarrow> mem_error + real" where
  "load c k = (if 0 \<le> k \<and> k < int (length c) then Inr (c ! nat k) else Inl OutOfBounds)"

definition store :: "real list \<Rightarrow> int \<Rightarrow> real \<Rightarrow> mem_error + real list" where
  "store c k v = (if 0 \<le> k \<and> k < int (length c) then Inr (c[nat k := v]) else Inl OutOfBounds)"

definition deref :: "'a option \<Rightarrow> mem_error + 'a" where
  "deref p = (case p of None \<Rightarrow> Inl NullDeref | Some x \<Rightarrow> Inr x)"

text \<open>\<^verbatim>\<open>MEM_callocN\<close> of \<open>n\<close> floats: a zeroed buffer.\<close>

definition MEM_callocN :: "int \<Rightarrow> real list" where
  "MEM_callocN n = replicate (nat n) 0"

definition heap_alloc :: "heap \<Rightarrow> int \<Rightarrow> nat \<times> heap" where
  "heap_alloc h n = (length h, h @ [Live (MEM_callocN n)])"

definition heap_store :: "heap \<Rightarrow> nat \<Rightarrow> int \<Rightarrow> real \<Rightarrow> mem_error + heap" where
  "heap_store h a k v =
     (if a < length h then
        (case h ! a of
           Freed \<Rightarrow> Inl UseAfterFree
         | Live c \<Rightarrow> then_do (store c k v) (\<lambda>c'. Inr (h[a := Live c'])))
      else Inl OutOfBounds)"

definition MEM_freeN :: "heap \<Rightarrow> nat \<Rightarrow> mem_error + heap" where
  "MEM_freeN h a =
     (if a < length h then
        (case h ! a of
           Freed \<Rightarrow> Inl DoubleFree
         | Live c \<Rightarrow> Inr (h[a := Freed]))
      else Inl OutOfBounds)"

text \<open>
  \<^verbatim>\<open>MEM_freeN\<close> of a channel buffer, followed by the assignment of \<^verbatim>\<open>NULL\<close> to
  the pointer.  Freeing a null pointer is a fault.
\<close>

definition free_channel :: "real list option \<Rightarrow> mem_error + real list option" where
  "free_channel c = then_do (deref c) (\<lambda>buf. Inr None)"

subsection \<open>Animation channels\<close>

record FluidAnimChannels =
  chan_length :: int
  aniFrameTime :: real
  timeAtFrame :: "real list option"
  DomainTime :: "real list option"
  DomainGravity :: "real list option"
  DomainViscosity :: "real list option"

record FluidObject =
  object :: nat
  Translation :: "real list option"
  Rotation :: "real list option"
  Scale :: "real list option"
  Active :: "real list option"
  InitialVelocity :: "real list option"
  AttractforceStrength :: "real list option"
  AttractforceRadius :: "real list option"
  VelocityforceStrength :: "real list option"
  VelocityforceRadius :: "real list option"
  VertexCache :: "nat option"
  numVerts :: int
  numTris :: int

definition CHANNEL_FLOAT :: int where
  "CHANNEL_FLOAT = 1"

definition CHANNEL_VEC :: int where
  "CHANNEL_VEC = 3"

definition init_time :: "FluidsimSettings \<Rightarrow> FluidAnimChannels \<Rightarrow> mem_error + FluidAnimChannels" where
  "init_time domainSettings channels =
     then_do (store (MEM_callocN (chan_length channels + 1)) 1 (animStart domainSettings)) (\<lambda>t1.
     then_do (store t1 0 (animStart domainSettings)) (\<lambda>t0.
     then_do (for_each (\<lambda>i t. then_do (load t (i - 1)) (\<lambda>prev.
                                 store t i (prev + aniFrameTime channels)))
                (map int [2..<nat (chan_length channels + 1)]) t0) (\<lambda>t.
     Inr (channels\<lparr>timeAtFrame := Some t\<rparr>))))"

definition set_channel ::
  "real list option \<Rightarrow> real \<Rightarrow> real list \<Rightarrow> int \<Rightarrow> int \<Rightarrow> mem_error + real list option" where
  "set_channel channel time val i size' =
     (if size' = CHANNEL_FLOAT then
        then_do (deref channel) (\<lambda>c.
        then_do (load val 0) (\<lambda>v0.
        then_do (store c ((i * 2) + 0) v0) (\<lambda>c1.
        then_do (store c1 ((i * 2) + 1) time) (\<lambda>c2.
        Inr (Some c2)))))
      else if size' = CHANNEL_VEC then
        then_do (deref channel) (\<lambda>c.
        then_do (load val 0) (\<lambda>v0.
        then_do (store c ((i * 4) + 0) v0) (\<lambda>c1.
        then_do (load val 1) (\<lambda>v1.
        then_do (store c1 ((i * 4) + 1) v1) (\<lambda>c2.
        then_do (load val 2) (\<lambda>v2.
        then_do (store c2 ((i * 4) + 2) v2) (\<lambda>c3.
        then_do (store c3 ((i * 4) + 3) time) (\<lambda>c4.
        Inr (Some c4)))))))))
      else Inr channel)"

text \<open>
  \<^verbatim>\<open>set_vertex_channel\<close>.  \<open>channel\<close> is the pointer value the caller passes, a copy
  of \<^verbatim>\<open>fobj->VertexCache\<close>; the function can free the block it points to, but the
  assignment \<^verbatim>\<open>channel = NULL\<close> changes the copy only, so the result is the heap alone
  and the object keeps its pointer.
\<close>

definition set_vertex_channel ::
  "legacy_host \<Rightarrow> nat option \<Rightarrow> real \<Rightarrow> Scene \<Rightarrow> FluidObject \<Rightarrow> int \<Rightarrow> heap \<Rightarrow> mem_error + heap" where
  "set_vertex_channel host channel time scene fobj i h =
     (let framesize = (3 * numVerts fobj) + 1
      in case channel of
           None \<Rightarrow> Inr h
         | Some a \<Rightarrow>
             (let (mesh_verts, mesh_tris) = initElbeemMesh host scene (object fobj) True;
                  verts = concat (map vec_list mesh_verts);
                  numVerts' = int (length mesh_verts)
              in if numVerts' \<noteq> numVerts fobj then MEM_freeN h a
                 else
                   then_do (for_each (\<lambda>j h'. then_do (load verts j)
                                        (\<lambda>v. heap_store h' a (i * framesize + j) v))
                              (map int [0..<nat (3 * numVerts')]) h) (\<lambda>h1.
                   heap_store h1 a (i * framesize + framesize - 1) time)))"

subsection \<open>Sampling the scene into the channels\<close>

text \<open>
  \<^verbatim>\<open>domainSettings\<close> points at the settings of the domain object's fluid modifier; it
  is read through the scene at the moment of each access.
\<close>

definition fss_of :: "Scene \<Rightarrow> nat \<Rightarrow> mem_error + FluidsimSettings" where
  "fss_of scene ob = deref (fluidmd (obs scene ob))"

definition empty_FluidObject :: "nat \<Rightarrow> FluidObject" where
  "empty_FluidObject ob =
     \<lparr>object = ob, Translation = None, Rotation = None, Scale = None, Active = None,
      InitialVelocity = None, AttractforceStrength = None, AttractforceRadius = None,
      VelocityforceStrength = None, VelocityforceRadius = None, VertexCache = None,
      numVerts = 0, numTris = 0\<rparr>"

text \<open>The first loop of \<^verbatim>\<open>fluid_init_all_channels\<close>: one \<^verbatim>\<open>FluidObject\<close> per object with a fluid modifier.\<close>

fun allocate_fluid_objects ::
  "legacy_host \<Rightarrow> Scene \<Rightarrow> int \<Rightarrow> nat list \<Rightarrow> FluidObject list \<times> heap \<Rightarrow> FluidObject list \<times> heap" where
  "allocate_fluid_objects host scene len [] acc = acc"
| "allocate_fluid_objects host scene len (ob # rest) (fobjects, h) =
     (case fluidmd (obs scene ob) of
        None \<Rightarrow> allocate_fluid_objects host scene len rest (fobjects, h)
      | Some fss \<Rightarrow>
          (let fobj = empty_FluidObject ob
           in if fss_type fss = OB_FLUIDSIM_DOMAIN \<or> fss_type fss = OB_FLUIDSIM_PARTICLE then
                allocate_fluid_objects host scene len rest (fobjects @ [fobj], h)
              else
                (let fobj1 = fobj
                       \<lparr>Translation := Some (MEM_callocN (len * (CHANNEL_VEC + 1))),
                        Rotation := Some (MEM_callocN (len * (CHANNEL_VEC + 1))),
                        Scale := Some (MEM_callocN (len * (CHANNEL_VEC + 1))),
                        Active := Some (MEM_callocN (len * (CHANNEL_FLOAT + 1))),
                        InitialVelocity := Some (MEM_callocN (len * (CHANNEL_VEC + 1)))\<rparr>;
                     fobj2 = (if fss_type fss = OB_FLUIDSIM_CONTROL then
                                fobj1
                                  \<lparr>AttractforceStrength := Some (MEM_callocN (len * (CHANNEL_FLOAT + 1))),
                                   AttractforceRadius := Some (MEM_callocN (len * (CHANNEL_FLOAT + 1))),
                                   VelocityforceStrength := Some (MEM_callocN (len * (CHANNEL_FLOAT + 1))),
                                   VelocityforceRadius := Some (MEM_callocN (len * (CHANNEL_FLOAT + 1)))\<rparr>
                              else fobj1);
                     (fobj3, h') =
                       (if fluid_is_animated_mesh fss then
                          (let (mesh_verts, mesh_tris) = initElbeemMesh host scene ob False;
                               nv = int (length mesh_verts);
                               (a, h1) = heap_alloc h (len * ((nv * CHANNEL_VEC) + 1))
                           in (fobj2\<lparr>numVerts := nv, numTris := int (length mesh_tris),
                                     VertexCache := Some a\<rparr>, h1))
                        else (fobj2, h))
                 in allocate_fluid_objects host scene len rest (fobjects @ [fobj3], h'))))"

text \<open>
  The body of the inner loop over the fluid objects, for frame index \<open>i\<close>, in four
  parts: the reference rotation taken from the previous sample, the five transform
  channels, the four control-force channels, and the object as a whole with its vertex
  cache.
\<close>

definition previous_rotation :: "FluidObject \<Rightarrow> int \<Rightarrow> mem_error + vec3" where
  "previous_rotation fobj i =
     (if i \<noteq> 0 then
        then_do (deref (Rotation fobj)) (\<lambda>r.
        then_do (load r (4 * (i - 1) + 0)) (\<lambda>x.
        then_do (load r (4 * (i - 1) + 1)) (\<lambda>y.
        then_do (load r (4 * (i - 1) + 2)) (\<lambda>z.
        Inr (mul_v3_fl (x, y, z) (- pi / 180))))))
      else Inr (0, 0, 0))"

definition sample_transform ::
  "Object \<Rightarrow> FluidsimSettings \<Rightarrow> vec3 \<Rightarrow> int \<Rightarrow> real \<Rightarrow> FluidObject \<Rightarrow> mem_error + FluidObject" where
  "sample_transform ob fss rot_d i timeAtFrame' fobj =
     (let active' = (if active fss then 1 else 0)
      in then_do (set_channel (Translation fobj) timeAtFrame' (vec_list (ob_loc ob)) i CHANNEL_VEC) (\<lambda>tr.
         then_do (set_channel (Rotation fobj) timeAtFrame' (vec_list rot_d) i CHANNEL_VEC) (\<lambda>ro.
         then_do (set_channel (Scale fobj) timeAtFrame' (vec_list (ob_size ob)) i CHANNEL_VEC) (\<lambda>sc.
         then_do (set_channel (Active fobj) timeAtFrame' [active'] i CHANNEL_FLOAT) (\<lambda>ac.
         then_do (set_channel (InitialVelocity fobj) timeAtFrame' (vec_list (iniVel fss)) i CHANNEL_VEC) (\<lambda>iv.
         Inr (fobj\<lparr>Translation := tr, Rotation := ro, Scale := sc, Active := ac,
                    InitialVelocity := iv\<rparr>)))))))"

definition sample_control ::
  "FluidsimSettings \<Rightarrow> int \<Rightarrow> real \<Rightarrow> FluidObject \<Rightarrow> mem_error + FluidObject" where
  "sample_control fss i timeAtFrame' fobj =
     (if fss_type fss = OB_FLUIDSIM_CONTROL then
        then_do (set_channel (AttractforceStrength fobj) timeAtFrame'
                   [attractforceStrength fss] i CHANNEL_FLOAT) (\<lambda>a1.
        then_do (set_channel (AttractforceRadius fobj) timeAtFrame'
                   [attractforceRadius fss] i CHANNEL_FLOAT) (\<lambda>a2.
        then_do (set_channel (VelocityforceStrength fobj) timeAtFrame'
                   [velocityforceStrength fss] i CHANNEL_FLOAT) (\<lambda>a3.
        then_do (set_channel (VelocityforceRadius fobj) timeAtFrame'
                   [velocityforceRadius fss] i CHANNEL_FLOAT) (\<lambda>a4.
        Inr (fobj\<lparr>AttractforceStrength := a1, AttractforceRadius := a2,
                   VelocityforceStrength := a3, VelocityforceRadius := a4\<rparr>)))))
      else Inr fobj)"

definition sample_object ::
  "legacy_host \<Rightarrow> Scene \<Rightarrow> int \<Rightarrow> real \<Rightarrow> FluidObject \<Rightarrow> heap \<Rightarrow> mem_error + FluidObject \<times> heap" where
  "sample_object host scene i timeAtFrame' fobj h =
     (let ob = obs scene (object fobj)
      in then_do (deref (fluidmd ob)) (\<lambda>fss.
         if fss_type fss = OB_FLUIDSIM_DOMAIN \<or> fss_type fss = OB_FLUIDSIM_PARTICLE then Inr (fobj, h)
         else
           then_do (previous_rotation fobj i) (\<lambda>old_rot.
           let rot_d = mul_v3_fl (mat4_to_compatible_eulO host old_rot (obmat ob)) (- 180 / pi)
           in then_do (sample_transform ob fss rot_d i timeAtFrame' fobj) (\<lambda>fobj1.
              then_do (sample_control fss i timeAtFrame' fobj1) (\<lambda>fobj2.
              if fluid_is_animated_mesh fss then
                then_do (set_vertex_channel host (VertexCache fobj2) timeAtFrame' scene fobj2 i h)
                  (\<lambda>h'. Inr (fobj2, h'))
              else Inr (fobj2, h))))))"

fun sample_objects ::
  "legacy_host \<Rightarrow> Scene \<Rightarrow> int \<Rightarrow> real \<Rightarrow> FluidObject list \<Rightarrow> heap \<Rightarrow>
   mem_error + FluidObject list \<times> heap" where
  "sample_objects host scene i t [] h = Inr ([], h)"
| "sample_objects host scene i t (fobj # rest) h =
     then_do (sample_object host scene i t fobj h) (\<lambda>(fobj', h1).
     then_do (sample_objects host scene i t rest h1) (\<lambda>(rest', h2).
     Inr (fobj' # rest', h2)))"

text \<open>
  The state of the sampling loop: the scene, the domain channels, the fluid objects and
  the heap of vertex caches.
\<close>

record sampling =
  smp_scene :: Scene
  smp_channels :: FluidAnimChannels
  smp_fobjects :: "FluidObject list"
  smp_heap :: heap

text \<open>
  The body of the loop over the frames, for frame index \<open>i\<close>: first the time of the
  frame, then the domain channels and the objects.
\<close>

definition sample_domain_time ::
  "FluidsimSettings \<Rightarrow> FluidAnimChannels \<Rightarrow> int \<Rightarrow> mem_error + FluidAnimChannels \<times> real" where
  "sample_domain_time domainSettings channels i =
     (if DomainTime channels \<noteq> None then
        (let time = get_fluid_rate domainSettings * aniFrameTime channels
         in then_do (deref (timeAtFrame channels)) (\<lambda>taf.
            then_do (load taf i) (\<lambda>prev.
            let timeAtFrame' = prev + time
            in then_do (store taf (i + 1) timeAtFrame') (\<lambda>taf'.
               then_do (set_channel (DomainTime channels) (real_of_int i) [time] i CHANNEL_FLOAT) (\<lambda>dt.
               Inr (channels\<lparr>timeAtFrame := Some taf', DomainTime := dt\<rparr>, timeAtFrame'))))))
      else
        then_do (deref (timeAtFrame channels)) (\<lambda>taf.
        then_do (load taf (i + 1)) (\<lambda>timeAtFrame'.
        Inr (channels, timeAtFrame'))))"

definition sample_frame :: "legacy_host \<Rightarrow> nat \<Rightarrow> int \<Rightarrow> sampling \<Rightarrow> mem_error + sampling" where
  "sample_frame host domain_ob i s =
     then_do (fss_of (smp_scene s) domain_ob) (\<lambda>before.
     let eval_time = bakeStart before + i;
         scene = ED_update_for_newframe host ((smp_scene s)\<lparr>r_cfra := eval_time\<rparr>)
     in then_do (fss_of scene domain_ob) (\<lambda>domainSettings.
        then_do (sample_domain_time domainSettings (smp_channels s) i) (\<lambda>(channels1, timeAtFrame').
        let gravity = get_fluid_gravity scene domainSettings
        in then_do (set_channel (DomainGravity channels1) timeAtFrame' (vec_list gravity) i CHANNEL_VEC) (\<lambda>dg.
           let viscosity = get_fluid_viscosity domainSettings
           in then_do (set_channel (DomainViscosity channels1) timeAtFrame' [viscosity] i CHANNEL_FLOAT) (\<lambda>dv.
              then_do (sample_objects host scene i timeAtFrame' (smp_fobjects s) (smp_heap s))
                (\<lambda>(fobjects, h).
              Inr \<lparr>smp_scene = scene,
                   smp_channels = channels1\<lparr>DomainGravity := dg, DomainViscosity := dv\<rparr>,
                   smp_fobjects = fobjects, smp_heap = h\<rparr>))))))"

text \<open>
  \<^verbatim>\<open>fluid_init_all_channels\<close>.  The frame loop runs its body for the indices
  \<open>0, \<dots>, length - 1\<close>; nothing in the body writes \<^verbatim>\<open>channels->length\<close>.
\<close>

definition fluid_init_all_channels ::
  "legacy_host \<Rightarrow> Scene \<Rightarrow> nat \<Rightarrow> FluidAnimChannels \<Rightarrow> FluidObject list \<Rightarrow> heap \<Rightarrow>
   mem_error + sampling" where
  "fluid_init_all_channels host scene domain_ob channels fobjects h =
     (let len = chan_length channels
      in then_do (fss_of scene domain_ob) (\<lambda>domainSettings.
         then_do (init_time domainSettings channels) (\<lambda>channels1.
         let channels2 = channels1
               \<lparr>DomainGravity := Some (MEM_callocN (len * (CHANNEL_VEC + 1))),
                DomainViscosity := Some (MEM_callocN (len * (CHANNEL_FLOAT + 1))),
                DomainTime := Some (MEM_callocN (len * (CHANNEL_FLOAT + 1)))\<rparr>;
             (fobjects1, h1) = allocate_fluid_objects host scene len (base scene) (fobjects, h)
         in for_each (sample_frame host domain_ob)
              (map int [0..<nat (chan_length channels2)])
              \<lparr>smp_scene = scene, smp_channels = channels2,
               smp_fobjects = fobjects1, smp_heap = h1\<rparr>)))"

subsection \<open>Handing the objects to the solver\<close>

text \<open>
  The body of the loop of \<^verbatim>\<open>export_fluid_objects\<close>: the mesh description built for one
  fluid object, \<open>None\<close> for a domain or particle object, which the loop skips.  The
  function passes the channel pointers on as they are, the vertex cache too.
\<close>

definition export_fluid_object ::
  "legacy_host \<Rightarrow> Scene \<Rightarrow> int \<Rightarrow> FluidObject \<Rightarrow> mem_error + elbeemMesh option" where
  "export_fluid_object host scene len fobj =
     (let ob = obs scene (object fobj)
      in then_do (deref (fluidmd ob)) (\<lambda>fss.
         let deform = fluid_is_animated_mesh fss
         in if fss_type fss = OB_FLUIDSIM_DOMAIN \<or> fss_type fss = OB_FLUIDSIM_PARTICLE then Inr None
            else
              (let (verts, tris) = initElbeemMesh host scene (object fobj) False;
                   m1 = (elbeemResetMesh host)
                     \<lparr>mesh_type := fss_type fss, mesh_name := ob_name ob,
                      numVertices := int (length verts), numTriangles := int (length tris),
                      vertices := verts, triangles := tris,
                      channelSizeTranslation := len, channelSizeRotation := len,
                      channelSizeScale := len, channelSizeInitialVel := len,
                      channelSizeActive := len,
                      channelTranslation := Translation fobj, channelRotation := Rotation fobj,
                      channelScale := Scale fobj, channelActive := Active fobj\<rparr>;
                   m2 = (if mesh_type m1 = OB_FLUIDSIM_FLUID \<or> mesh_type m1 = OB_FLUIDSIM_INFLOW then
                           m1\<lparr>channelInitialVel := InitialVelocity fobj,
                              localInivelCoords := (if fsinflow_localcoord fss then 1 else 0)\<rparr>
                         else m1);
                   m3 = (if fsbnd_noslip fss then m2\<lparr>obstacleType := FLUIDSIM_OBSTACLE_NOSLIP\<rparr>
                         else if fsbnd_partslip fss then m2\<lparr>obstacleType := FLUIDSIM_OBSTACLE_PARTSLIP\<rparr>
                         else if fsbnd_freeslip fss then m2\<lparr>obstacleType := FLUIDSIM_OBSTACLE_FREESLIP\<rparr>
                         else m2);
                   m4 = m3\<lparr>obstaclePartslip := partSlipValue fss,
                           mesh_volumeInitType := volumeInitType fss,
                           obstacleImpactFactor := surfaceSmoothing fss\<rparr>;
                   m5 = (if mesh_type m4 = OB_FLUIDSIM_CONTROL then
                           m4\<lparr>mesh_cpsTimeStart := cpsTimeStart fss, mesh_cpsTimeEnd := cpsTimeEnd fss,
                              mesh_cpsQuality := cpsQuality fss, obstacleType := ReverseBit (reverse fss),
                              channelSizeAttractforceRadius := len,
                              channelSizeVelocityforceStrength := len,
                              channelSizeVelocityforceRadius := len,
                              channelSizeAttractforceStrength := len,
                              channelAttractforceStrength := AttractforceStrength fobj,
                              channelAttractforceRadius := AttractforceRadius fobj,
                              channelVelocityforceStrength := VelocityforceStrength fobj,
                              channelVelocityforceRadius := VelocityforceRadius fobj\<rparr>
                         else
                           m4\<lparr>channelAttractforceStrength := None, channelAttractforceRadius := None,
                              channelVelocityforceStrength := None,
                              channelVelocityforceRadius := None\<rparr>);
                   m6 = (if deform then
                           (let m = m5\<lparr>channelSizeVertices := len, channelVertices := VertexCache fobj,
                                       channelTranslation := None, channelRotation := None,
                                       channelScale := None\<rparr>
                            in if mesh_type m \<noteq> OB_FLUIDSIM_CONTROL
                               then m\<lparr>obstacleType := FLUIDSIM_OBSTACLE_NOSLIP\<rparr> else m)
                         else m5)
               in Inr (Some m6))))"

text \<open>
  \<^verbatim>\<open>export_fluid_objects\<close>: the meshes given to \<^verbatim>\<open>elbeemAddMesh\<close>, in the order of
  the calls.
\<close>

definition export_fluid_objects ::
  "legacy_host \<Rightarrow> FluidObject list \<Rightarrow> Scene \<Rightarrow> int \<Rightarrow> mem_error + elbeemMesh list" where
  "export_fluid_objects host fobjects scene len =
     for_each (\<lambda>fobj added. then_do (export_fluid_object host scene len fobj)
                 (\<lambda>m. Inr (case m of None \<Rightarrow> added | Some fsmesh \<Rightarrow> added @ [fsmesh])))
       fobjects []"

subsection \<open>Freeing the channels\<close>

definition free_domain_channels :: "FluidAnimChannels \<Rightarrow> mem_error + FluidAnimChannels" where
  "free_domain_channels channels =
     (if timeAtFrame channels = None then Inr channels
      else
        then_do (free_channel (timeAtFrame channels)) (\<lambda>taf.
        then_do (free_channel (DomainGravity channels)) (\<lambda>dg.
        then_do (free_channel (DomainViscosity channels)) (\<lambda>dv.
        then_do (free_channel (DomainTime channels)) (\<lambda>dt.
        Inr (channels\<lparr>timeAtFrame := taf, DomainGravity := dg, DomainViscosity := dv,
                       DomainTime := dt\<rparr>))))))"

text \<open>
  The body of the loop of \<^verbatim>\<open>free_all_fluidobject_channels\<close>, in three parts as in the
  code: the transform channels, the control-force channels, the vertex cache.  The
  vertex cache is freed when the object's pointer is not null, whether or not the block
  behind it is still live.
\<close>

definition free_transform_channels :: "FluidObject \<Rightarrow> mem_error + FluidObject" where
  "free_transform_channels fobj =
     (if Translation fobj \<noteq> None then
        then_do (free_channel (Translation fobj)) (\<lambda>tr.
        then_do (free_channel (Rotation fobj)) (\<lambda>ro.
        then_do (free_channel (Scale fobj)) (\<lambda>sc.
        then_do (free_channel (Active fobj)) (\<lambda>ac.
        then_do (free_channel (InitialVelocity fobj)) (\<lambda>iv.
        Inr (fobj\<lparr>Translation := tr, Rotation := ro, Scale := sc, Active := ac,
                   InitialVelocity := iv\<rparr>))))))
      else Inr fobj)"

definition free_control_channels :: "FluidObject \<Rightarrow> mem_error + FluidObject" where
  "free_control_channels fobj =
     (if AttractforceStrength fobj \<noteq> None then
        then_do (free_channel (AttractforceStrength fobj)) (\<lambda>a1.
        then_do (free_channel (AttractforceRadius fobj)) (\<lambda>a2.
        then_do (free_channel (VelocityforceStrength fobj)) (\<lambda>a3.
        then_do (free_channel (VelocityforceRadius fobj)) (\<lambda>a4.
        Inr (fobj\<lparr>AttractforceStrength := a1, AttractforceRadius := a2,
                   VelocityforceStrength := a3, VelocityforceRadius := a4\<rparr>)))))
      else Inr fobj)"

definition free_fluidobject_channels ::
  "FluidObject \<Rightarrow> heap \<Rightarrow> mem_error + FluidObject \<times> heap" where
  "free_fluidobject_channels fobj h =
     then_do (free_transform_channels fobj) (\<lambda>fobj1.
     then_do (free_control_channels fobj1) (\<lambda>fobj2.
     case VertexCache fobj2 of
       None \<Rightarrow> Inr (fobj2, h)
     | Some a \<Rightarrow> then_do (MEM_freeN h a) (\<lambda>h'. Inr (fobj2\<lparr>VertexCache := None\<rparr>, h'))))"

fun free_all_fluidobject_channels ::
  "FluidObject list \<Rightarrow> heap \<Rightarrow> mem_error + FluidObject list \<times> heap" where
  "free_all_fluidobject_channels [] h = Inr ([], h)"
| "free_all_fluidobject_channels (fobj # rest) h =
     then_do (free_fluidobject_channels fobj h) (\<lambda>(fobj', h1).
     then_do (free_all_fluidobject_channels rest h1) (\<lambda>(rest', h2).
     Inr (fobj' # rest', h2)))"

text \<open>
  \<^verbatim>\<open>fluidbake_free_data\<close>: the domain channels, then the channels of all objects,
  then the list of objects itself.  What is left is the heap of vertex caches.  The
  blocks of the channel record, the list head, the solver settings and the job data hold
  nothing that is modelled.
\<close>

definition fluidbake_free_data ::
  "FluidAnimChannels \<Rightarrow> FluidObject list \<Rightarrow> heap \<Rightarrow> mem_error + heap" where
  "fluidbake_free_data channels fobjects h =
     then_do (free_domain_channels channels) (\<lambda>channels'.
     then_do (free_all_fluidobject_channels fobjects h) (\<lambda>(fobjects', h').
     Inr h'))"

subsection \<open>Scene validation\<close>

text \<open>
  The loop of \<^verbatim>\<open>fluid_validate_scene\<close> over the objects, carrying \<^verbatim>\<open>newdomain\<close>,
  \<^verbatim>\<open>channelObjCount\<close> and \<^verbatim>\<open>fluidInputCount\<close>.  \<open>fsDomain\<close> is the caller's
  domain pointer.  The result is \<open>None\<close> when the loop leaves the function with the
  report that there should be only one domain.
\<close>

fun validate_objects ::
  "Scene \<Rightarrow> nat option \<Rightarrow> nat list \<Rightarrow> nat option \<times> int \<times> int \<Rightarrow> (nat option \<times> int \<times> int) option" where
  "validate_objects scene fsDomain [] acc = Some acc"
| "validate_objects scene fsDomain (ob # rest) (newdomain, channelObjCount, fluidInputCount) =
     (case fluidmd (obs scene ob) of
        None \<Rightarrow> validate_objects scene fsDomain rest (newdomain, channelObjCount, fluidInputCount)
      | Some fss \<Rightarrow>
          if \<not> is_mesh (obs scene ob) then
            validate_objects scene fsDomain rest (newdomain, channelObjCount, fluidInputCount)
          else if fss_type fss = OB_FLUIDSIM_DOMAIN \<and> fsDomain \<noteq> None \<and> Some ob \<noteq> fsDomain then
            None
          else
            (let newdomain' = (if fss_type fss = OB_FLUIDSIM_DOMAIN \<and> fsDomain = None
                               then Some ob else newdomain);
                 channelObjCount' =
                   (if \<not> (fss_type fss = OB_FLUIDSIM_DOMAIN \<or> fss_type fss = OB_FLUIDSIM_PARTICLE)
                    then channelObjCount + 1 else channelObjCount);
                 fluidInputCount' =
                   (if fss_type fss = OB_FLUIDSIM_FLUID \<or> fss_type fss = OB_FLUIDSIM_INFLOW
                    then fluidInputCount + 1 else fluidInputCount)
             in validate_objects scene fsDomain rest (newdomain', channelObjCount', fluidInputCount')))"

definition fluid_validate_scene :: "report list \<Rightarrow> Scene \<Rightarrow> nat option \<Rightarrow> int \<times> report list" where
  "fluid_validate_scene reps scene fsDomain =
     (case validate_objects scene fsDomain (base scene) (None, 0, 0) of
        None \<Rightarrow> (0, reps @ [(RPT_ERROR, ''There should be only one domain object'')])
      | Some (newdomain, channelObjCount, fluidInputCount) \<Rightarrow>
          (let fsDomain' = (if newdomain \<noteq> None then newdomain else fsDomain)
           in if fsDomain' = None then
                (0, reps @ [(RPT_ERROR, ''No domain object found'')])
              else if channelObjCount \<ge> 255 then
                (0, reps @ [(RPT_ERROR, ''Cannot bake with more than 256 objects'')])
              else if fluidInputCount = 0 then
                (0, reps @ [(RPT_ERROR, ''No fluid input objects in the scene'')])
              else (1, reps)))"

subsection \<open>The cache path of a legacy domain\<close>

definition FLUID_SUFFIX_CONFIG :: string where
  "FLUID_SUFFIX_CONFIG = ''fluidsim.cfg''"

definition FLUID_SUFFIX_CONFIG_TMP :: string where
  "FLUID_SUFFIX_CONFIG_TMP = FLUID_SUFFIX_CONFIG @ ''.tmp''"

definition FLUID_SUFFIX_SURFACE :: string where
  "FLUID_SUFFIX_SURFACE = ''fluidsurface''"

text \<open>
  \<^verbatim>\<open>fluid_init_filepaths\<close>: the result, the reports, the domain settings with the
  path it may have reset, and the buffers \<^verbatim>\<open>targetDir\<close> and \<^verbatim>\<open>targetFile\<close>.
\<close>

definition fluid_init_filepaths ::
  "path_env \<Rightarrow> report list \<Rightarrow> FluidsimSettings \<Rightarrow>
   bool \<times> report list \<times> FluidsimSettings \<times> string \<times> string" where
  "fluid_init_filepaths env reps0 d0 =
     (let (d1, reps1) =
            (if surfdataPath d0 = [] then
               (let d = d0\<lparr>surfdataPath := modifier_path_init env (OB_FLUIDSIM_SURF_DIR_DEFAULT env)\<rparr>
                in (d, reps0 @ [(RPT_WARNING,
                      ''Fluidsim: empty cache path, reset to default '' @ quoted (surfdataPath d))]))
             else (d0, reps0));
          targetDir = BLI_path_abs env (BLI_strncpy (FILE_MAXDIR env) (surfdataPath d1)) (relbase env);
          targetFile = BLI_join_dirfile env targetDir FLUID_SUFFIX_CONFIG_TMP;
          dir_exists = dir_create_ok env targetDir;
          is_writable = file_is_writable env targetFile
      in if \<not> dir_exists \<or> \<not> is_writable then
           (let d2 = d1\<lparr>surfdataPath := modifier_path_init env (OB_FLUIDSIM_SURF_DIR_DEFAULT env)\<rparr>;
                reps2 =
                  (if \<not> dir_exists then
                     reps1 @ [(RPT_ERROR,
                       ''Fluidsim: could not create cache directory '' @ quoted targetDir
                         @ '', reset to default '' @ quoted (surfdataPath d2))]
                   else
                     reps1 @ [(RPT_ERROR,
                       ''Fluidsim: cache directory '' @ quoted targetDir
                         @ '' is not writable, reset to default '' @ quoted (surfdataPath d2))]);
                targetDir2 = BLI_path_abs env (BLI_strncpy (FILE_MAXDIR env) (surfdataPath d2))
                               (relbase env);
                targetFile2 = BLI_join_dirfile env targetDir2 FLUID_SUFFIX_CONFIG_TMP;
                reps3 =
                  (if \<not> dir_create_ok env targetDir2 \<or> \<not> file_is_writable env targetFile2 then
                     reps2 @ [(RPT_ERROR,
                       ''Fluidsim: could not use default cache directory '' @ quoted targetDir2
                         @ '', please define a valid cache path manually'')]
                   else reps2)
            in (False, reps3, d2, targetDir2, targetFile2))
         else (True, reps1, d1, targetDir, targetFile))"

subsection \<open>The bake\<close>

text \<open>
  The fields of \<^verbatim>\<open>elbeemSimulationSettings\<close> that the bake fills from the frame
  range, the domain settings and the channels.  The remaining scalar fields are copies
  of host values (thread count, real-world size, bounding box and the like) and are
  left out.
\<close>

record elbeemSimulationSettings =
  version :: int
  sim_resolutionxyz :: int
  sim_previewresxyz :: int
  viscosity :: real
  gravity :: vec3
  sim_animStart :: real
  sim_aniFrameTime :: real
  noOfFrames :: int
  sim_maxRefine :: int
  outputPath :: string
  channelSizeFrameTime :: int
  channelSizeViscosity :: int
  channelSizeGravity :: int
  channelFrameTime :: "real list option"
  channelViscosity :: "real list option"
  channelGravity :: "real list option"
  generateVertexVectors :: bool
  surfaceTrafo :: "real list"

text \<open>
  What a call of \<^verbatim>\<open>fluidsimBake\<close> leaves behind: its return value, the reports, the
  scene, and when it got as far as the solver, the settings handed to
  \<^verbatim>\<open>elbeemAddDomain\<close> and the meshes handed to \<^verbatim>\<open>elbeemAddMesh\<close>, together with the
  sampled channels and objects as they were at that moment (they are freed before the
  function returns).  \<open>job_started\<close> says that a background job was given to the job
  system, \<open>simulated\<close> that \<^verbatim>\<open>elbeemSimulate\<close> ran in the call itself.  \<open>caches_left\<close>
  is the heap of vertex caches when the function returns.
\<close>

record bake_result =
  retval :: int
  bake_reports :: "report list"
  bake_scene :: Scene
  solver_settings :: "elbeemSimulationSettings option"
  solver_meshes :: "elbeemMesh list"
  sampled :: "sampling option"
  job_started :: bool
  simulated :: bool
  caches_left :: heap

definition bake_cancelled :: "report list \<Rightarrow> Scene \<Rightarrow> heap \<Rightarrow> bake_result" where
  "bake_cancelled reps scene h =
     \<lparr>retval = 0, bake_reports = reps, bake_scene = scene, solver_settings = None,
      solver_meshes = [], sampled = None, job_started = False, simulated = False,
      caches_left = h\<rparr>"

definition update_fss :: "Scene \<Rightarrow> nat \<Rightarrow> FluidsimSettings \<Rightarrow> Scene" where
  "update_fss scene ob fss =
     scene\<lparr>obs := (obs scene)(ob := (obs scene ob)\<lparr>fluidmd := Some fss\<rparr>)\<rparr>"

text \<open>
  \<^verbatim>\<open>fluidsimBake\<close>.  Left out are the debug output, the bounding box and the removal
  of files of an earlier bake; they do not touch what is modelled.  The caller's domain
  pointer is dereferenced for the first time after validation.  \<open>channels0\<close> is the
  zeroed channel record the function allocates at its start, the list of fluid objects
  and the heap of vertex caches start empty.  Every way out of the function runs
  \<^verbatim>\<open>fluidbake_free_data\<close> on the channels and objects as they are then; a fault
  there is a fault of the bake.
\<close>

definition channels0 :: FluidAnimChannels where
  "channels0 =
     \<lparr>chan_length = 0, aniFrameTime = 0, timeAtFrame = None, DomainTime = None,
      DomainGravity = None, DomainViscosity = None\<rparr>"

definition fluidsimBake ::
  "legacy_host \<Rightarrow> path_env \<Rightarrow> Scene \<Rightarrow> nat option \<Rightarrow> bool \<Rightarrow> report list \<Rightarrow>
   mem_error + bake_result" where
  "fluidsimBake host env scene fsDomain do_job reps =
     (let origFrame = r_cfra scene;
          noFrames = r_efra scene - 0
      in if noFrames \<le> 0 then
           then_do (fluidbake_free_data channels0 [] []) (\<lambda>h.
           Inr (bake_cancelled
                  (reps @ [(RPT_ERROR, ''No frames to export (check your animation range settings)'')])
                  scene h))
         else
           (let (valid, reps1) = fluid_validate_scene reps scene fsDomain
            in if valid = 0 then
                 then_do (fluidbake_free_data channels0 [] []) (\<lambda>h.
                 Inr (bake_cancelled reps1 scene h))
               else
                 then_do (deref fsDomain) (\<lambda>domain_ob.
                 then_do (fss_of scene domain_ob) (\<lambda>ds0.
                 let ds1 = ds0\<lparr>bakeStart := 1, bakeEnd := r_efra scene, lastgoodframe := - 1\<rparr>;
                     ds2 = (if previewresxyz ds1 > resolutionxyz ds1
                            then ds1\<lparr>previewresxyz := resolutionxyz ds1\<rparr> else ds1);
                     (paths_ok, reps2, ds3, targetDir, targetFile) = fluid_init_filepaths env reps1 ds2;
                     scene1 = update_fss scene domain_ob ds3
                 in if \<not> paths_ok then
                      then_do (fluidbake_free_data channels0 [] []) (\<lambda>h.
                      Inr (bake_cancelled reps2 scene1 h))
                    else
                      (let channels = channels0
                             \<lparr>chan_length := r_efra scene1,
                              aniFrameTime := (animEnd ds3 - animStart ds3) / real_of_int noFrames\<rparr>
                       in then_do (fluid_init_all_channels host scene1 domain_ob channels [] []) (\<lambda>smp.
                          let scene2 = ED_update_for_newframe host ((smp_scene smp)\<lparr>r_cfra := origFrame\<rparr>)
                          in case invert_m4_m4 host (obmat (obs scene2 domain_ob)) of
                               None \<Rightarrow>
                                 then_do (fluidbake_free_data (smp_channels smp) (smp_fobjects smp)
                                            (smp_heap smp)) (\<lambda>h.
                                 Inr (bake_cancelled (reps2 @ [(RPT_ERROR, ''Invalid object matrix'')])
                                        scene2 h))
                             | Some invDomMat \<Rightarrow>
                                 then_do (fss_of scene2 domain_ob) (\<lambda>domainSettings.
                                 let fsset =
                                       \<lparr>version = 1,
                                        sim_resolutionxyz = resolutionxyz domainSettings,
                                        sim_previewresxyz = previewresxyz domainSettings,
                                        viscosity = get_fluid_viscosity domainSettings,
                                        gravity = get_fluid_gravity scene2 domainSettings,
                                        sim_animStart = animStart domainSettings,
                                        sim_aniFrameTime = aniFrameTime (smp_channels smp),
                                        noOfFrames = noFrames,
                                        sim_maxRefine = maxRefine domainSettings,
                                        outputPath = BLI_join_dirfile env targetDir FLUID_SUFFIX_SURFACE,
                                        channelSizeFrameTime = chan_length (smp_channels smp),
                                        channelSizeViscosity = chan_length (smp_channels smp),
                                        channelSizeGravity = chan_length (smp_channels smp),
                                        channelFrameTime = DomainTime (smp_channels smp),
                                        channelViscosity = DomainViscosity (smp_channels smp),
                                        channelGravity = DomainGravity (smp_channels smp),
                                        generateVertexVectors = (\<not> domainNovecgen domainSettings),
                                        surfaceTrafo =
                                          concat (map (\<lambda>i. map (\<lambda>j. invDomMat ! j ! i) [0..<4]) [0..<4])\<rparr>
                                 in then_do (export_fluid_objects host (smp_fobjects smp) scene2
                                               (chan_length (smp_channels smp))) (\<lambda>meshes.
                                    then_do (fluidbake_free_data (smp_channels smp) (smp_fobjects smp)
                                               (smp_heap smp)) (\<lambda>h.
                                    Inr \<lparr>retval = 1, bake_reports = reps2, bake_scene = scene2,
                                         solver_settings = Some fsset, solver_meshes = meshes,
                                         sampled = Some smp, job_started = do_job,
                                         simulated = (\<not> do_job), caches_left = h\<rparr>)))))))))"

section \<open>Vocabulary of the properties\<close>

text \<open>
  A DOMAIN object as validation sees it: a mesh whose fluid modifier has the kind
  \<^verbatim>\<open>OB_FLUIDSIM_DOMAIN\<close>.
\<close>

definition is_domain_mesh :: "Scene \<Rightarrow> nat \<Rightarrow> bool" where
  "is_domain_mesh scene ob =
     (is_mesh (obs scene ob) \<and>
      (case fluidmd (obs scene ob) of None \<Rightarrow> False | Some fss \<Rightarrow> fss_type fss = OB_FLUIDSIM_DOMAIN))"

text \<open>
  The legacy resolver's two attempts.  The first directory is the stored path made
  absolute (the default when the stored path is empty), the second the default path made
  absolute; a check creates the directory and probes a file in it for writing.  Then the
  reports of the resolver: the warning for an empty path, the error after a failed first
  check, the error after a failed second check.
\<close>

definition legacy_first_dir :: "path_env \<Rightarrow> FluidsimSettings \<Rightarrow> string" where
  "legacy_first_dir env d =
     BLI_path_abs env
       (BLI_strncpy (FILE_MAXDIR env)
          (if surfdataPath d = [] then modifier_path_init env (OB_FLUIDSIM_SURF_DIR_DEFAULT env)
           else surfdataPath d))
       (relbase env)"

definition legacy_first_check :: "path_env \<Rightarrow> FluidsimSettings \<Rightarrow> bool" where
  "legacy_first_check env d =
     (dir_create_ok env (legacy_first_dir env d) \<and>
      file_is_writable env (BLI_join_dirfile env (legacy_first_dir env d) FLUID_SUFFIX_CONFIG_TMP))"

definition legacy_default_path :: "path_env \<Rightarrow> string" where
  "legacy_default_path env = modifier_path_init env (OB_FLUIDSIM_SURF_DIR_DEFAULT env)"

definition legacy_default_dir :: "path_env \<Rightarrow> string" where
  "legacy_default_dir env =
     BLI_path_abs env (BLI_strncpy (FILE_MAXDIR env) (legacy_default_path env)) (relbase env)"

definition legacy_second_check :: "path_env \<Rightarrow> bool" where
  "legacy_second_check env =
     (dir_create_ok env (legacy_default_dir env) \<and>
      file_is_writable env (BLI_join_dirfile env (legacy_default_dir env) FLUID_SUFFIX_CONFIG_TMP))"

definition legacy_empty_path_warning :: "path_env \<Rightarrow> FluidsimSettings \<Rightarrow> report list" where
  "legacy_empty_path_warning env d =
     (if surfdataPath d = [] then
        [(RPT_WARNING, ''Fluidsim: empty cache path, reset to default ''
                         @ quoted (legacy_default_path env))]
      else [])"

definition legacy_first_error :: "path_env \<Rightarrow> FluidsimSettings \<Rightarrow> report" where
  "legacy_first_error env d =
     (if \<not> dir_create_ok env (legacy_first_dir env d) then
        (RPT_ERROR, ''Fluidsim: could not create cache directory '' @ quoted (legacy_first_dir env d)
                      @ '', reset to default '' @ quoted (legacy_default_path env))
      else
        (RPT_ERROR, ''Fluidsim: cache directory '' @ quoted (legacy_first_dir env d)
                      @ '' is not writable, reset to default '' @ quoted (legacy_default_path env)))"

definition legacy_second_error :: "path_env \<Rightarrow> report" where
  "legacy_second_error env =
     (RPT_ERROR, ''Fluidsim: could not use default cache directory '' @ quoted (legacy_default_dir env)
                   @ '', please define a valid cache path manually'')"

text \<open>
  The same for the Mantaflow resolver, whose checks only create the directory.
\<close>

definition manta_first_dir :: "path_env \<Rightarrow> SmokeDomainSettings \<Rightarrow> string" where
  "manta_first_dir env d =
     BLI_path_abs env
       (BLI_strncpy (FILE_MAXDIR env)
          (if cache_directory d = [] then modifier_path_init env (FLUID_DOMAIN_DIR_DEFAULT env)
           else cache_directory d))
       (relbase env)"

definition manta_first_check :: "path_env \<Rightarrow> SmokeDomainSettings \<Rightarrow> bool" where
  "manta_first_check env d = dir_create_ok env (manta_first_dir env d)"

definition manta_default_path :: "path_env \<Rightarrow> string" where
  "manta_default_path env = modifier_path_init env (FLUID_DOMAIN_DIR_DEFAULT env)"

definition manta_default_dir :: "path_env \<Rightarrow> string" where
  "manta_default_dir env =
     BLI_path_abs env (BLI_strncpy (FILE_MAXDIR env) (manta_default_path env)) (relbase env)"

definition manta_second_check :: "path_env \<Rightarrow> bool" where
  "manta_second_check env = dir_create_ok env (manta_default_dir env)"

definition manta_empty_path_warning :: "path_env \<Rightarrow> SmokeDomainSettings \<Rightarrow> report list" where
  "manta_empty_path_warning env d =
     (if cache_directory d = [] then
        [(RPT_WARNING, ''Fluid Mantaflow: Empty cache path, reset to default ''
                         @ quoted (manta_default_path env))]
      else [])"

definition manta_first_error :: "path_env \<Rightarrow> SmokeDomainSettings \<Rightarrow> report" where
  "manta_first_error env d =
     (RPT_ERROR, ''Fluid Mantaflow: Could not create cache directory '' @ quoted (manta_first_dir env d)
                   @ '', reset to default '' @ quoted (manta_default_path env))"

definition manta_second_error :: "path_env \<Rightarrow> report" where
  "manta_second_error env =
     (RPT_ERROR, ''Fluid Mantaflow: Could not use default cache directory ''
                   @ quoted (manta_default_dir env)
                   @ '', please define a valid cache path manually'')"

text \<open>
  Sizes of channel buffers for a bake of \<open>n\<close> frames: a buffer behind a pointer has
  the given number of floats; the vertex cache of an object, as long as its block is
  live, has \<open>n\<close> frames of \<open>3 V + 1\<close> floats; an object has all its channels so.
\<close>

definition chan_ok :: "nat \<Rightarrow> real list option \<Rightarrow> bool" where
  "chan_ok n c = (case c of None \<Rightarrow> True | Some xs \<Rightarrow> length xs = n)"

definition cache_ok :: "nat \<Rightarrow> heap \<Rightarrow> FluidObject \<Rightarrow> bool" where
  "cache_ok n h fobj =
     (case VertexCache fobj of
        None \<Rightarrow> True
      | Some a \<Rightarrow> a < length h \<and>
          (case h ! a of Freed \<Rightarrow> True
           | Live c \<Rightarrow> length c = n * (3 * nat (numVerts fobj) + 1)))"

definition object_channels_ok :: "nat \<Rightarrow> heap \<Rightarrow> FluidObject \<Rightarrow> bool" where
  "object_channels_ok n h fobj =
     (chan_ok (4 * n) (Translation fobj) \<and> chan_ok (4 * n) (Rotation fobj) \<and>
      chan_ok (4 * n) (Scale fobj) \<and> chan_ok (2 * n) (Active fobj) \<and>
      chan_ok (4 * n) (InitialVelocity fobj) \<and>
      chan_ok (2 * n) (AttractforceStrength fobj) \<and> chan_ok (2 * n) (AttractforceRadius fobj) \<and>
      chan_ok (2 * n) (VelocityforceStrength fobj) \<and> chan_ok (2 * n) (VelocityforceRadius fobj) \<and>
      cache_ok n h fobj)"

definition all_objects_ok :: "nat \<Rightarrow> heap \<Rightarrow> FluidObject list \<Rightarrow> bool" where
  "all_objects_ok n h fobjects = list_all (object_channels_ok n h) fobjects"

text \<open>
  Blocks of the old heap that are still live have kept their size.
\<close>

definition heap_keeps :: "heap \<Rightarrow> heap \<Rightarrow> bool" where
  "heap_keeps h h' =
     (length h \<le> length h' \<and>
      (\<forall>a c'. a < length h \<and> h' ! a = Live c' \<longrightarrow> (\<exists>c. h ! a = Live c \<and> length c = length c')))"

text \<open>
  The domain channels of a bake of \<open>n\<close> frames after the frames before \<open>k\<close> have been
  sampled.
\<close>

definition domain_channels_upto :: "nat \<Rightarrow> nat \<Rightarrow> FluidAnimChannels \<Rightarrow> bool" where
  "domain_channels_upto n k ch =
     (\<exists>taf dt dg dv.
        timeAtFrame ch = Some taf \<and> length taf = n + 1 \<and>
        DomainTime ch = Some dt \<and> length dt = 2 * n \<and>
        DomainGravity ch = Some dg \<and> length dg = 4 * n \<and>
        DomainViscosity ch = Some dv \<and> length dv = 2 * n \<and>
        (\<forall>j. j < k \<longrightarrow> dg ! (4 * j + 3) = taf ! (j + 1) \<and> dv ! (2 * j + 1) = taf ! (j + 1)
                       \<and> dt ! (2 * j + 1) = real j))"

section \<open>Example states\<close>

subsection \<open>States, environments and observations of the Mantaflow examples\<close>

definition bake_outcome :: "stage \<Rightarrow> manta_state \<Rightarrow> int \<times> int \<times> bool \<times> bool" where
  "bake_outcome X s =
     (success (job s), pause_deref (pause_of X) (sds s),
      flag_set (cache_flag (sds s)) (BAKING X), flag_set (cache_flag (sds s)) (BAKED X))"

definition creatable_all :: "string \<times> string \<Rightarrow> bool" where
  "creatable_all p = True"

definition pause_at_11 :: "int \<Rightarrow> bool" where
  "pause_at_11 f = (f = 11)"

definition cancel_state :: manta_state where
  "cancel_state =
     \<lparr>sds = \<lparr>cache_flag = 0, cache_frame_start = 10, cache_frame_end = 12,
             cache_frame_pause_data = 0, cache_frame_pause_noise = 0,
             cache_frame_pause_mesh = 0, cache_frame_pause_particles = 0,
             cache_frame_pause_guiding = 0, error = [], cache_directory = ''/tmp/cache''\<rparr>,
      job = \<lparr>job_type = ''MANTA_OT_bake_data'', job_name = ''Bake Data'', success = 0,
             pause_frame = None, stop = None, do_update = None, progress = None\<rparr>,
      cfra = 1, is_break = False, is_rendering = False, disk = Map.empty, reports = []\<rparr>"

definition writable_env :: path_env where
  "writable_env =
     \<lparr>relbase = ''/home/user/'',
      modifier_path_init = (\<lambda>name. ''//'' @ name),
      BLI_path_abs = (\<lambda>p base. if take 2 p = ''//'' then base @ drop 2 p else p),
      BLI_join_dirfile = (\<lambda>dir file. dir @ ''/'' @ file),
      dir_create_ok = (\<lambda>p. True),
      file_is_writable = (\<lambda>p. True),
      FILE_MAXDIR = 768, FILE_MAX = 1024,
      OB_FLUIDSIM_SURF_DIR_DEFAULT = ''cache_fluid'',
      FLUID_DOMAIN_DIR_DEFAULT = ''cache_fluid''\<rparr>"

definition guiding_baking_domain :: SmokeDomainSettings where
  "guiding_baking_domain =
     \<lparr>cache_flag = FLUID_DOMAIN_BAKING_GUIDING, cache_frame_start = 1, cache_frame_end = 50,
      cache_frame_pause_data = 0, cache_frame_pause_noise = 0,
      cache_frame_pause_mesh = 0, cache_frame_pause_particles = 0,
      cache_frame_pause_guiding = 7, error = [], cache_directory = ''/tmp/cache''\<rparr>"

definition free_guiding_job :: FluidMantaflowJob where
  "free_guiding_job =
     \<lparr>job_type = ''MANTA_OT_free_guiding'', job_name = ''Free Guiding'', success = 0,
      pause_frame = None, stop = None, do_update = None, progress = None\<rparr>"

definition guiding_baking_state :: manta_state where
  "guiding_baking_state =
     \<lparr>sds = guiding_baking_domain, job = free_guiding_job, cfra = 7, is_break = False,
      is_rendering = True, disk = [(''/tmp/cache'', ''guiding'') \<mapsto> [''guidevel_0001.uni'']],
      reports = []\<rparr>"

definition free_outcome :: "stage \<Rightarrow> manta_state \<Rightarrow> bool \<times> bool \<times> int \<times> string list option" where
  "free_outcome X s =
     (flag_set (cache_flag (sds s)) (BAKING X), flag_set (cache_flag (sds s)) (BAKED X),
      pause_deref (pause_of X) (sds s),
      disk s (BLI_path_join (cache_directory (sds s)) (stage_dir X)))"

definition pause_at_4 :: "int \<Rightarrow> bool" where
  "pause_at_4 f = (f = 4)"

definition resume_state :: manta_state where
  "resume_state =
     \<lparr>sds = \<lparr>cache_flag = FLUID_DOMAIN_BAKED_DATA OR FLUID_DOMAIN_BAKED_NOISE,
             cache_frame_start = 1, cache_frame_end = 5,
             cache_frame_pause_data = 5, cache_frame_pause_noise = 3,
             cache_frame_pause_mesh = 0, cache_frame_pause_particles = 0,
             cache_frame_pause_guiding = 0, error = [], cache_directory = ''/tmp/cache''\<rparr>,
      job = \<lparr>job_type = ''MANTA_OT_bake_noise'', job_name = ''Bake Noise'', success = 0,
             pause_frame = None, stop = None, do_update = None, progress = None\<rparr>,
      cfra = 1, is_break = False, is_rendering = False, disk = Map.empty, reports = []\<rparr>"

definition all_baked_state :: manta_state where
  "all_baked_state =
     \<lparr>sds = \<lparr>cache_flag = FLUID_DOMAIN_BAKED_DATA OR FLUID_DOMAIN_BAKED_NOISE OR
                          FLUID_DOMAIN_BAKED_MESH OR FLUID_DOMAIN_BAKED_GUIDING,
             cache_frame_start = 1, cache_frame_end = 5,
             cache_frame_pause_data = 5, cache_frame_pause_noise = 5,
             cache_frame_pause_mesh = 5, cache_frame_pause_particles = 2,
             cache_frame_pause_guiding = 5, error = [], cache_directory = ''/tmp/cache''\<rparr>,
      job = \<lparr>job_type = ''MANTA_OT_free_data'', job_name = ''Free Data'', success = 0,
             pause_frame = None, stop = None, do_update = None, progress = None\<rparr>,
      cfra = 3, is_break = False, is_rendering = False,
      disk = [(''/tmp/cache'', ''data'') \<mapsto> [''density_0001.uni''],
              (''/tmp/cache'', ''noise'') \<mapsto> [''density_noise_0001.uni''],
              (''/tmp/cache'', ''guiding'') \<mapsto> [''guidevel_0001.uni'']],
      reports = []\<rparr>"

text \<open>
  A frame range whose length does not fit an \<^verbatim>\<open>int\<close>, and a frame range that starts
  below frame 0, with a cancel at frame 0.
\<close>

definition wide_range_state :: manta_state where
  "wide_range_state =
     cancel_state\<lparr>sds := (sds cancel_state)\<lparr>cache_frame_start := - 2147483647,
                                               cache_frame_end := 1\<rparr>\<rparr>"

definition pause_at_0 :: "int \<Rightarrow> bool" where
  "pause_at_0 f = (f = 0)"

definition negative_start_state :: manta_state where
  "negative_start_state =
     cancel_state\<lparr>sds := (sds cancel_state)\<lparr>cache_frame_start := - 2, cache_frame_end := 3\<rparr>\<rparr>"

definition bake_error :: "manta_state \<Rightarrow> string \<times> int" where
  "bake_error s = (error (sds s), success (job s))"

subsection \<open>Scenes, hosts and file systems of the legacy examples\<close>

definition default_settings :: "fluidsim_type \<Rightarrow> FluidsimSettings" where
  "default_settings t =
     \<lparr>fss_type = t, active = True, domainNovecgen = False, animRate = 1, animStart = 0,
      animEnd = 1, viscosityValue = 1, viscosityExponent = 6, grav = (0, 0, - 981 / 100),
      iniVel = (0, 0, 0), attractforceStrength = 0, attractforceRadius = 0,
      velocityforceStrength = 0, velocityforceRadius = 0, bakeStart = 0, bakeEnd = 0,
      lastgoodframe = - 1, surfdataPath = ''/tmp/fluid'', resolutionxyz = 65,
      previewresxyz = 45, maxRefine = - 1, reverse = False, fsbnd_noslip = True,
      fsbnd_partslip = False, fsbnd_freeslip = False, fsinflow_localcoord = False,
      partSlipValue = 0, volumeInitType = 1, surfaceSmoothing = 1, cpsTimeStart = 0,
      cpsTimeEnd = 0, cpsQuality = 10\<rparr>"

definition identity_m4 :: mat4 where
  "identity_m4 = [[1, 0, 0, 0], [0, 1, 0, 0], [0, 0, 1, 0], [0, 0, 0, 1]]"

definition mesh_object :: "string \<Rightarrow> fluidsim_type \<Rightarrow> Object" where
  "mesh_object name t =
     \<lparr>ob_name = name, is_mesh = True, fluidmd = Some (default_settings t),
      ob_loc = (0, 0, 0), ob_size = (1, 1, 1), obmat = identity_m4\<rparr>"

definition two_domain_scene :: Scene where
  "two_domain_scene =
     \<lparr>base = [0, 1, 2],
      obs = (\<lambda>p. if p = 0 then mesh_object ''Domain'' OB_FLUIDSIM_DOMAIN
                 else if p = 1 then mesh_object ''Domain.001'' OB_FLUIDSIM_DOMAIN
                 else mesh_object ''Fluid'' OB_FLUIDSIM_FLUID),
      r_cfra = 1, r_efra = 5, global_gravity = False, physics_gravity = (0, 0, - 981 / 100)\<rparr>"

definition crowded_scene :: "nat \<Rightarrow> Scene" where
  "crowded_scene n =
     \<lparr>base = [0..<Suc n],
      obs = (\<lambda>p. if p = 0 then mesh_object ''Domain'' OB_FLUIDSIM_DOMAIN
                 else mesh_object ''Fluid'' OB_FLUIDSIM_FLUID),
      r_cfra = 1, r_efra = 5, global_gravity = False, physics_gravity = (0, 0, - 981 / 100)\<rparr>"

definition default_only_env :: path_env where
  "default_only_env =
     \<lparr>relbase = ''/home/user/'',
      modifier_path_init = (\<lambda>name. ''//'' @ name),
      BLI_path_abs = (\<lambda>p base. if take 2 p = ''//'' then base @ drop 2 p else p),
      BLI_join_dirfile = (\<lambda>dir file. dir @ ''/'' @ file),
      dir_create_ok = (\<lambda>p. p = ''/home/user/cache_fluid''),
      file_is_writable = (\<lambda>p. True),
      FILE_MAXDIR = 768, FILE_MAX = 1024,
      OB_FLUIDSIM_SURF_DIR_DEFAULT = ''cache_fluid'',
      FLUID_DOMAIN_DIR_DEFAULT = ''cache_fluid''\<rparr>"

text \<open>A file system on which no directory can be created.\<close>

definition readonly_env :: path_env where
  "readonly_env = default_only_env\<lparr>dir_create_ok := (\<lambda>p. False)\<rparr>"

definition reset_mesh :: elbeemMesh where
  "reset_mesh =
     \<lparr>mesh_type = OB_FLUIDSIM_OBSTACLE, mesh_name = [], numVertices = 0, numTriangles = 0,
      vertices = [], triangles = [],
      channelSizeTranslation = 0, channelSizeRotation = 0, channelSizeScale = 0,
      channelSizeInitialVel = 0, channelSizeActive = 0,
      channelTranslation = None, channelRotation = None, channelScale = None,
      channelActive = None, channelInitialVel = None, localInivelCoords = 0,
      obstacleType = FLUIDSIM_OBSTACLE_NOSLIP, obstaclePartslip = 0,
      mesh_volumeInitType = 0, obstacleImpactFactor = 1,
      mesh_cpsTimeStart = 0, mesh_cpsTimeEnd = 0, mesh_cpsQuality = 0,
      channelSizeAttractforceStrength = 0, channelSizeAttractforceRadius = 0,
      channelSizeVelocityforceStrength = 0, channelSizeVelocityforceRadius = 0,
      channelAttractforceStrength = None, channelAttractforceRadius = None,
      channelVelocityforceStrength = None, channelVelocityforceRadius = None,
      channelSizeVertices = 0, channelVertices = None\<rparr>"

definition plain_host :: legacy_host where
  "plain_host =
     \<lparr>ED_update_for_newframe = (\<lambda>scene. scene),
      initElbeemMesh = (\<lambda>scene ob global. ([], [])),
      mat4_to_compatible_eulO = (\<lambda>old_rot m. (0, 0, 0)),
      invert_m4_m4 = (\<lambda>m. Some m),
      elbeemResetMesh = reset_mesh\<rparr>"

definition inflow_scene :: Scene where
  "inflow_scene =
     \<lparr>base = [0, 1],
      obs = (\<lambda>p. if p = 0 then mesh_object ''Domain'' OB_FLUIDSIM_DOMAIN
                 else mesh_object ''Fluid'' OB_FLUIDSIM_FLUID),
      r_cfra = 1, r_efra = 5, global_gravity = False, physics_gravity = (0, 0, - 981 / 100)\<rparr>"

definition inflow_channels :: FluidAnimChannels where
  "inflow_channels =
     \<lparr>chan_length = 5, aniFrameTime = 1 / 5, timeAtFrame = None, DomainTime = None,
      DomainGravity = None, DomainViscosity = None\<rparr>"

definition growing_mesh_host :: legacy_host where
  "growing_mesh_host =
     \<lparr>ED_update_for_newframe = (\<lambda>scene. scene),
      initElbeemMesh = (\<lambda>scene ob global.
         if r_cfra scene = 1 then ([(0, 0, 0), (1, 0, 0)], []) else ([(2, 3, 4)], [])),
      mat4_to_compatible_eulO = (\<lambda>old_rot m. (0, 0, 0)),
      invert_m4_m4 = (\<lambda>m. Some m),
      elbeemResetMesh = reset_mesh\<rparr>"

definition cloth_scene :: Scene where
  "cloth_scene =
     \<lparr>base = [0, 1, 2],
      obs = (\<lambda>p. if p = 0 then mesh_object ''Domain'' OB_FLUIDSIM_DOMAIN
                 else if p = 1 then mesh_object ''Fluid'' OB_FLUIDSIM_FLUID
                 else (mesh_object ''Cloth'' OB_FLUIDSIM_OBSTACLE)
                        \<lparr>fluidmd := Some ((default_settings OB_FLUIDSIM_OBSTACLE)\<lparr>domainNovecgen := True\<rparr>)\<rparr>),
      r_cfra = 0, r_efra = 3, global_gravity = False, physics_gravity = (0, 0, - 981 / 100)\<rparr>"

text \<open>The same scene with a single frame to bake.\<close>

definition short_cloth_scene :: Scene where
  "short_cloth_scene = cloth_scene\<lparr>r_efra := 1\<rparr>"

definition cloth_channels :: "int \<Rightarrow> FluidAnimChannels" where
  "cloth_channels n =
     \<lparr>chan_length = n, aniFrameTime = 1 / 2, timeAtFrame = None, DomainTime = None,
      DomainGravity = None, DomainViscosity = None\<rparr>"

definition plain_smoke_domain :: SmokeDomainSettings where
  "plain_smoke_domain =
     \<lparr>cache_flag = 0, cache_frame_start = 1, cache_frame_end = 50,
      cache_frame_pause_data = 0, cache_frame_pause_noise = 0,
      cache_frame_pause_mesh = 0, cache_frame_pause_particles = 0,
      cache_frame_pause_guiding = 0, error = [], cache_directory = ''/readonly/cache''\<rparr>"

text \<open>
  Observations of a bake and of a sampling state.
\<close>

definition bake_summary :: "bake_result \<Rightarrow> int \<times> bool \<times> bool \<times> bool" where
  "bake_summary r = (retval r, solver_settings r = None, job_started r, simulated r)"

definition bake_times :: "bake_result \<Rightarrow> int \<times> int option \<times> real list option \<times> int option \<times> bool" where
  "bake_times r =
     (retval r, map_option (chan_length \<circ> smp_channels) (sampled r),
      Option.bind (sampled r) (timeAtFrame \<circ> smp_channels),
      map_option noOfFrames (solver_settings r), simulated r)"

definition sampled_times :: "bake_result \<Rightarrow> real list option" where
  "sampled_times r = Option.bind (sampled r) (timeAtFrame \<circ> smp_channels)"

definition domain_buffers ::
  "sampling \<Rightarrow> real list option \<times> real list option \<times> real list option \<times> real list option" where
  "domain_buffers s =
     (timeAtFrame (smp_channels s), DomainTime (smp_channels s),
      DomainGravity (smp_channels s), DomainViscosity (smp_channels s))"

definition vertex_caches :: "sampling \<Rightarrow> nat option list \<times> heap" where
  "vertex_caches s = (map VertexCache (smp_fobjects s), smp_heap s)"

definition mesh_summary ::
  "elbeemMesh \<Rightarrow> string \<times> fluidsim_type \<times> int \<times> obstacle_type \<times> bool \<times> nat option" where
  "mesh_summary m =
     (mesh_name m, mesh_type m, channelSizeTranslation m, obstacleType m,
      channelInitialVel m = None, channelVertices m)"

definition bake_meshes ::
  "bake_result \<Rightarrow> (string \<times> fluidsim_type \<times> int \<times> obstacle_type \<times> bool \<times> nat option) list \<times> heap" where
  "bake_meshes r = (map mesh_summary (solver_meshes r), caches_left r)"

section \<open>Properties of the Mantaflow job controller\<close>

subsection \<open>Flag bits\<close>

lemma flag_set_bit:
  assumes "k < 32"
  shows "flag_set w (2 ^ k) = bit w k"
proof
  assume ne: "flag_set w (2 ^ k)"
  have "\<exists>n. bit (w AND 2 ^ k) n"
  proof (rule ccontr)
    assume "\<not> (\<exists>n. bit (w AND 2 ^ k) n)"
    then have "w AND 2 ^ k = 0" by (intro bit_word_eqI) simp
    with ne show False by (simp add: flag_set_def)
  qed
  then show "bit w k"
    by (auto simp add: bit_and_iff bit_exp_iff)
next
  assume "bit w k"
  with assms have "bit (w AND 2 ^ k) k"
    by (simp add: bit_and_iff bit_exp_iff)
  then show "flag_set w (2 ^ k)"
    unfolding flag_set_def by auto
qed

lemma flag_pow:
  "FLUID_DOMAIN_BAKING_DATA = 2 ^ 0" "FLUID_DOMAIN_BAKED_DATA = 2 ^ 1"
  "FLUID_DOMAIN_BAKING_NOISE = 2 ^ 2" "FLUID_DOMAIN_BAKED_NOISE = 2 ^ 3"
  "FLUID_DOMAIN_BAKING_MESH = 2 ^ 4" "FLUID_DOMAIN_BAKED_MESH = 2 ^ 5"
  "FLUID_DOMAIN_BAKING_PARTICLES = 2 ^ 6" "FLUID_DOMAIN_BAKED_PARTICLES = 2 ^ 7"
  "FLUID_DOMAIN_BAKING_GUIDING = 2 ^ 8" "FLUID_DOMAIN_BAKED_GUIDING = 2 ^ 9"
  by (simp_all add: FLUID_DOMAIN_BAKING_DATA_def FLUID_DOMAIN_BAKED_DATA_def
      FLUID_DOMAIN_BAKING_NOISE_def FLUID_DOMAIN_BAKED_NOISE_def
      FLUID_DOMAIN_BAKING_MESH_def FLUID_DOMAIN_BAKED_MESH_def
      FLUID_DOMAIN_BAKING_PARTICLES_def FLUID_DOMAIN_BAKED_PARTICLES_def
      FLUID_DOMAIN_BAKING_GUIDING_def FLUID_DOMAIN_BAKED_GUIDING_def)

lemmas flag_bits = flag_set_bit bit_or_iff bit_and_iff bit_not_iff bit_exp_iff possible_bit_word

lemma end_stage_flags:
  "\<not> flag_set (cache_flag (sds (end_stage (BAKING X) (BAKED X) s))) (BAKING X)"
  "flag_set (cache_flag (sds (end_stage (BAKING X) (BAKED X) s))) (BAKED X)"
  by (cases X; simp add: end_stage_def Let_def; unfold flag_pow; simp only: flag_bits; simp)+

subsection \<open>The frame loop and the hooks\<close>

lemma pause_deref_assign [simp]: "pause_deref pf (pause_assign pf v d) = v"
  by (cases pf) simp_all

lemma pause_assign_keeps [simp]:
  "cache_flag (pause_assign pf v d) = cache_flag d"
  "cache_frame_start (pause_assign pf v d) = cache_frame_start d"
  "cache_frame_end (pause_assign pf v d) = cache_frame_end d"
  "error (pause_assign pf v d) = error d"
  "cache_directory (pause_assign pf v d) = cache_directory d"
  by (cases pf; simp)+

lemma step_keeps [simp]:
  "sds (set_progress p s) = sds s" "sds (set_do_update s) = sds s"
  "is_break (set_progress p s) = is_break s" "is_break (set_do_update s) = is_break s"
  "reports (set_progress p s) = reports s" "reports (set_do_update s) = reports s"
  "job_type (job (set_progress p s)) = job_type (job s)"
  "job_type (job (set_do_update s)) = job_type (job s)"
  "job_name (job (set_progress p s)) = job_name (job s)"
  "job_name (job (set_do_update s)) = job_name (job s)"
  "success (job (set_progress p s)) = success (job s)"
  "success (job (set_do_update s)) = success (job s)"
  "pause_frame (job (set_do_update s)) = pause_frame (job s)"
  by (simp_all add: set_progress_def set_do_update_def split: option.splits)

lemma int32_id: "is_int32 x \<Longrightarrow> int32 x = x"
  by (simp add: is_int32_def int32_def)

lemma enter_frame_simps [simp]:
  "sds (enter_frame pause_at pf frame s) = pause_assign pf frame (sds s)"
  "is_break (enter_frame pause_at pf frame s) = (pause_at frame \<or> is_break s)"
  "job (enter_frame pause_at pf frame s) = job s"
  "reports (enter_frame pause_at pf frame s) = reports s"
  by (simp_all add: enter_frame_def observe_pause_def)

lemma finish_frame_simps [simp]:
  "sds (finish_frame frames frame s) = sds s"
  "is_break (finish_frame frames frame s) = is_break s"
  "job_type (job (finish_frame frames frame s)) = job_type (job s)"
  "job_name (job (finish_frame frames frame s)) = job_name (job s)"
  "success (job (finish_frame frames frame s)) = success (job s)"
  "reports (finish_frame frames frame s) = reports s"
  by (simp_all add: finish_frame_def Let_def)

lemma bake_frames_cancel:
  assumes "frame \<le> k" and "k \<le> cache_frame_end (sds s)" and "pause_at k"
    and "\<forall>f. frame \<le> f \<and> f < k \<longrightarrow> \<not> pause_at f" and "\<not> is_break s"
    and "- 2147483648 \<le> frame" and "k \<le> 2147483647"
  shows "\<exists>s'. bake_frames pause_at pf frames frame s = Some (Returned, s')
           \<and> success (job s') = 0 \<and> pause_deref pf (sds s') = k
           \<and> cache_flag (sds s') = cache_flag (sds s)
           \<and> cache_frame_start (sds s') = cache_frame_start (sds s)
           \<and> error (sds s') = error (sds s)
           \<and> job_type (job s') = job_type (job s)
           \<and> job_name (job s') = job_name (job s)
           \<and> reports s' = reports s"
  using assms
proof (induction "nat (k - frame)" arbitrary: frame s)
  case 0
  then have fk: "frame = k" by simp
  with 0 show ?case
    by (subst bake_frames.simps) (simp add: set_success_def)
next
  case (Suc n)
  then have lt: "frame < k" by simp
  with Suc.prems have np: "\<not> pause_at frame" by simp
  from lt Suc.prems have "is_int32 (frame + 1)" by (simp add: is_int32_def)
  then have next_frame: "int32 (frame + 1) = frame + 1" by (rule int32_id)
  let ?t = "finish_frame frames frame (enter_frame pause_at pf frame s)"
  have unfold: "bake_frames pause_at pf frames frame s = bake_frames pause_at pf frames (frame + 1) ?t"
    using lt Suc.prems np
    by (subst bake_frames.simps) (simp add: next_frame)
  have "\<exists>s'. bake_frames pause_at pf frames (frame + 1) ?t = Some (Returned, s')
           \<and> success (job s') = 0 \<and> pause_deref pf (sds s') = k
           \<and> cache_flag (sds s') = cache_flag (sds ?t)
           \<and> cache_frame_start (sds s') = cache_frame_start (sds ?t)
           \<and> error (sds s') = error (sds ?t)
           \<and> job_type (job s') = job_type (job ?t)
           \<and> job_name (job s') = job_name (job ?t)
           \<and> reports s' = reports ?t"
  proof (rule Suc.hyps(1))
    show "n = nat (k - (frame + 1))" using Suc.hyps(2) by simp
    show "frame + 1 \<le> k" using lt by simp
    show "k \<le> cache_frame_end (sds ?t)" using Suc.prems by simp
    show "pause_at k" by fact
    show "\<forall>f. frame + 1 \<le> f \<and> f < k \<longrightarrow> \<not> pause_at f" using Suc.prems by simp
    show "\<not> is_break ?t" using Suc.prems np by simp
    show "- 2147483648 \<le> frame + 1" using Suc.prems by simp
    show "k \<le> 2147483647" by fact
  qed
  then show ?case unfolding unfold by simp
qed

lemma bake_startjob_stage:
  assumes "job_type (job s) = bake_idname X"
  shows "fluid_manta_bake_startjob creatable pause_at stop_p do_update_p progress_p s =
     (case fluid_manta_bake_sequence pause_at
             (start_stage creatable (stage_dir X) (BAKED X) (BAKING X) (pause_of X)
                (s\<lparr>job := (job s)\<lparr>stop := stop_p, do_update := do_update_p,
                                   progress := progress_p, success := 1\<rparr>,
                   is_break := False, is_rendering := True\<rparr>)) of
        None \<Rightarrow> None
      | Some s3 \<Rightarrow>
          Some (case stop (job (set_do_update s3)) of
                  None \<Rightarrow> set_do_update s3
                | Some _ \<Rightarrow> (set_do_update s3)\<lparr>job := (job (set_do_update s3))\<lparr>stop := Some 0\<rparr>\<rparr>))"
  using assms by (cases X; simp add: fluid_manta_bake_startjob_def Let_def split: option.splits)

lemma bake_endjob_stage:
  assumes "job_type (job s) = bake_idname X"
  shows "fluid_manta_bake_endjob s = job_report (end_stage (BAKING X) (BAKED X) (s\<lparr>is_rendering := False\<rparr>))"
  using assms by (cases X; simp add: fluid_manta_bake_endjob_def Let_def)

lemma start_stage_keeps [simp]:
  "cache_frame_start (sds (start_stage c dir bd bg pf s)) = cache_frame_start (sds s)"
  "cache_frame_end (sds (start_stage c dir bd bg pf s)) = cache_frame_end (sds s)"
  "pause_deref q (sds (start_stage c dir bd bg pf s)) = pause_deref q (sds s)"
  "error (sds (start_stage c dir bd bg pf s)) = error (sds s)"
  "pause_frame (job (start_stage c dir bd bg pf s)) = Some pf"
  "job_type (job (start_stage c dir bd bg pf s)) = job_type (job s)"
  "job_name (job (start_stage c dir bd bg pf s)) = job_name (job s)"
  "is_break (start_stage c dir bd bg pf s) = is_break s"
  "reports (start_stage c dir bd bg pf s) = reports s"
  by (cases q; simp add: start_stage_def BLI_dir_create_recursive_def Let_def split: option.splits)+

lemma job_report_keeps [simp]:
  "sds (job_report s) = sds s" "job (job_report s) = job s"
  by (simp_all add: job_report_def)

lemma end_stage_keeps [simp]:
  "pause_deref q (sds (end_stage bg bd s)) = pause_deref q (sds s)"
  "error (sds (end_stage bg bd s)) = error (sds s)"
  "job (end_stage bg bd s) = job s"
  "reports (end_stage bg bd s) = reports s"
  by (cases q; simp add: end_stage_def Let_def)+

lemma cancelled_bake_outcome:
  assumes jt: "job_type (job s) = bake_idname X"
    and rng: "is_int32 (cache_frame_start (sds s))" "is_int32 (cache_frame_end (sds s))"
      "is_int32 (pause_deref (pause_of X) (sds s))"
    and fr: "cache_frame_start (sds s) \<le> cache_frame_end (sds s)"
      "cache_frame_end (sds s) - cache_frame_start (sds s) < 2147483647"
    and f0: "f0 = initial_frame (pause_of X) (sds s)"
    and lo: "f0 \<le> k" and hi: "k \<le> cache_frame_end (sds s)"
    and pk: "pause_at k" and first: "\<forall>f. f0 \<le> f \<and> f < k \<longrightarrow> \<not> pause_at f"
  shows "\<exists>s'. fluid_manta_bake_job creatable pause_at stop_p do_update_p progress_p s = Some s'
           \<and> success (job s') = 0
           \<and> pause_deref (pause_of X) (sds s') = k
           \<and> \<not> flag_set (cache_flag (sds s')) (BAKING X)
           \<and> flag_set (cache_flag (sds s')) (BAKED X)
           \<and> initial_frame (pause_of X) (sds s')
               = (if k = 0 then cache_frame_start (sds s) else k)"
proof -
  let ?s1 = "s\<lparr>job := (job s)\<lparr>stop := stop_p, do_update := do_update_p,
                               progress := progress_p, success := 1\<rparr>,
               is_break := False, is_rendering := True\<rparr>"
  let ?s2 = "start_stage creatable (stage_dir X) (BAKED X) (BAKING X) (pause_of X) ?s1"
  let ?s3 = "(set_do_update ?s2)\<lparr>cfra := f0\<rparr>"
  let ?frames = "cache_frame_end (sds s) - cache_frame_start (sds s) + 1"
  have frames: "int32 (int32 (cache_frame_end (sds s) - cache_frame_start (sds s)) + 1) = ?frames"
    "0 < ?frames"
    using fr by (simp_all add: int32_def)
  have f0': "f0 = initial_frame (pause_of X) (sds ?s2)"
    by (simp add: f0 initial_frame_def)
  have low: "- 2147483648 \<le> f0"
    using rng by (simp add: f0 initial_frame_def is_int32_def)
  have high: "k \<le> 2147483647"
    using rng(2) hi by (simp add: is_int32_def)
  have "\<exists>s'. bake_frames pause_at (pause_of X) ?frames f0 ?s3 = Some (Returned, s')
           \<and> success (job s') = 0 \<and> pause_deref (pause_of X) (sds s') = k
           \<and> cache_flag (sds s') = cache_flag (sds ?s3)
           \<and> cache_frame_start (sds s') = cache_frame_start (sds ?s3)
           \<and> error (sds s') = error (sds ?s3)
           \<and> job_type (job s') = job_type (job ?s3)
           \<and> job_name (job s') = job_name (job ?s3)
           \<and> reports s' = reports ?s3"
    by (rule bake_frames_cancel) (use lo hi pk first low high in simp_all)
  then obtain s4 where run: "bake_frames pause_at (pause_of X) ?frames f0 ?s3 = Some (Returned, s4)"
    and s4: "success (job s4) = 0" "pause_deref (pause_of X) (sds s4) = k"
      "job_type (job s4) = bake_idname X" "cache_frame_start (sds s4) = cache_frame_start (sds s)"
    using jt by auto
  have seq: "fluid_manta_bake_sequence pause_at ?s2 = Some s4"
    using frames run by (simp add: fluid_manta_bake_sequence_def Let_def f0' [symmetric])
  let ?s5 = "case stop (job (set_do_update s4)) of
                  None \<Rightarrow> set_do_update s4
                | Some _ \<Rightarrow> (set_do_update s4)\<lparr>job := (job (set_do_update s4))\<lparr>stop := Some 0\<rparr>\<rparr>"
  have start: "fluid_manta_bake_startjob creatable pause_at stop_p do_update_p progress_p s = Some ?s5"
    by (simp add: bake_startjob_stage [OF jt] seq)
  have s5: "success (job ?s5) = 0" "pause_deref (pause_of X) (sds ?s5) = k"
      "job_type (job ?s5) = bake_idname X" "cache_frame_start (sds ?s5) = cache_frame_start (sds s)"
    using s4 by (simp_all split: option.splits)
  let ?s6 = "job_report (end_stage (BAKING X) (BAKED X) (?s5\<lparr>is_rendering := False\<rparr>))"
  have job: "fluid_manta_bake_job creatable pause_at stop_p do_update_p progress_p s = Some ?s6"
    using s5(3) by (simp add: fluid_manta_bake_job_def start bake_endjob_stage)
  have a: "success (job ?s6) = 0"
    using s5(1) by simp
  have b: "pause_deref (pause_of X) (sds ?s6) = k"
    using s5(2) by simp
  have c: "cache_frame_start (sds ?s6) = cache_frame_start (sds s)"
    using s5(4) by (simp add: end_stage_def Let_def)
  have d: "initial_frame (pause_of X) (sds ?s6) = (if k = 0 then cache_frame_start (sds s) else k)"
    unfolding initial_frame_def Let_def b c by simp
  from job a b d end_stage_flags [of X "?s5\<lparr>is_rendering := False\<rparr>"] show ?thesis
    by (intro exI [of _ ?s6]) simp
qed

lemma no_frames_to_bake:
  assumes "int32 (int32 (cache_frame_end (sds s) - cache_frame_start (sds s)) + 1) \<le> 0"
  shows "fluid_manta_bake_sequence pause_at s = Some (s\<lparr>sds := (sds s)\<lparr>error := ''No frames to bake''\<rparr>\<rparr>)"
  using assms by (simp add: fluid_manta_bake_sequence_def Let_def)

lemma start_stage_job:
  "stop (job (start_stage c dir bd bg pf s)) = stop (job s)"
  "success (job (start_stage c dir bd bg pf s)) = success (job s)"
  by (simp_all add: start_stage_def BLI_dir_create_recursive_def Let_def split: option.splits)

lemma wrapped_frame_count_bakes_nothing:
  "map_option bake_error
     (fluid_manta_bake_job creatable_all pause_at_11 None None None wide_range_state)
   = Some (''No frames to bake'', 1)"
proof -
  have jt: "job_type (job wide_range_state) = bake_idname DATA"
    by (simp add: wide_range_state_def cancel_state_def)
  let ?s1 = "wide_range_state\<lparr>job := (job wide_range_state)\<lparr>stop := None, do_update := None,
                               progress := None, success := 1\<rparr>,
               is_break := False, is_rendering := True\<rparr>"
  let ?s2 = "start_stage creatable_all (stage_dir DATA) (BAKED DATA) (BAKING DATA) (pause_of DATA) ?s1"
  let ?s3 = "?s2\<lparr>sds := (sds ?s2)\<lparr>error := ''No frames to bake''\<rparr>\<rparr>"
  have "int32 (int32 (cache_frame_end (sds ?s2) - cache_frame_start (sds ?s2)) + 1) \<le> 0"
    by (simp add: wide_range_state_def cancel_state_def int32_def)
  then have seq: "fluid_manta_bake_sequence pause_at_11 ?s2 = Some ?s3"
    by (rule no_frames_to_bake)
  have st: "stop (job ?s2) = None" "success (job ?s2) = 1"
    by (simp_all add: start_stage_job)
  have "\<exists>s4. fluid_manta_bake_startjob creatable_all pause_at_11 None None None wide_range_state
                 = Some s4 \<and> error (sds s4) = ''No frames to bake'' \<and> success (job s4) = 1
               \<and> job_type (job s4) = bake_idname DATA"
    unfolding bake_startjob_stage [OF jt] seq using st jt by (simp split: option.splits)
  then obtain s4 where start: "fluid_manta_bake_startjob creatable_all pause_at_11 None None None
        wide_range_state = Some s4"
    and s4: "error (sds s4) = ''No frames to bake''" "success (job s4) = 1"
      "job_type (job s4) = bake_idname DATA"
    by blast
  show ?thesis
    using s4(1,2)
    by (simp add: fluid_manta_bake_job_def start bake_endjob_stage [OF s4(3)] bake_error_def)
qed

subsection \<open>Freeing the data stage\<close>

lemma delete_if_exists_simps [simp]:
  "disk (delete_if_exists p s) = (disk s)(p := None)"
  "sds (delete_if_exists p s) = sds s"
  "job (delete_if_exists p s) = job s"
  "cfra (delete_if_exists p s) = cfra s"
  "reports (delete_if_exists p s) = reports s"
  by (auto simp add: delete_if_exists_def split: option.splits)

lemma free_data_startjob:
  assumes "job_type (job s) = ''MANTA_OT_free_data''"
  shows "\<exists>s'. fluid_manta_free_startjob (Some st) (Some du) pr s = Some s'
     \<and> sds s' = (sds s)\<lparr>cache_flag := cache_flag (sds s) AND NOT
                    (FLUID_DOMAIN_BAKING_DATA OR FLUID_DOMAIN_BAKED_DATA OR
                     FLUID_DOMAIN_BAKING_NOISE OR FLUID_DOMAIN_BAKED_NOISE OR
                     FLUID_DOMAIN_BAKING_MESH OR FLUID_DOMAIN_BAKED_MESH OR
                     FLUID_DOMAIN_BAKING_PARTICLES OR FLUID_DOMAIN_BAKED_PARTICLES),
                  cache_frame_pause_data := 0\<rparr>
     \<and> disk s' = (disk s)
          ((cache_directory (sds s), FLUID_DOMAIN_DIR_DATA) := None,
           (cache_directory (sds s), FLUID_DOMAIN_DIR_NOISE) := None,
           (cache_directory (sds s), FLUID_DOMAIN_DIR_MESH) := None,
           (cache_directory (sds s), FLUID_DOMAIN_DIR_PARTICLES) := None)
     \<and> job_type (job s') = job_type (job s) \<and> job_name (job s') = job_name (job s)
     \<and> success (job s') = 1 \<and> reports s' = reports s"
  using assms
  by (simp add: fluid_manta_free_startjob_def Let_def clear_flags_def free_dir_def BLI_path_join_def)

lemma free_data_job:
  assumes "job_type (job s) = ''MANTA_OT_free_data''"
  shows "\<exists>s'. fluid_manta_free_job s = Some s'
     \<and> sds s' = (sds s)\<lparr>cache_flag := cache_flag (sds s) AND NOT
                    (FLUID_DOMAIN_BAKING_DATA OR FLUID_DOMAIN_BAKED_DATA OR
                     FLUID_DOMAIN_BAKING_NOISE OR FLUID_DOMAIN_BAKED_NOISE OR
                     FLUID_DOMAIN_BAKING_MESH OR FLUID_DOMAIN_BAKED_MESH OR
                     FLUID_DOMAIN_BAKING_PARTICLES OR FLUID_DOMAIN_BAKED_PARTICLES),
                  cache_frame_pause_data := 0\<rparr>
     \<and> disk s' = (disk s)
          ((cache_directory (sds s), FLUID_DOMAIN_DIR_DATA) := None,
           (cache_directory (sds s), FLUID_DOMAIN_DIR_NOISE) := None,
           (cache_directory (sds s), FLUID_DOMAIN_DIR_MESH) := None,
           (cache_directory (sds s), FLUID_DOMAIN_DIR_PARTICLES) := None)"
proof -
  from free_data_startjob [OF assms, of 0 False "Some 0"]
  obtain t where "fluid_manta_free_startjob (Some 0) (Some False) (Some 0) s = Some t"
    and "sds t = (sds s)\<lparr>cache_flag := cache_flag (sds s) AND NOT
                    (FLUID_DOMAIN_BAKING_DATA OR FLUID_DOMAIN_BAKED_DATA OR
                     FLUID_DOMAIN_BAKING_NOISE OR FLUID_DOMAIN_BAKED_NOISE OR
                     FLUID_DOMAIN_BAKING_MESH OR FLUID_DOMAIN_BAKED_MESH OR
                     FLUID_DOMAIN_BAKING_PARTICLES OR FLUID_DOMAIN_BAKED_PARTICLES),
                  cache_frame_pause_data := 0\<rparr>"
    and "disk t = (disk s)
          ((cache_directory (sds s), FLUID_DOMAIN_DIR_DATA) := None,
           (cache_directory (sds s), FLUID_DOMAIN_DIR_NOISE) := None,
           (cache_directory (sds s), FLUID_DOMAIN_DIR_MESH) := None,
           (cache_directory (sds s), FLUID_DOMAIN_DIR_PARTICLES) := None)"
    by blast
  then show ?thesis
    by (simp add: fluid_manta_free_job_def fluid_manta_free_endjob_def job_report_def)
qed

lemma cleared_flags:
  "X \<noteq> GUIDING \<Longrightarrow> \<not> flag_set (w AND NOT
                    (FLUID_DOMAIN_BAKING_DATA OR FLUID_DOMAIN_BAKED_DATA OR
                     FLUID_DOMAIN_BAKING_NOISE OR FLUID_DOMAIN_BAKED_NOISE OR
                     FLUID_DOMAIN_BAKING_MESH OR FLUID_DOMAIN_BAKED_MESH OR
                     FLUID_DOMAIN_BAKING_PARTICLES OR FLUID_DOMAIN_BAKED_PARTICLES)) (BAKING X)"
  "X \<noteq> GUIDING \<Longrightarrow> \<not> flag_set (w AND NOT
                    (FLUID_DOMAIN_BAKING_DATA OR FLUID_DOMAIN_BAKED_DATA OR
                     FLUID_DOMAIN_BAKING_NOISE OR FLUID_DOMAIN_BAKED_NOISE OR
                     FLUID_DOMAIN_BAKING_MESH OR FLUID_DOMAIN_BAKED_MESH OR
                     FLUID_DOMAIN_BAKING_PARTICLES OR FLUID_DOMAIN_BAKED_PARTICLES)) (BAKED X)"
  by (cases X; simp; unfold flag_pow; simp only: flag_bits; simp)+

lemma kept_flags:
  "flag_set (w AND NOT
                    (FLUID_DOMAIN_BAKING_DATA OR FLUID_DOMAIN_BAKED_DATA OR
                     FLUID_DOMAIN_BAKING_NOISE OR FLUID_DOMAIN_BAKED_NOISE OR
                     FLUID_DOMAIN_BAKING_MESH OR FLUID_DOMAIN_BAKED_MESH OR
                     FLUID_DOMAIN_BAKING_PARTICLES OR FLUID_DOMAIN_BAKED_PARTICLES)) FLUID_DOMAIN_BAKING_GUIDING
    = flag_set w FLUID_DOMAIN_BAKING_GUIDING"
  "flag_set (w AND NOT
                    (FLUID_DOMAIN_BAKING_DATA OR FLUID_DOMAIN_BAKED_DATA OR
                     FLUID_DOMAIN_BAKING_NOISE OR FLUID_DOMAIN_BAKED_NOISE OR
                     FLUID_DOMAIN_BAKING_MESH OR FLUID_DOMAIN_BAKED_MESH OR
                     FLUID_DOMAIN_BAKING_PARTICLES OR FLUID_DOMAIN_BAKED_PARTICLES)) FLUID_DOMAIN_BAKED_GUIDING
    = flag_set w FLUID_DOMAIN_BAKED_GUIDING"
  by (unfold flag_pow; simp only: flag_bits; simp)+

subsection \<open>Cancelling a bake\<close>

text \<open>
  C1, at a concrete run: a data bake over the frames 10 to 12, started from a clean
  state, is cancelled by the break flag at frame 11, before the final frame.  When the
  job has ended, \<^verbatim>\<open>success\<close> is 0 and the pause marker is 11, but the stage does not
  have its BAKING bit any more and does have its BAKED bit: the end hook updates the
  flags whatever the outcome of the bake.
\<close>

theorem cancelled_data_bake_not_left_baking:
  "map_option (bake_outcome DATA)
     (fluid_manta_bake_job creatable_all pause_at_11 None None None cancel_state)
   = Some (0, 11, False, True)"
proof -
  have jt: "job_type (job cancel_state) = bake_idname DATA"
    by (simp add: cancel_state_def)
  have rng: "is_int32 (cache_frame_start (sds cancel_state))"
    "is_int32 (cache_frame_end (sds cancel_state))"
    "is_int32 (pause_deref (pause_of DATA) (sds cancel_state))"
    by (simp_all add: cancel_state_def is_int32_def)
  have fr: "cache_frame_start (sds cancel_state) \<le> cache_frame_end (sds cancel_state)"
    "cache_frame_end (sds cancel_state) - cache_frame_start (sds cancel_state) < 2147483647"
    by (simp_all add: cancel_state_def)
  have f0: "10 = initial_frame (pause_of DATA) (sds cancel_state)"
    by (simp add: cancel_state_def initial_frame_def)
  have hi: "11 \<le> cache_frame_end (sds cancel_state)"
    by (simp add: cancel_state_def)
  have first: "\<forall>f. 10 \<le> f \<and> f < 11 \<longrightarrow> \<not> pause_at_11 f"
    by (simp add: pause_at_11_def)
  have pk: "pause_at_11 11"
    by (simp add: pause_at_11_def)
  from cancelled_bake_outcome [OF jt rng fr f0 _ hi pk first, of creatable_all None None None]
  show ?thesis by (auto simp add: bake_outcome_def)
qed

text \<open>
  C1, as the code has it: let the cache frames and the pause marker of stage \<open>X\<close> be
  \<^verbatim>\<open>int\<close> values, the frame range non-empty and its length an \<^verbatim>\<open>int\<close> as well.  If a
  bake of \<open>X\<close> starts at frame \<open>f0\<close> (the first cache frame, or the pause marker when that
  is not 0) and the break flag is first seen raised at a frame \<open>k\<close> from \<open>f0\<close> up to the
  last frame, then the job ends with \<^verbatim>\<open>success\<close> 0 and the pause marker of \<open>X\<close> at \<open>k\<close>.
  The BAKING bit of \<open>X\<close> is cleared and the BAKED bit of \<open>X\<close> is set, as after a completed
  bake.  A later bake of \<open>X\<close> starts at frame \<open>k\<close>, unless \<open>k\<close> is 0: then it starts at the
  first cache frame again.
\<close>

theorem cancelled_bake_is_marked_baked:
  assumes jt: "job_type (job s) = bake_idname X"
    and rng: "is_int32 (cache_frame_start (sds s))" "is_int32 (cache_frame_end (sds s))"
      "is_int32 (pause_deref (pause_of X) (sds s))"
    and fr: "cache_frame_start (sds s) \<le> cache_frame_end (sds s)"
      "cache_frame_end (sds s) - cache_frame_start (sds s) < 2147483647"
    and f0: "f0 = initial_frame (pause_of X) (sds s)"
    and lo: "f0 \<le> k" and hi: "k \<le> cache_frame_end (sds s)"
    and pk: "pause_at k" and first: "\<forall>f. f0 \<le> f \<and> f < k \<longrightarrow> \<not> pause_at f"
  shows "\<exists>s'. fluid_manta_bake_job creatable pause_at stop_p do_update_p progress_p s = Some s'
           \<and> success (job s') = 0
           \<and> pause_deref (pause_of X) (sds s') = k
           \<and> \<not> flag_set (cache_flag (sds s')) (BAKING X)
           \<and> flag_set (cache_flag (sds s')) (BAKED X)
           \<and> initial_frame (pause_of X) (sds s')
               = (if k = 0 then cache_frame_start (sds s) else k)"
  using assms by (rule cancelled_bake_outcome)

text \<open>
  C1, two instances: a noise bake over the frames 1 to 5 that resumes from pause marker
  3 and is cancelled at frame 4, so that a later bake starts at frame 4; and a data bake
  over the frames -2 to 3 that is cancelled at frame 0, so that a later bake starts at
  frame -2 again.
\<close>

theorem cancelled_bake_is_marked_baked_witness:
  "(\<exists>s'. fluid_manta_bake_job creatable_all pause_at_4 (Some 0) (Some False) (Some 0) resume_state
           = Some s'
     \<and> success (job s') = 0
     \<and> cache_frame_pause_noise (sds s') = 4
     \<and> \<not> flag_set (cache_flag (sds s')) FLUID_DOMAIN_BAKING_NOISE
     \<and> flag_set (cache_flag (sds s')) FLUID_DOMAIN_BAKED_NOISE
     \<and> initial_frame PauseNoise (sds s') = 4)
   \<and> (\<exists>s'. fluid_manta_bake_job creatable_all pause_at_0 None None None negative_start_state
           = Some s'
     \<and> success (job s') = 0
     \<and> cache_frame_pause_data (sds s') = 0
     \<and> \<not> flag_set (cache_flag (sds s')) FLUID_DOMAIN_BAKING_DATA
     \<and> flag_set (cache_flag (sds s')) FLUID_DOMAIN_BAKED_DATA
     \<and> initial_frame PauseData (sds s') = - 2)"
proof -
  have jt: "job_type (job resume_state) = bake_idname NOISE"
    by (simp add: resume_state_def)
  have rng: "is_int32 (cache_frame_start (sds resume_state))"
    "is_int32 (cache_frame_end (sds resume_state))"
    "is_int32 (pause_deref (pause_of NOISE) (sds resume_state))"
    by (simp_all add: resume_state_def is_int32_def)
  have fr: "cache_frame_start (sds resume_state) \<le> cache_frame_end (sds resume_state)"
    "cache_frame_end (sds resume_state) - cache_frame_start (sds resume_state) < 2147483647"
    by (simp_all add: resume_state_def)
  have f0: "3 = initial_frame (pause_of NOISE) (sds resume_state)"
    by (simp add: resume_state_def initial_frame_def)
  have hi: "4 \<le> cache_frame_end (sds resume_state)"
    by (simp add: resume_state_def)
  have first: "\<forall>f. 3 \<le> f \<and> f < 4 \<longrightarrow> \<not> pause_at_4 f"
    by (simp add: pause_at_4_def)
  have pk: "pause_at_4 4"
    by (simp add: pause_at_4_def)
  have a: "\<exists>s'. fluid_manta_bake_job creatable_all pause_at_4 (Some 0) (Some False) (Some 0) resume_state
           = Some s'
     \<and> success (job s') = 0
     \<and> cache_frame_pause_noise (sds s') = 4
     \<and> \<not> flag_set (cache_flag (sds s')) FLUID_DOMAIN_BAKING_NOISE
     \<and> flag_set (cache_flag (sds s')) FLUID_DOMAIN_BAKED_NOISE
     \<and> initial_frame PauseNoise (sds s') = 4"
    using cancelled_bake_is_marked_baked [OF jt rng fr f0 _ hi pk first,
      of creatable_all "Some 0" "Some False" "Some 0"]
    by simp
  have jt': "job_type (job negative_start_state) = bake_idname DATA"
    by (simp add: negative_start_state_def cancel_state_def)
  have rng': "is_int32 (cache_frame_start (sds negative_start_state))"
    "is_int32 (cache_frame_end (sds negative_start_state))"
    "is_int32 (pause_deref (pause_of DATA) (sds negative_start_state))"
    by (simp_all add: negative_start_state_def cancel_state_def is_int32_def)
  have fr': "cache_frame_start (sds negative_start_state) \<le> cache_frame_end (sds negative_start_state)"
    "cache_frame_end (sds negative_start_state) - cache_frame_start (sds negative_start_state)
       < 2147483647"
    by (simp_all add: negative_start_state_def cancel_state_def)
  have f0': "- 2 = initial_frame (pause_of DATA) (sds negative_start_state)"
    by (simp add: negative_start_state_def cancel_state_def initial_frame_def)
  have hi': "0 \<le> cache_frame_end (sds negative_start_state)"
    by (simp add: negative_start_state_def cancel_state_def)
  have first': "\<forall>f. - 2 \<le> f \<and> f < 0 \<longrightarrow> \<not> pause_at_0 f"
    by (simp add: pause_at_0_def)
  have pk': "pause_at_0 0"
    by (simp add: pause_at_0_def)
  have st': "cache_frame_start (sds negative_start_state) = - 2"
    by (simp add: negative_start_state_def cancel_state_def)
  have b: "\<exists>s'. fluid_manta_bake_job creatable_all pause_at_0 None None None negative_start_state
           = Some s'
     \<and> success (job s') = 0
     \<and> cache_frame_pause_data (sds s') = 0
     \<and> \<not> flag_set (cache_flag (sds s')) FLUID_DOMAIN_BAKING_DATA
     \<and> flag_set (cache_flag (sds s')) FLUID_DOMAIN_BAKED_DATA
     \<and> initial_frame PauseData (sds s') = - 2"
    using cancelled_bake_is_marked_baked [OF jt' rng' fr' f0' _ hi' pk' first',
      of creatable_all None None None]
    by (simp add: st')
  from a b show ?thesis by blast
qed

subsection \<open>Free while a bake is pending\<close>

text \<open>
  C8, at a concrete state: the domain has only the BAKING bit of GUIDING set, its pause
  marker for guiding is 7 and its guiding directory holds a file.  The free operator
  for guiding is not rejected: it returns \<^verbatim>\<open>OPERATOR_FINISHED\<close> without a report
  and hands a job to the job system, and that job clears the BAKING bit, resets the
  pause marker and deletes the directory.  The test in \<^verbatim>\<open>fluid_manta_free_exec\<close> looks
  at the BAKING bits of DATA, NOISE, MESH and PARTICLES only.
\<close>

theorem free_accepted_while_guiding_bakes:
  "flag_set (cache_flag guiding_baking_domain) (BAKING GUIDING)
   \<and> fluid_manta_free_exec writable_env ''MANTA_OT_free_guiding'' ''Free Guiding''
       (Some \<lparr>domain = Some guiding_baking_domain\<rparr>) []
     = (OPERATOR_FINISHED, Some \<lparr>domain = Some guiding_baking_domain\<rparr>, [], Some free_guiding_job)
   \<and> free_outcome GUIDING guiding_baking_state
     = (True, False, 7, Some [''guidevel_0001.uni''])
   \<and> map_option (free_outcome GUIDING) (fluid_manta_free_job guiding_baking_state)
     = Some (False, False, 0, None)"
proof -
  have a: "flag_set (cache_flag guiding_baking_domain) (BAKING GUIDING)"
    by (simp add: guiding_baking_domain_def flag_set_def FLUID_DOMAIN_BAKING_GUIDING_def)
  have b: "fluid_manta_free_exec writable_env ''MANTA_OT_free_guiding'' ''Free Guiding''
       (Some \<lparr>domain = Some guiding_baking_domain\<rparr>) []
     = (OPERATOR_FINISHED, Some \<lparr>domain = Some guiding_baking_domain\<rparr>, [], Some free_guiding_job)"
    by (simp add: fluid_manta_free_exec_def guiding_baking_domain_def free_guiding_job_def
        fluid_manta_initpaths_def writable_env_def BLI_strncpy_def Let_def
        FLUID_DOMAIN_BAKING_GUIDING_def FLUID_DOMAIN_BAKING_DATA_def FLUID_DOMAIN_BAKING_NOISE_def
        FLUID_DOMAIN_BAKING_MESH_def FLUID_DOMAIN_BAKING_PARTICLES_def)
  have c: "free_outcome GUIDING guiding_baking_state
     = (True, False, 7, Some [''guidevel_0001.uni''])"
    by (simp add: free_outcome_def guiding_baking_state_def guiding_baking_domain_def
        flag_set_def FLUID_DOMAIN_BAKING_GUIDING_def FLUID_DOMAIN_BAKED_GUIDING_def
        BLI_path_join_def FLUID_DOMAIN_DIR_GUIDING_def)
  have d: "map_option (free_outcome GUIDING) (fluid_manta_free_job guiding_baking_state)
     = Some (False, False, 0, None)"
    by (simp add: fluid_manta_free_job_def fluid_manta_free_startjob_def
        fluid_manta_free_endjob_def job_report_def free_outcome_def
        guiding_baking_state_def guiding_baking_domain_def free_guiding_job_def
        clear_flags_def free_dir_def BLI_path_join_def Let_def flag_set_def
        FLUID_DOMAIN_BAKING_GUIDING_def FLUID_DOMAIN_BAKED_GUIDING_def FLUID_DOMAIN_DIR_GUIDING_def)
  from a b c d show ?thesis by blast
qed

subsection \<open>Freeing the data stage: flags, directories and pause markers\<close>

text \<open>
  C9: a free job for the DATA stage clears the BAKING and BAKED bits of DATA, NOISE,
  MESH and PARTICLES and deletes their cache sub-directories; the two bits of GUIDING
  and the guiding sub-directory are as before.
\<close>

theorem free_data_cascades_but_keeps_guiding:
  assumes "job_type (job s) = free_idname DATA"
  shows "\<exists>s'. fluid_manta_free_job s = Some s'
     \<and> (\<forall>X. X \<noteq> GUIDING \<longrightarrow>
            \<not> flag_set (cache_flag (sds s')) (BAKING X)
          \<and> \<not> flag_set (cache_flag (sds s')) (BAKED X)
          \<and> disk s' (BLI_path_join (cache_directory (sds s)) (stage_dir X)) = None)
     \<and> flag_set (cache_flag (sds s')) (BAKING GUIDING) = flag_set (cache_flag (sds s)) (BAKING GUIDING)
     \<and> flag_set (cache_flag (sds s')) (BAKED GUIDING) = flag_set (cache_flag (sds s)) (BAKED GUIDING)
     \<and> disk s' (BLI_path_join (cache_directory (sds s)) (stage_dir GUIDING))
         = disk s (BLI_path_join (cache_directory (sds s)) (stage_dir GUIDING))
     \<and> cache_directory (sds s') = cache_directory (sds s)"
proof -
  from assms have "job_type (job s) = ''MANTA_OT_free_data''" by simp
  from free_data_job [OF this] obtain s' where run: "fluid_manta_free_job s = Some s'"
    and d: "sds s' = (sds s)\<lparr>cache_flag := cache_flag (sds s) AND NOT
                    (FLUID_DOMAIN_BAKING_DATA OR FLUID_DOMAIN_BAKED_DATA OR
                     FLUID_DOMAIN_BAKING_NOISE OR FLUID_DOMAIN_BAKED_NOISE OR
                     FLUID_DOMAIN_BAKING_MESH OR FLUID_DOMAIN_BAKED_MESH OR
                     FLUID_DOMAIN_BAKING_PARTICLES OR FLUID_DOMAIN_BAKED_PARTICLES),
                  cache_frame_pause_data := 0\<rparr>"
    and k: "disk s' = (disk s)
          ((cache_directory (sds s), FLUID_DOMAIN_DIR_DATA) := None,
           (cache_directory (sds s), FLUID_DOMAIN_DIR_NOISE) := None,
           (cache_directory (sds s), FLUID_DOMAIN_DIR_MESH) := None,
           (cache_directory (sds s), FLUID_DOMAIN_DIR_PARTICLES) := None)"
    by blast
  have gone: "disk s' (BLI_path_join (cache_directory (sds s)) (stage_dir X)) = None"
    if "X \<noteq> GUIDING" for X
    using that by (cases X) (simp_all add: k BLI_path_join_def)
  have kept: "disk s' (BLI_path_join (cache_directory (sds s)) (stage_dir GUIDING))
         = disk s (BLI_path_join (cache_directory (sds s)) (stage_dir GUIDING))"
    by (simp add: k BLI_path_join_def FLUID_DOMAIN_DIR_DATA_def FLUID_DOMAIN_DIR_NOISE_def
      FLUID_DOMAIN_DIR_MESH_def FLUID_DOMAIN_DIR_PARTICLES_def FLUID_DOMAIN_DIR_GUIDING_def)
  have cf: "cache_flag (sds s') = cache_flag (sds s) AND NOT
                    (FLUID_DOMAIN_BAKING_DATA OR FLUID_DOMAIN_BAKED_DATA OR
                     FLUID_DOMAIN_BAKING_NOISE OR FLUID_DOMAIN_BAKED_NOISE OR
                     FLUID_DOMAIN_BAKING_MESH OR FLUID_DOMAIN_BAKED_MESH OR
                     FLUID_DOMAIN_BAKING_PARTICLES OR FLUID_DOMAIN_BAKED_PARTICLES)"
    by (simp add: d)
  have fl: "\<not> flag_set (cache_flag (sds s')) (BAKING X)" "\<not> flag_set (cache_flag (sds s')) (BAKED X)"
    if "X \<noteq> GUIDING" for X
    unfolding cf using that by (rule cleared_flags)+
  have gd: "flag_set (cache_flag (sds s')) (BAKING GUIDING) = flag_set (cache_flag (sds s)) (BAKING GUIDING)"
    "flag_set (cache_flag (sds s')) (BAKED GUIDING) = flag_set (cache_flag (sds s)) (BAKED GUIDING)"
    unfolding cf BAKING.simps BAKED.simps by (rule kept_flags)+
  have "cache_directory (sds s') = cache_directory (sds s)"
    by (simp add: d)
  with run gone kept fl gd show ?thesis
    by blast
qed

text \<open>
  C9, an instance: data, noise and guiding are baked and on disk; after the free job the
  data and noise directories are gone and their bits cleared, guiding is untouched.
\<close>

theorem free_data_cascades_but_keeps_guiding_witness:
  "\<exists>s'. fluid_manta_free_job all_baked_state = Some s'
     \<and> \<not> flag_set (cache_flag (sds s')) FLUID_DOMAIN_BAKED_DATA
     \<and> \<not> flag_set (cache_flag (sds s')) FLUID_DOMAIN_BAKED_NOISE
     \<and> \<not> flag_set (cache_flag (sds s')) FLUID_DOMAIN_BAKED_MESH
     \<and> disk s' (''/tmp/cache'', ''data'') = None
     \<and> disk s' (''/tmp/cache'', ''noise'') = None
     \<and> flag_set (cache_flag (sds s')) FLUID_DOMAIN_BAKED_GUIDING
     \<and> disk s' (''/tmp/cache'', ''guiding'') = Some [''guidevel_0001.uni'']"
proof -
  have jt: "job_type (job all_baked_state) = free_idname DATA"
    by (simp add: all_baked_state_def)
  have g: "flag_set (cache_flag (sds all_baked_state)) (BAKED GUIDING)"
    unfolding all_baked_state_def
    by (simp; unfold flag_pow; simp only: flag_bits; simp)
  from free_data_cascades_but_keeps_guiding [OF jt]
  obtain s' where run: "fluid_manta_free_job all_baked_state = Some s'"
    and cleared: "\<And>X. X \<noteq> GUIDING \<Longrightarrow> \<not> flag_set (cache_flag (sds s')) (BAKED X)
          \<and> disk s' (BLI_path_join (cache_directory (sds all_baked_state)) (stage_dir X)) = None"
    and kept: "flag_set (cache_flag (sds s')) (BAKED GUIDING)
        = flag_set (cache_flag (sds all_baked_state)) (BAKED GUIDING)"
      "disk s' (BLI_path_join (cache_directory (sds all_baked_state)) (stage_dir GUIDING))
         = disk all_baked_state (BLI_path_join (cache_directory (sds all_baked_state)) (stage_dir GUIDING))"
    by blast
  from cleared [of DATA] cleared [of NOISE] cleared [of MESH] kept g run
  show ?thesis
    by (simp add: all_baked_state_def BLI_path_join_def FLUID_DOMAIN_DIR_DATA_def
        FLUID_DOMAIN_DIR_NOISE_def FLUID_DOMAIN_DIR_GUIDING_def)
qed

text \<open>
  C10: a free job for the DATA stage sets the pause marker of DATA to 0 and leaves the
  pause markers of NOISE, MESH, PARTICLES and GUIDING at their values, although it
  clears the BAKING and BAKED bits of NOISE, MESH and PARTICLES and deletes their
  directories.
\<close>

theorem free_data_resets_only_data_pause:
  assumes "job_type (job s) = free_idname DATA"
  shows "\<exists>s'. fluid_manta_free_job s = Some s'
     \<and> cache_frame_pause_data (sds s') = 0
     \<and> cache_frame_pause_noise (sds s') = cache_frame_pause_noise (sds s)
     \<and> cache_frame_pause_mesh (sds s') = cache_frame_pause_mesh (sds s)
     \<and> cache_frame_pause_particles (sds s') = cache_frame_pause_particles (sds s)
     \<and> cache_frame_pause_guiding (sds s') = cache_frame_pause_guiding (sds s)
     \<and> \<not> flag_set (cache_flag (sds s')) (BAKING NOISE) \<and> \<not> flag_set (cache_flag (sds s')) (BAKED NOISE)
     \<and> \<not> flag_set (cache_flag (sds s')) (BAKING MESH) \<and> \<not> flag_set (cache_flag (sds s')) (BAKED MESH)
     \<and> \<not> flag_set (cache_flag (sds s')) (BAKING PARTICLES)
     \<and> \<not> flag_set (cache_flag (sds s')) (BAKED PARTICLES)
     \<and> disk s' (BLI_path_join (cache_directory (sds s)) FLUID_DOMAIN_DIR_NOISE) = None
     \<and> disk s' (BLI_path_join (cache_directory (sds s)) FLUID_DOMAIN_DIR_MESH) = None
     \<and> disk s' (BLI_path_join (cache_directory (sds s)) FLUID_DOMAIN_DIR_PARTICLES) = None"
proof -
  from assms have "job_type (job s) = ''MANTA_OT_free_data''" by simp
  from free_data_job [OF this] obtain s' where run: "fluid_manta_free_job s = Some s'"
    and d: "sds s' = (sds s)\<lparr>cache_flag := cache_flag (sds s) AND NOT
                    (FLUID_DOMAIN_BAKING_DATA OR FLUID_DOMAIN_BAKED_DATA OR
                     FLUID_DOMAIN_BAKING_NOISE OR FLUID_DOMAIN_BAKED_NOISE OR
                     FLUID_DOMAIN_BAKING_MESH OR FLUID_DOMAIN_BAKED_MESH OR
                     FLUID_DOMAIN_BAKING_PARTICLES OR FLUID_DOMAIN_BAKED_PARTICLES),
                  cache_frame_pause_data := 0\<rparr>"
    and k: "disk s' = (disk s)
          ((cache_directory (sds s), FLUID_DOMAIN_DIR_DATA) := None,
           (cache_directory (sds s), FLUID_DOMAIN_DIR_NOISE) := None,
           (cache_directory (sds s), FLUID_DOMAIN_DIR_MESH) := None,
           (cache_directory (sds s), FLUID_DOMAIN_DIR_PARTICLES) := None)"
    by blast
  have cf: "cache_flag (sds s') = cache_flag (sds s) AND NOT
                    (FLUID_DOMAIN_BAKING_DATA OR FLUID_DOMAIN_BAKED_DATA OR
                     FLUID_DOMAIN_BAKING_NOISE OR FLUID_DOMAIN_BAKED_NOISE OR
                     FLUID_DOMAIN_BAKING_MESH OR FLUID_DOMAIN_BAKED_MESH OR
                     FLUID_DOMAIN_BAKING_PARTICLES OR FLUID_DOMAIN_BAKED_PARTICLES)"
    by (simp add: d)
  have fl: "\<not> flag_set (cache_flag (sds s')) (BAKING X)" "\<not> flag_set (cache_flag (sds s')) (BAKED X)"
    if "X \<noteq> GUIDING" for X
    unfolding cf using that by (rule cleared_flags)+
  show ?thesis
    using run fl [of NOISE] fl [of MESH] fl [of PARTICLES]
    by (simp add: d k BLI_path_join_def)
qed

text \<open>
  C10, an instance: the markers 5, 5, 2 and 5 of noise, mesh, particles and guiding
  survive the free job, the marker of data becomes 0.
\<close>

theorem free_data_resets_only_data_pause_witness:
  "\<exists>s'. fluid_manta_free_job all_baked_state = Some s'
     \<and> cache_frame_pause_data (sds s') = 0
     \<and> cache_frame_pause_noise (sds s') = 5
     \<and> cache_frame_pause_mesh (sds s') = 5
     \<and> cache_frame_pause_particles (sds s') = 2
     \<and> cache_frame_pause_guiding (sds s') = 5
     \<and> \<not> flag_set (cache_flag (sds s')) FLUID_DOMAIN_BAKED_NOISE
     \<and> disk s' (''/tmp/cache'', ''noise'') = None"
  using free_data_resets_only_data_pause [of all_baked_state]
  by (simp add: all_baked_state_def BLI_path_join_def FLUID_DOMAIN_DIR_NOISE_def) blast

section \<open>Properties of the legacy bake\<close>

subsection \<open>Validation\<close>

lemma validate_objects_conflict:
  assumes "p \<in> set ps" and "p \<noteq> d" and "is_domain_mesh scene p"
  shows "validate_objects scene (Some d) ps acc = None"
  using assms
proof (induction ps arbitrary: acc)
  case Nil
  then show ?case by simp
next
  case (Cons x xs)
  obtain nd c f where acc: "acc = (nd, c, f)" by (cases acc)
  show ?case
  proof (cases "x = p")
    case True
    with Cons.prems show ?thesis
      by (auto simp add: acc is_domain_mesh_def split: option.splits)
  next
    case False
    with Cons.prems have "p \<in> set xs" by simp
    from Cons.IH [OF this Cons.prems(2,3)] show ?thesis
      by (simp add: acc Let_def split: option.splits)
  qed
qed

lemma validate_objects_no_caller_domain:
  "validate_objects scene None ps acc \<noteq> None"
proof (induction ps arbitrary: acc)
  case Nil
  then show ?case by simp
next
  case (Cons x xs)
  obtain nd c f where acc: "acc = (nd, c, f)" by (cases acc)
  from Cons.IH show ?case
    by (simp add: acc Let_def split: option.splits)
qed

lemma validate_objects_inputs:
  assumes "\<forall>p \<in> set ps. is_mesh (obs scene p) \<and>
             (\<exists>fss. fluidmd (obs scene p) = Some fss \<and> fss_type fss = OB_FLUIDSIM_FLUID)"
  shows "validate_objects scene fsDomain ps (nd, c, f)
           = Some (nd, c + int (length ps), f + int (length ps))"
  using assms
proof (induction ps arbitrary: c f)
  case Nil
  then show ?case by simp
next
  case (Cons x xs)
  then obtain fss where x: "is_mesh (obs scene x)" "fluidmd (obs scene x) = Some fss"
      "fss_type fss = OB_FLUIDSIM_FLUID"
    by auto
  from Cons.prems have "\<forall>p \<in> set xs. is_mesh (obs scene p) \<and>
             (\<exists>fss. fluidmd (obs scene p) = Some fss \<and> fss_type fss = OB_FLUIDSIM_FLUID)"
    by simp
  from Cons.IH [OF this] x show ?case
    by (simp add: Let_def)
qed

lemma crowded_scene_counts:
  "validate_objects (crowded_scene n) (Some 0) (base (crowded_scene n)) (None, 0, 0)
     = Some (None, int n, int n)"
proof -
  have b: "base (crowded_scene n) = 0 # [1..<Suc n]"
    by (simp add: crowded_scene_def upt_conv_Cons)
  have rest: "validate_objects (crowded_scene n) (Some 0) [1..<Suc n] (None, 0, 0)
     = Some (None, 0 + int (length [1..<Suc n]), 0 + int (length [1..<Suc n]))"
    by (rule validate_objects_inputs) (simp add: crowded_scene_def mesh_object_def default_settings_def)
  show ?thesis
    unfolding b using rest
    by (simp add: crowded_scene_def mesh_object_def default_settings_def)
qed

lemma fluidbake_free_data_nothing: "fluidbake_free_data channels0 [] [] = Inr []"
  by (simp add: fluidbake_free_data_def free_domain_channels_def channels0_def then_do_def)

lemma bake_stops_when_invalid:
  assumes "fst (fluid_validate_scene reps scene fsDomain) = 0"
  shows "\<exists>r. fluidsimBake host env scene fsDomain do_job reps = Inr r \<and> retval r = 0
           \<and> solver_settings r = None \<and> \<not> job_started r \<and> \<not> simulated r"
  using assms
  by (cases "fluid_validate_scene reps scene fsDomain")
     (simp add: fluidsimBake_def Let_def bake_cancelled_def fluidbake_free_data_nothing then_do_def)

lemma inflow_scene_valid: "fluid_validate_scene reps inflow_scene (Some 0) = (1, reps)"
  by (simp add: fluid_validate_scene_def inflow_scene_def mesh_object_def default_settings_def)

subsection \<open>Path resolvers\<close>

lemma legacy_resolver_result:
  "fst (fluid_init_filepaths env reps d) = legacy_first_check env d"
  by (simp add: fluid_init_filepaths_def legacy_first_check_def legacy_first_dir_def Let_def
      split: prod.splits)

lemma legacy_resolver_failure:
  assumes "\<not> legacy_first_check env d"
  shows "fluid_init_filepaths env reps d
           = (False,
              reps @ legacy_empty_path_warning env d @ [legacy_first_error env d]
                @ (if legacy_second_check env then [] else [legacy_second_error env]),
              d\<lparr>surfdataPath := legacy_default_path env\<rparr>,
              legacy_default_dir env,
              BLI_join_dirfile env (legacy_default_dir env) FLUID_SUFFIX_CONFIG_TMP)"
proof (cases "surfdataPath d = []")
  case True
  with assms show ?thesis
    by (simp add: fluid_init_filepaths_def legacy_first_check_def legacy_first_dir_def
        legacy_default_path_def legacy_default_dir_def legacy_second_check_def
        legacy_empty_path_warning_def legacy_first_error_def legacy_second_error_def Let_def)
next
  case False
  with assms show ?thesis
    by (simp add: fluid_init_filepaths_def legacy_first_check_def legacy_first_dir_def
        legacy_default_path_def legacy_default_dir_def legacy_second_check_def
        legacy_empty_path_warning_def legacy_first_error_def legacy_second_error_def Let_def)
qed

lemma manta_resolver_failure:
  assumes "\<not> manta_first_check env d"
  shows "fluid_manta_initpaths env d reps
           = (False, d\<lparr>cache_directory := manta_default_path env\<rparr>,
              reps @ manta_empty_path_warning env d @ [manta_first_error env d]
                @ (if manta_second_check env then [] else [manta_second_error env]))"
proof (cases "cache_directory d = []")
  case True
  with assms show ?thesis
    by (simp add: fluid_manta_initpaths_def manta_first_check_def manta_first_dir_def
        manta_default_path_def manta_default_dir_def manta_second_check_def
        manta_empty_path_warning_def manta_first_error_def manta_second_error_def Let_def)
next
  case False
  with assms show ?thesis
    by (simp add: fluid_manta_initpaths_def manta_first_check_def manta_first_dir_def
        manta_default_path_def manta_default_dir_def manta_second_check_def
        manta_empty_path_warning_def manta_first_error_def manta_second_error_def Let_def)
qed

lemma first_check_keeps:
  "legacy_first_check env (d\<lparr>bakeStart := a, bakeEnd := b, lastgoodframe := c\<rparr>) = legacy_first_check env d"
  "legacy_first_check env (d\<lparr>previewresxyz := e\<rparr>) = legacy_first_check env d"
  by (simp_all add: legacy_first_check_def legacy_first_dir_def)

lemma bake_stops_when_path_fails:
  assumes "fss_of scene dob = Inr ds" and "\<not> legacy_first_check env ds"
  shows "\<exists>r. fluidsimBake host env scene (Some dob) do_job reps = Inr r \<and> retval r = 0
           \<and> solver_settings r = None \<and> \<not> job_started r \<and> \<not> simulated r"
proof (cases "r_efra scene - 0 \<le> 0")
  case True
  then show ?thesis
    by (simp add: fluidsimBake_def Let_def bake_cancelled_def fluidbake_free_data_nothing then_do_def)
next
  case frames: False
  show ?thesis
  proof (cases "fst (fluid_validate_scene reps scene (Some dob)) = 0")
    case True
    then show ?thesis by (rule bake_stops_when_invalid)
  next
    case False
    obtain v reps1 where val: "fluid_validate_scene reps scene (Some dob) = (v, reps1)"
      by (cases "fluid_validate_scene reps scene (Some dob)")
    with False have v: "v \<noteq> 0" by simp
    let ?ds1 = "ds\<lparr>bakeStart := 1, bakeEnd := r_efra scene, lastgoodframe := - 1\<rparr>"
    let ?ds2 = "if previewresxyz ?ds1 > resolutionxyz ?ds1
                then ?ds1\<lparr>previewresxyz := resolutionxyz ?ds1\<rparr> else ?ds1"
    have nc: "\<not> legacy_first_check env ?ds2"
      using assms(2) by (simp add: first_check_keeps)
    obtain ok reps2 ds3 targetDir targetFile
      where fp: "fluid_init_filepaths env reps1 ?ds2 = (ok, reps2, ds3, targetDir, targetFile)"
      by (cases "fluid_init_filepaths env reps1 ?ds2") auto
    have "fst (fluid_init_filepaths env reps1 ?ds2) = legacy_first_check env ?ds2"
      by (rule legacy_resolver_result)
    with nc fp have "\<not> ok" by simp
    with frames val v fp assms(1) show ?thesis
      by (simp add: fluidsimBake_def Let_def deref_def then_do_def bake_cancelled_def
          fluidbake_free_data_nothing)
  qed
qed

subsection \<open>Results of the memory operations\<close>

lemma then_do_Inr:
  "then_do m f = Inr r \<longleftrightarrow> (\<exists>x. m = Inr x \<and> f x = Inr r)"
  by (cases m) (simp_all add: then_do_def)

lemma store_Inr:
  "store c k v = Inr c' \<longleftrightarrow> (0 \<le> k \<and> k < int (length c) \<and> c' = c[nat k := v])"
  by (auto simp add: store_def)

lemma load_Inr:
  "load c k = Inr v \<longleftrightarrow> (0 \<le> k \<and> k < int (length c) \<and> v = c ! nat k)"
  by (auto simp add: load_def)

lemma deref_Inr: "deref p = Inr x \<longleftrightarrow> p = Some x"
  by (cases p) (simp_all add: deref_def)

lemma for_each_invariant:
  assumes "for_each body xs s = Inr s'" and "P s"
    and "\<And>x t t'. P t \<Longrightarrow> body x t = Inr t' \<Longrightarrow> P t'"
  shows "P s'"
  using assms(1,2)
proof (induction xs arbitrary: s)
  case Nil
  then show ?case by simp
next
  case (Cons x xs)
  from Cons.prems(1) obtain t where t: "body x s = Inr t" "for_each body xs t = Inr s'"
    by (auto simp add: then_do_Inr)
  from assms(3) [OF Cons.prems(2) t(1)] have "P t" .
  from Cons.IH [OF t(2) this] show ?case .
qed

lemma for_each_append:
  "for_each body (xs @ ys) s = then_do (for_each body xs s) (for_each body ys)"
proof (induction xs arbitrary: s)
  case Nil
  then show ?case by (simp add: then_do_def)
next
  case (Cons x xs)
  then show ?case
    by (cases "body x s") (simp_all add: then_do_def)
qed

lemma set_channel_float:
  assumes "set_channel ch t v i CHANNEL_FLOAT = Inr r"
  shows "\<exists>c v0. ch = Some c \<and> r = Some (c[nat (i * 2) := v0, nat (i * 2 + 1) := t])
           \<and> 0 \<le> i \<and> i * 2 + 1 < int (length c)"
  using assms
  by (auto simp add: set_channel_def then_do_Inr store_Inr deref_Inr)

lemma set_channel_vec:
  assumes "set_channel ch t v i CHANNEL_VEC = Inr r"
  shows "\<exists>c v0 v1 v2. ch = Some c
           \<and> r = Some (c[nat (i * 4) := v0, nat (i * 4 + 1) := v1, nat (i * 4 + 2) := v2,
                         nat (i * 4 + 3) := t])
           \<and> 0 \<le> i \<and> i * 4 + 3 < int (length c)"
  using assms
  by (auto simp add: set_channel_def CHANNEL_VEC_def CHANNEL_FLOAT_def then_do_Inr store_Inr deref_Inr)

lemma set_channel_ok:
  assumes "set_channel ch t v i sz = Inr r" and "chan_ok n ch"
  shows "chan_ok n r"
  using assms
  by (auto simp add: set_channel_def then_do_Inr store_Inr deref_Inr chan_ok_def split: if_splits)

lemma init_time_Inr:
  assumes "init_time ds ch = Inr ch'"
  shows "\<exists>taf. ch' = ch\<lparr>timeAtFrame := Some taf\<rparr> \<and> length taf = nat (chan_length ch + 1)
           \<and> 1 \<le> chan_length ch"
proof -
  from assms obtain t1 t0 t where
    t1: "store (MEM_callocN (chan_length ch + 1)) 1 (animStart ds) = Inr t1"
    and t0: "store t1 0 (animStart ds) = Inr t0"
    and loop: "for_each (\<lambda>i t. then_do (load t (i - 1)) (\<lambda>prev. store t i (prev + aniFrameTime ch)))
                (map int [2..<nat (chan_length ch + 1)]) t0 = Inr t"
    and res: "ch' = ch\<lparr>timeAtFrame := Some t\<rparr>"
    by (auto simp add: init_time_def then_do_Inr)
  from t1 have len1: "length t1 = nat (chan_length ch + 1)" and ge: "1 \<le> chan_length ch"
    by (auto simp add: store_Inr MEM_callocN_def split: if_splits)
  from t0 len1 have len0: "length t0 = nat (chan_length ch + 1)"
    by (auto simp add: store_Inr)
  have "length t = nat (chan_length ch + 1)"
    by (rule for_each_invariant [OF loop, where P = "\<lambda>t. length t = nat (chan_length ch + 1)"])
       (auto simp add: len0 then_do_Inr store_Inr)
  with res ge show ?thesis by blast
qed

lemma sample_domain_time_Inr:
  assumes "sample_domain_time ds ch (int k) = Inr (ch', t)"
    and "timeAtFrame ch = Some taf" and "DomainTime ch = Some dt"
  shows "\<exists>time. ch' = ch\<lparr>timeAtFrame := Some (taf[Suc k := t]),
                         DomainTime := Some (dt[2 * k := time, 2 * k + 1 := real k])\<rparr>
           \<and> Suc k < length taf \<and> 2 * k + 1 < length dt"
proof -
  have n: "nat (int k * 2) = 2 * k" "nat (int k * 2 + 1) = 2 * k + 1" "nat (int k + 1) = Suc k"
    by (simp_all add: nat_add_distrib nat_mult_distrib)
  from assms show ?thesis
    by (auto simp add: sample_domain_time_def Let_def then_do_Inr deref_Inr load_Inr store_Inr n
        dest!: set_channel_float)
qed

lemma sample_frame_Inr:
  assumes "sample_frame host domain_ob i s = Inr s'"
  shows "\<exists>ds scene ch1 t gv vv dg' dv' fobjects h.
           sample_domain_time ds (smp_channels s) i = Inr (ch1, t)
         \<and> set_channel (DomainGravity ch1) t gv i CHANNEL_VEC = Inr dg'
         \<and> set_channel (DomainViscosity ch1) t vv i CHANNEL_FLOAT = Inr dv'
         \<and> sample_objects host scene i t (smp_fobjects s) (smp_heap s) = Inr (fobjects, h)
         \<and> s' = \<lparr>smp_scene = scene,
                  smp_channels = ch1\<lparr>DomainGravity := dg', DomainViscosity := dv'\<rparr>,
                  smp_fobjects = fobjects, smp_heap = h\<rparr>"
  using assms
  by (auto simp add: sample_frame_def Let_def then_do_Inr split: prod.splits) blast

lemma sample_frame_channels:
  assumes run: "sample_frame host domain_ob (int k) s = Inr s'"
    and inv: "domain_channels_upto n k (smp_channels s)"
  shows "domain_channels_upto n (Suc k) (smp_channels s')
         \<and> chan_length (smp_channels s') = chan_length (smp_channels s)"
proof -
  from inv obtain taf dt dg dv where
    f: "timeAtFrame (smp_channels s) = Some taf" "DomainTime (smp_channels s) = Some dt"
       "DomainGravity (smp_channels s) = Some dg" "DomainViscosity (smp_channels s) = Some dv"
    and len: "length taf = n + 1" "length dt = 2 * n" "length dg = 4 * n" "length dv = 2 * n"
    and old: "\<And>j. j < k \<Longrightarrow> dg ! (4 * j + 3) = taf ! (j + 1) \<and> dv ! (2 * j + 1) = taf ! (j + 1)
                       \<and> dt ! (2 * j + 1) = real j"
    unfolding domain_channels_upto_def by blast
  from sample_frame_Inr [OF run] obtain ds ch1 t gv vv dg' dv' where
    time: "sample_domain_time ds (smp_channels s) (int k) = Inr (ch1, t)"
    and g: "set_channel (DomainGravity ch1) t gv (int k) CHANNEL_VEC = Inr dg'"
    and v: "set_channel (DomainViscosity ch1) t vv (int k) CHANNEL_FLOAT = Inr dv'"
    and res: "smp_channels s' = ch1\<lparr>DomainGravity := dg', DomainViscosity := dv'\<rparr>"
    by auto
  from sample_domain_time_Inr [OF time f(1,2)] obtain time' where
    ch1: "ch1 = (smp_channels s)\<lparr>timeAtFrame := Some (taf[Suc k := t]),
                         DomainTime := Some (dt[2 * k := time', 2 * k + 1 := real k])\<rparr>"
    and rng: "Suc k < length taf" "2 * k + 1 < length dt"
    by blast
  have n: "nat (int k * 2) = 2 * k" "nat (int k * 2 + 1) = 2 * k + 1"
    "nat (int k * 4) = 4 * k" "nat (int k * 4 + 1) = 4 * k + 1"
    "nat (int k * 4 + 2) = 4 * k + 2" "nat (int k * 4 + 3) = 4 * k + 3"
    by (simp_all add: nat_add_distrib nat_mult_distrib)
  from set_channel_vec [OF g] f(3) obtain v0 v1 v2 where
    dg': "dg' = Some (dg[4 * k := v0, 4 * k + 1 := v1, 4 * k + 2 := v2, 4 * k + 3 := t])"
    and rg: "4 * k + 3 < length dg"
    by (auto simp add: ch1 n)
  from set_channel_float [OF v] f(4) obtain w0 where
    dv': "dv' = Some (dv[2 * k := w0, 2 * k + 1 := t])"
    and rv: "2 * k + 1 < length dv"
    by (auto simp add: ch1 n)
  have new: "dg[4 * k := v0, 4 * k + 1 := v1, 4 * k + 2 := v2, 4 * k + 3 := t] ! (4 * j + 3)
               = taf[Suc k := t] ! (j + 1)
           \<and> dv[2 * k := w0, 2 * k + 1 := t] ! (2 * j + 1) = taf[Suc k := t] ! (j + 1)
           \<and> dt[2 * k := time', 2 * k + 1 := real k] ! (2 * j + 1) = real j"
    if "j < Suc k" for j
  proof (cases "j = k")
    case True
    with rng rg rv show ?thesis by simp
  next
    case False
    with that have "j < k" by simp
    with old [OF this] show ?thesis by (simp add: nth_list_update)
  qed
  show ?thesis
    unfolding domain_channels_upto_def
    using new by (simp add: res ch1 dg' dv' f len)
qed

subsection \<open>Vertex caches and object channels\<close>

lemma heap_keeps_refl: "heap_keeps h h"
  by (simp add: heap_keeps_def)

lemma heap_keeps_trans:
  assumes "heap_keeps h1 h2" and "heap_keeps h2 h3"
  shows "heap_keeps h1 h3"
  unfolding heap_keeps_def
proof (intro conjI allI impI)
  show "length h1 \<le> length h3"
    using assms by (simp add: heap_keeps_def)
next
  fix a c'
  assume a: "a < length h1 \<and> h3 ! a = Live c'"
  with assms(1) have "a < length h2" by (simp add: heap_keeps_def)
  with a assms(2) obtain c2 where c2: "h2 ! a = Live c2" "length c2 = length c'"
    unfolding heap_keeps_def by blast
  with a assms(1) obtain c1 where "h1 ! a = Live c1" "length c1 = length c2"
    unfolding heap_keeps_def by blast
  with c2 show "\<exists>c. h1 ! a = Live c \<and> length c = length c'" by simp
qed

lemma heap_store_keeps:
  assumes "heap_store h a k v = Inr h'"
  shows "heap_keeps h h'"
  using assms
  by (auto simp add: heap_store_def heap_keeps_def then_do_Inr store_Inr nth_list_update
      split: if_splits mem_block.splits)

lemma MEM_freeN_keeps:
  assumes "MEM_freeN h a = Inr h'"
  shows "heap_keeps h h'"
  using assms
  by (auto simp add: MEM_freeN_def heap_keeps_def nth_list_update split: if_splits mem_block.splits)

lemma set_vertex_channel_keeps:
  assumes "set_vertex_channel host channel t scene fobj i h = Inr h'"
  shows "heap_keeps h h'"
proof (cases channel)
  case None
  with assms show ?thesis by (simp add: set_vertex_channel_def Let_def heap_keeps_refl)
next
  case (Some a)
  obtain mv mt where mesh: "initElbeemMesh host scene (object fobj) True = (mv, mt)"
    by (cases "initElbeemMesh host scene (object fobj) True")
  show ?thesis
  proof (cases "int (length mv) \<noteq> numVerts fobj")
    case True
    with assms Some mesh have "MEM_freeN h a = Inr h'"
      by (simp add: set_vertex_channel_def Let_def)
    then show ?thesis by (rule MEM_freeN_keeps)
  next
    case False
    with assms Some mesh obtain h1 where
      loop: "for_each (\<lambda>j h'. then_do (load (concat (map vec_list mv)) j)
                           (\<lambda>v. heap_store h' a (i * (3 * numVerts fobj + 1) + j) v))
               (map int [0..<nat (3 * int (length mv))]) h = Inr h1"
      and last: "heap_store h1 a (i * (3 * numVerts fobj + 1) + (3 * numVerts fobj + 1) - 1) t = Inr h'"
      by (auto simp add: set_vertex_channel_def Let_def then_do_Inr)
    have "heap_keeps h h1"
      by (rule for_each_invariant [OF loop, where P = "heap_keeps h"])
         (auto simp add: heap_keeps_refl then_do_Inr intro: heap_keeps_trans heap_store_keeps)
    with heap_store_keeps [OF last] show ?thesis by (rule heap_keeps_trans [rotated])
  qed
qed

lemma cache_ok_keeps:
  assumes "cache_ok n h fobj" and "heap_keeps h h'"
  shows "cache_ok n h' fobj"
proof (cases "VertexCache fobj")
  case None
  then show ?thesis by (simp add: cache_ok_def)
next
  case (Some a)
  with assms(1) have a: "a < length h" by (simp add: cache_ok_def)
  show ?thesis
  proof (cases "h' ! a")
    case Freed
    with a assms(2) Some show ?thesis by (simp add: cache_ok_def heap_keeps_def)
  next
    case (Live c')
    with a assms(2) obtain c where "h ! a = Live c" "length c = length c'"
      unfolding heap_keeps_def by blast
    with assms Some a Live show ?thesis by (simp add: cache_ok_def heap_keeps_def)
  qed
qed

lemma object_channels_ok_keeps:
  assumes "object_channels_ok n h fobj" and "heap_keeps h h'"
  shows "object_channels_ok n h' fobj"
  using assms cache_ok_keeps by (auto simp add: object_channels_ok_def)

lemma all_objects_ok_keeps:
  assumes "all_objects_ok n h fobjects" and "heap_keeps h h'"
  shows "all_objects_ok n h' fobjects"
  using assms object_channels_ok_keeps by (auto simp add: all_objects_ok_def list_all_iff)

lemma cache_ok_cong:
  assumes "VertexCache f' = VertexCache f" and "numVerts f' = numVerts f"
  shows "cache_ok n h f' = cache_ok n h f"
  using assms by (simp add: cache_ok_def cong: option.case_cong mem_block.case_cong)

lemma sample_transform_ok:
  assumes "sample_transform ob fss rot_d i t fobj = Inr fobj'"
    and "object_channels_ok n h fobj"
  shows "object_channels_ok n h fobj'"
proof -
  from assms(1) obtain tr ro sc ac iv where
    r: "set_channel (Translation fobj) t (vec_list (ob_loc ob)) i CHANNEL_VEC = Inr tr"
       "set_channel (Rotation fobj) t (vec_list rot_d) i CHANNEL_VEC = Inr ro"
       "set_channel (Scale fobj) t (vec_list (ob_size ob)) i CHANNEL_VEC = Inr sc"
       "set_channel (Active fobj) t [if active fss then 1 else 0] i CHANNEL_FLOAT = Inr ac"
       "set_channel (InitialVelocity fobj) t (vec_list (iniVel fss)) i CHANNEL_VEC = Inr iv"
    and res: "fobj' = fobj\<lparr>Translation := tr, Rotation := ro, Scale := sc, Active := ac,
                    InitialVelocity := iv\<rparr>"
    by (auto simp add: sample_transform_def Let_def then_do_Inr)
  from assms(2) have c:
    "chan_ok (4 * n) (Translation fobj)" "chan_ok (4 * n) (Rotation fobj)"
    "chan_ok (4 * n) (Scale fobj)" "chan_ok (2 * n) (Active fobj)"
    "chan_ok (4 * n) (InitialVelocity fobj)"
    by (simp_all add: object_channels_ok_def)
  note set_channel_ok [OF r(1) c(1)] set_channel_ok [OF r(2) c(2)] set_channel_ok [OF r(3) c(3)]
    set_channel_ok [OF r(4) c(4)] set_channel_ok [OF r(5) c(5)]
  moreover have "cache_ok n h fobj' = cache_ok n h fobj"
    unfolding res by (rule cache_ok_cong) simp_all
  ultimately show ?thesis
    using assms(2) by (simp add: object_channels_ok_def) (simp add: res)
qed

lemma sample_control_ok:
  assumes "sample_control fss i t fobj = Inr fobj'"
    and "object_channels_ok n h fobj"
  shows "object_channels_ok n h fobj'"
proof (cases "fss_type fss = OB_FLUIDSIM_CONTROL")
  case False
  with assms show ?thesis by (simp add: sample_control_def)
next
  case True
  with assms(1) obtain a1 a2 a3 a4 where
    r: "set_channel (AttractforceStrength fobj) t [attractforceStrength fss] i CHANNEL_FLOAT = Inr a1"
       "set_channel (AttractforceRadius fobj) t [attractforceRadius fss] i CHANNEL_FLOAT = Inr a2"
       "set_channel (VelocityforceStrength fobj) t [velocityforceStrength fss] i CHANNEL_FLOAT = Inr a3"
       "set_channel (VelocityforceRadius fobj) t [velocityforceRadius fss] i CHANNEL_FLOAT = Inr a4"
    and res: "fobj' = fobj\<lparr>AttractforceStrength := a1, AttractforceRadius := a2,
                   VelocityforceStrength := a3, VelocityforceRadius := a4\<rparr>"
    by (auto simp add: sample_control_def then_do_Inr)
  from assms(2) have c:
    "chan_ok (2 * n) (AttractforceStrength fobj)" "chan_ok (2 * n) (AttractforceRadius fobj)"
    "chan_ok (2 * n) (VelocityforceStrength fobj)" "chan_ok (2 * n) (VelocityforceRadius fobj)"
    by (simp_all add: object_channels_ok_def)
  note set_channel_ok [OF r(1) c(1)] set_channel_ok [OF r(2) c(2)] set_channel_ok [OF r(3) c(3)]
    set_channel_ok [OF r(4) c(4)]
  moreover have "cache_ok n h fobj' = cache_ok n h fobj"
    unfolding res by (rule cache_ok_cong) simp_all
  ultimately show ?thesis
    using assms(2) by (simp add: object_channels_ok_def) (simp add: res)
qed

lemma sample_object_ok:
  assumes run: "sample_object host scene i t fobj h = Inr (fobj', h')"
    and ok: "object_channels_ok n h fobj"
  shows "object_channels_ok n h' fobj' \<and> heap_keeps h h'"
proof -
  from run obtain fss where fss: "fluidmd (obs scene (object fobj)) = Some fss"
    by (auto simp add: sample_object_def Let_def then_do_Inr deref_Inr)
  show ?thesis
  proof (cases "fss_type fss = OB_FLUIDSIM_DOMAIN \<or> fss_type fss = OB_FLUIDSIM_PARTICLE")
    case True
    with run fss ok show ?thesis
      by (auto simp add: sample_object_def Let_def then_do_def deref_def heap_keeps_refl)
  next
    case False
    with run fss obtain old_rot fobj1 fobj2 where
      tr: "sample_transform (obs scene (object fobj)) fss
             (mul_v3_fl (mat4_to_compatible_eulO host old_rot (obmat (obs scene (object fobj)))) (- 180 / pi))
             i t fobj = Inr fobj1"
      and co: "sample_control fss i t fobj1 = Inr fobj2"
      and vx: "(if fluid_is_animated_mesh fss then
                then_do (set_vertex_channel host (VertexCache fobj2) t scene fobj2 i h)
                  (\<lambda>h'. Inr (fobj2, h'))
              else Inr (fobj2, h)) = Inr (fobj', h')"
      by (auto simp add: sample_object_def Let_def then_do_Inr deref_def)
    from sample_transform_ok [OF tr ok] have "object_channels_ok n h fobj1" .
    from sample_control_ok [OF co this] have ok2: "object_channels_ok n h fobj2" .
    show ?thesis
    proof (cases "fluid_is_animated_mesh fss")
      case False
      with vx ok2 show ?thesis by (simp add: heap_keeps_refl)
    next
      case True
      with vx have v: "set_vertex_channel host (VertexCache fobj2) t scene fobj2 i h = Inr h'"
        and eq: "fobj' = fobj2"
        by (auto simp add: then_do_Inr)
      from set_vertex_channel_keeps [OF v] have "heap_keeps h h'" .
      with ok2 eq show ?thesis by (simp add: object_channels_ok_keeps)
    qed
  qed
qed

lemma sample_objects_ok:
  assumes "sample_objects host scene i t fobjects h = Inr (fobjects', h')"
    and "all_objects_ok n h fobjects"
  shows "all_objects_ok n h' fobjects' \<and> heap_keeps h h'"
  using assms
proof (induction fobjects arbitrary: h fobjects')
  case Nil
  then show ?case by (simp add: all_objects_ok_def heap_keeps_refl)
next
  case (Cons fobj rest)
  from Cons.prems(1) obtain fobj' h1 rest' where
    one: "sample_object host scene i t fobj h = Inr (fobj', h1)"
    and more: "sample_objects host scene i t rest h1 = Inr (rest', h')"
    and res: "fobjects' = fobj' # rest'"
    by (auto simp add: then_do_Inr split: prod.splits)
  from Cons.prems(2) have ok1: "object_channels_ok n h fobj" and okr: "all_objects_ok n h rest"
    by (simp_all add: all_objects_ok_def)
  from sample_object_ok [OF one ok1] have a: "object_channels_ok n h1 fobj'" "heap_keeps h h1"
    by simp_all
  from all_objects_ok_keeps [OF okr a(2)] have "all_objects_ok n h1 rest" .
  from Cons.IH [OF more this] have b: "all_objects_ok n h' rest'" "heap_keeps h1 h'"
    by simp_all
  from object_channels_ok_keeps [OF a(1) b(2)] b(1) heap_keeps_trans [OF a(2) b(2)] res
  show ?case by (simp add: all_objects_ok_def)
qed

lemma MEM_callocN_length:
  "0 \<le> len \<Longrightarrow> length (MEM_callocN (len * (CHANNEL_VEC + 1))) = 4 * nat len"
  "0 \<le> len \<Longrightarrow> length (MEM_callocN (len * (CHANNEL_FLOAT + 1))) = 2 * nat len"
  "0 \<le> len \<Longrightarrow> length (MEM_callocN (len * ((int m * CHANNEL_VEC) + 1))) = nat len * (3 * m + 1)"
  by (simp_all add: MEM_callocN_def CHANNEL_VEC_def CHANNEL_FLOAT_def nat_mult_distrib nat_add_distrib)

lemma all_objects_ok_snoc:
  "all_objects_ok n h (fobjects @ [fobj]) = (all_objects_ok n h fobjects \<and> object_channels_ok n h fobj)"
  by (simp add: all_objects_ok_def)

lemma empty_FluidObject_ok: "object_channels_ok n h (empty_FluidObject ob)"
  by (simp add: object_channels_ok_def chan_ok_def cache_ok_def empty_FluidObject_def)

lemma allocated_object_ok:
  assumes len: "0 \<le> len"
    and f2: "fobj2 = (if ctl then
               (empty_FluidObject ob)
                 \<lparr>Translation := Some (MEM_callocN (len * (CHANNEL_VEC + 1))),
                  Rotation := Some (MEM_callocN (len * (CHANNEL_VEC + 1))),
                  Scale := Some (MEM_callocN (len * (CHANNEL_VEC + 1))),
                  Active := Some (MEM_callocN (len * (CHANNEL_FLOAT + 1))),
                  InitialVelocity := Some (MEM_callocN (len * (CHANNEL_VEC + 1))),
                  AttractforceStrength := Some (MEM_callocN (len * (CHANNEL_FLOAT + 1))),
                  AttractforceRadius := Some (MEM_callocN (len * (CHANNEL_FLOAT + 1))),
                  VelocityforceStrength := Some (MEM_callocN (len * (CHANNEL_FLOAT + 1))),
                  VelocityforceRadius := Some (MEM_callocN (len * (CHANNEL_FLOAT + 1)))\<rparr>
             else
               (empty_FluidObject ob)
                 \<lparr>Translation := Some (MEM_callocN (len * (CHANNEL_VEC + 1))),
                  Rotation := Some (MEM_callocN (len * (CHANNEL_VEC + 1))),
                  Scale := Some (MEM_callocN (len * (CHANNEL_VEC + 1))),
                  Active := Some (MEM_callocN (len * (CHANNEL_FLOAT + 1))),
                  InitialVelocity := Some (MEM_callocN (len * (CHANNEL_VEC + 1)))\<rparr>)"
  shows "object_channels_ok (nat len) h fobj2"
    and "object_channels_ok (nat len) (h @ [Live (MEM_callocN (len * ((int m * CHANNEL_VEC) + 1)))])
           (fobj2\<lparr>numVerts := int m, numTris := k, VertexCache := Some (length h)\<rparr>)"
  using len
  by (simp_all add: f2 object_channels_ok_def chan_ok_def cache_ok_def empty_FluidObject_def
      MEM_callocN_length)

lemma allocate_fluid_objects_ok:
  assumes "allocate_fluid_objects host scene len ps (fobjects, h) = (fobjects', h')"
    and "0 \<le> len" and "all_objects_ok (nat len) h fobjects"
  shows "all_objects_ok (nat len) h' fobjects'"
  using assms(1,3)
proof (induction ps arbitrary: fobjects h)
  case Nil
  then show ?case by simp
next
  case (Cons ob rest)
  show ?case
  proof (cases "fluidmd (obs scene ob)")
    case None
    with Cons.prems have "allocate_fluid_objects host scene len rest (fobjects, h) = (fobjects', h')"
      by simp
    from Cons.IH [OF this Cons.prems(2)] show ?thesis .
  next
    case (Some fss)
    show ?thesis
    proof (cases "fss_type fss = OB_FLUIDSIM_DOMAIN \<or> fss_type fss = OB_FLUIDSIM_PARTICLE")
      case True
      with Cons.prems Some have
        "allocate_fluid_objects host scene len rest (fobjects @ [empty_FluidObject ob], h) = (fobjects', h')"
        by (simp add: Let_def)
      moreover have "all_objects_ok (nat len) h (fobjects @ [empty_FluidObject ob])"
        using Cons.prems(2) by (simp add: all_objects_ok_snoc empty_FluidObject_ok)
      ultimately show ?thesis by (rule Cons.IH)
    next
      case False
      define fobj2 where "fobj2 = (if fss_type fss = OB_FLUIDSIM_CONTROL then
               (empty_FluidObject ob)
                 \<lparr>Translation := Some (MEM_callocN (len * (CHANNEL_VEC + 1))),
                  Rotation := Some (MEM_callocN (len * (CHANNEL_VEC + 1))),
                  Scale := Some (MEM_callocN (len * (CHANNEL_VEC + 1))),
                  Active := Some (MEM_callocN (len * (CHANNEL_FLOAT + 1))),
                  InitialVelocity := Some (MEM_callocN (len * (CHANNEL_VEC + 1))),
                  AttractforceStrength := Some (MEM_callocN (len * (CHANNEL_FLOAT + 1))),
                  AttractforceRadius := Some (MEM_callocN (len * (CHANNEL_FLOAT + 1))),
                  VelocityforceStrength := Some (MEM_callocN (len * (CHANNEL_FLOAT + 1))),
                  VelocityforceRadius := Some (MEM_callocN (len * (CHANNEL_FLOAT + 1)))\<rparr>
             else
               (empty_FluidObject ob)
                 \<lparr>Translation := Some (MEM_callocN (len * (CHANNEL_VEC + 1))),
                  Rotation := Some (MEM_callocN (len * (CHANNEL_VEC + 1))),
                  Scale := Some (MEM_callocN (len * (CHANNEL_VEC + 1))),
                  Active := Some (MEM_callocN (len * (CHANNEL_FLOAT + 1))),
                  InitialVelocity := Some (MEM_callocN (len * (CHANNEL_VEC + 1)))\<rparr>)"
      note ok = allocated_object_ok [OF assms(2) fobj2_def]
      show ?thesis
      proof (cases "fluid_is_animated_mesh fss")
        case plain: False
        with Cons.prems Some False have
          "allocate_fluid_objects host scene len rest (fobjects @ [fobj2], h) = (fobjects', h')"
          by (simp add: Let_def fobj2_def)
        moreover have "all_objects_ok (nat len) h (fobjects @ [fobj2])"
          using Cons.prems(2) ok(1) by (simp add: all_objects_ok_snoc)
        ultimately show ?thesis by (rule Cons.IH)
      next
        case True
        obtain mv mt where mesh: "initElbeemMesh host scene ob False = (mv, mt)"
          by (cases "initElbeemMesh host scene ob False")
        let ?h1 = "h @ [Live (MEM_callocN (len * ((int (length mv) * CHANNEL_VEC) + 1)))]"
        let ?f3 = "fobj2\<lparr>numVerts := int (length mv), numTris := int (length mt),
                          VertexCache := Some (length h)\<rparr>"
        from Cons.prems Some False True mesh have
          "allocate_fluid_objects host scene len rest (fobjects @ [?f3], ?h1) = (fobjects', h')"
          by (simp add: Let_def fobj2_def heap_alloc_def)
        moreover have "all_objects_ok (nat len) ?h1 (fobjects @ [?f3])"
        proof -
          have "heap_keeps h ?h1"
            by (simp add: heap_keeps_def nth_append)
          from all_objects_ok_keeps [OF Cons.prems(2) this] ok(2) [of h "length mv" "int (length mt)"]
          show ?thesis by (simp add: all_objects_ok_snoc)
        qed
        ultimately show ?thesis by (rule Cons.IH)
      qed
    qed
  qed
qed

lemma sample_frames_ok:
  assumes "for_each (sample_frame host domain_ob) (map int [0..<k]) s0 = Inr s"
    and "domain_channels_upto n 0 (smp_channels s0)"
    and "all_objects_ok n (smp_heap s0) (smp_fobjects s0)"
  shows "domain_channels_upto n k (smp_channels s)
         \<and> all_objects_ok n (smp_heap s) (smp_fobjects s)"
  using assms(1)
proof (induction k arbitrary: s)
  case 0
  with assms(2,3) show ?case by simp
next
  case (Suc k)
  from Suc.prems obtain s1 where
    before: "for_each (sample_frame host domain_ob) (map int [0..<k]) s0 = Inr s1"
    and step: "sample_frame host domain_ob (int k) s1 = Inr s"
    by (auto simp add: for_each_append then_do_Inr)
  from Suc.IH [OF before] have inv: "domain_channels_upto n k (smp_channels s1)"
    and ok: "all_objects_ok n (smp_heap s1) (smp_fobjects s1)"
    by simp_all
  from sample_frame_channels [OF step inv] have a: "domain_channels_upto n (Suc k) (smp_channels s)"
    by simp
  from sample_frame_Inr [OF step] obtain scene' t fobjects h where
    "sample_objects host scene' (int k) t (smp_fobjects s1) (smp_heap s1) = Inr (fobjects, h)"
    and "smp_fobjects s = fobjects" and "smp_heap s = h"
    by auto
  with sample_objects_ok [OF _ ok] have "all_objects_ok n (smp_heap s) (smp_fobjects s)"
    by blast
  with a show ?case by simp
qed

subsection \<open>Evaluating the example scene\<close>

lemmas eval_defs = then_do_def load_def store_def deref_def MEM_callocN_def vec_list_def
  CHANNEL_VEC_def CHANNEL_FLOAT_def set_channel_def upt_conv_Cons numeral_eq_Suc

lemmas sampling_defs = fluid_init_all_channels_def fss_of_def init_time_def
  sample_frame_def sample_domain_time_def sample_object_def previous_rotation_def
  sample_transform_def sample_control_def get_fluid_rate_def get_fluid_gravity_def
  get_fluid_viscosity_def fluid_is_animated_mesh_def mul_v3_fl_def empty_FluidObject_def

lemmas teardown_defs = export_fluid_objects_def export_fluid_object_def
  fluidbake_free_data_def free_domain_channels_def free_fluidobject_channels_def
  free_transform_channels_def free_control_channels_def free_channel_def MEM_freeN_def
  channels0_def

lemma inflow_init_time: "map_sum id timeAtFrame (init_time (default_settings OB_FLUIDSIM_DOMAIN) inflow_channels)
  = Inr (Some [0, 0, 1 / 5, 2 / 5, 3 / 5, 4 / 5])"
  by (simp add: init_time_def inflow_channels_def default_settings_def eval_defs)

lemma inflow_paths:
  "fluid_init_filepaths writable_env reps
     ((default_settings OB_FLUIDSIM_DOMAIN)\<lparr>bakeStart := 1, bakeEnd := 5, lastgoodframe := - 1\<rparr>)
   = (True, reps,
      (default_settings OB_FLUIDSIM_DOMAIN)\<lparr>bakeStart := 1, bakeEnd := 5, lastgoodframe := - 1\<rparr>,
      ''/tmp/fluid'', ''/tmp/fluid/fluidsim.cfg.tmp'')"
  by (simp add: fluid_init_filepaths_def writable_env_def default_settings_def
        BLI_strncpy_def Let_def FLUID_SUFFIX_CONFIG_TMP_def FLUID_SUFFIX_CONFIG_def)

lemma inflow_facts:
  "r_efra inflow_scene = 5" "r_cfra inflow_scene = 1"
  "fss_of inflow_scene 0 = Inr (default_settings OB_FLUIDSIM_DOMAIN)"
  "previewresxyz (default_settings OB_FLUIDSIM_DOMAIN) \<le> resolutionxyz (default_settings OB_FLUIDSIM_DOMAIN)"
  by (simp_all add: inflow_scene_def fss_of_def deref_def mesh_object_def default_settings_def)

lemma inflow_bake_times:
  "map_sum id bake_times (fluidsimBake plain_host writable_env inflow_scene (Some 0) False [])
     = Inr (1, Some 5, Some [0, 1 / 5, 2 / 5, 3 / 5, 4 / 5, 1], Some 5, True)"
  apply (simp add: fluidsimBake_def Let_def inflow_scene_valid inflow_facts inflow_paths deref_def then_do_def)
  apply (simp add: inflow_scene_def update_fss_def default_settings_def plain_host_def
      mesh_object_def identity_m4_def bake_times_def sampling_defs teardown_defs Let_def eval_defs)
  done

text \<open>
  The same bake hands one mesh to the solver, the FLUID object with channels of length 5
  and no vertex channel, and leaves no vertex cache behind.
\<close>

lemma inflow_bake_meshes:
  "map_sum id bake_meshes (fluidsimBake plain_host writable_env inflow_scene (Some 0) False [])
     = Inr ([(''Fluid'', OB_FLUIDSIM_FLUID, 5, FLUIDSIM_OBSTACLE_NOSLIP, False, None)], [])"
  apply (simp add: fluidsimBake_def Let_def inflow_scene_valid inflow_facts inflow_paths deref_def then_do_def)
  apply (simp add: inflow_scene_def update_fss_def default_settings_def plain_host_def
      mesh_object_def identity_m4_def bake_meshes_def mesh_summary_def reset_mesh_def
      sampling_defs teardown_defs Let_def eval_defs)
  done

text \<open>
  A bake of one frame in which the animated mesh of the obstacle has two vertices at the
  sampled frame and one when its cache is allocated: sampling frees the cache block and
  the object keeps its pointer, so that \<^verbatim>\<open>free_all_fluidobject_channels\<close> frees the
  block a second time when the bake ends.
\<close>

lemma short_cloth_valid: "fluid_validate_scene reps short_cloth_scene (Some 0) = (1, reps)"
  by (simp add: fluid_validate_scene_def short_cloth_scene_def cloth_scene_def mesh_object_def
      default_settings_def)

lemma short_cloth_facts:
  "r_efra short_cloth_scene = 1" "r_cfra short_cloth_scene = 0"
  "fss_of short_cloth_scene 0 = Inr (default_settings OB_FLUIDSIM_DOMAIN)"
  by (simp_all add: short_cloth_scene_def cloth_scene_def fss_of_def deref_def mesh_object_def
      default_settings_def)

lemma short_cloth_paths:
  "fluid_init_filepaths writable_env reps
     ((default_settings OB_FLUIDSIM_DOMAIN)\<lparr>bakeStart := 1, bakeEnd := 1, lastgoodframe := - 1\<rparr>)
   = (True, reps,
      (default_settings OB_FLUIDSIM_DOMAIN)\<lparr>bakeStart := 1, bakeEnd := 1, lastgoodframe := - 1\<rparr>,
      ''/tmp/fluid'', ''/tmp/fluid/fluidsim.cfg.tmp'')"
  by (simp add: fluid_init_filepaths_def writable_env_def default_settings_def
        BLI_strncpy_def Let_def FLUID_SUFFIX_CONFIG_TMP_def FLUID_SUFFIX_CONFIG_def)

lemma dropped_vertex_cache_is_freed_twice:
  "fluidsimBake growing_mesh_host writable_env short_cloth_scene (Some 0) False [] = Inl DoubleFree"
  apply (simp add: fluidsimBake_def Let_def short_cloth_valid short_cloth_facts inflow_facts
      short_cloth_paths deref_def then_do_def)
  apply (simp add: short_cloth_scene_def cloth_scene_def update_fss_def default_settings_def
      growing_mesh_host_def mesh_object_def identity_m4_def sampling_defs teardown_defs Let_def
      eval_defs set_vertex_channel_def heap_alloc_def heap_store_def reset_mesh_def)
  done

lemma inflow_domain_buffers:
  "map_sum id domain_buffers
     (fluid_init_all_channels plain_host inflow_scene 0 inflow_channels [] [])
   = Inr (Some [0, 1 / 5, 2 / 5, 3 / 5, 4 / 5, 1],
          Some [1 / 5, 0, 1 / 5, 1, 1 / 5, 2, 1 / 5, 3, 1 / 5, 4],
          Some [0, 0, - 981 / 100, 1 / 5, 0, 0, - 981 / 100, 2 / 5, 0, 0, - 981 / 100, 3 / 5,
                0, 0, - 981 / 100, 4 / 5, 0, 0, - 981 / 100, 1],
          Some [1 / 1000000, 1 / 5, 1 / 1000000, 2 / 5, 1 / 1000000, 3 / 5, 1 / 1000000, 4 / 5,
                1 / 1000000, 1])"
  apply (simp add: fluid_init_all_channels_def fss_of_def deref_def then_do_def inflow_scene_def mesh_object_def inflow_init_time)
  apply (simp add: inflow_channels_def default_settings_def plain_host_def
      mesh_object_def domain_buffers_def sampling_defs Let_def eval_defs)
  done

section \<open>The claims about the legacy bake\<close>

subsection \<open>Channel layout\<close>

text \<open>
  C2, at a concrete bake: one domain and one fluid object, five frames, rate 1, frame
  time 1/5.  After sampling, \<^verbatim>\<open>timeAtFrame\<close> is 0, 1/5, \<dots>, 1.  The time slots of
  \<^verbatim>\<open>DomainGravity\<close> and \<^verbatim>\<open>DomainViscosity\<close> hold \<^verbatim>\<open>timeAtFrame[i+1]\<close>, but the
  time slots of \<^verbatim>\<open>DomainTime\<close> hold the frame indices 0, 1, 2, 3, 4: sample 0 has time
  slot 0, not \<^verbatim>\<open>timeAtFrame[1]\<close> = 1/5.  (\<^verbatim>\<open>set_channel\<close> is called with \<open>i\<close> as time
  for this channel.)
\<close>

theorem domain_time_slot_is_frame_index:
  "map_sum id domain_buffers
     (fluid_init_all_channels plain_host inflow_scene 0 inflow_channels [] [])
   = Inr (Some [0, 1 / 5, 2 / 5, 3 / 5, 4 / 5, 1],
          Some [1 / 5, 0, 1 / 5, 1, 1 / 5, 2, 1 / 5, 3, 1 / 5, 4],
          Some [0, 0, - 981 / 100, 1 / 5, 0, 0, - 981 / 100, 2 / 5, 0, 0, - 981 / 100, 3 / 5,
                0, 0, - 981 / 100, 4 / 5, 0, 0, - 981 / 100, 1],
          Some [1 / 1000000, 1 / 5, 1 / 1000000, 2 / 5, 1 / 1000000, 3 / 5, 1 / 1000000, 4 / 5,
                1 / 1000000, 1])"
  by (rule inflow_domain_buffers)

text \<open>
  C2, as the code has it: when \<^verbatim>\<open>fluid_init_all_channels\<close> has filled the channels for
  a bake of \<open>n\<close> frames, \<^verbatim>\<open>timeAtFrame\<close> has \<open>n + 1\<close> entries, the domain channels
  have \<open>n\<close> samples of their stride (2 for time and viscosity, 4 for gravity), and every
  channel buffer of every object has \<open>n\<close> samples of its stride, a vertex cache as long as
  it has not been freed.  For every frame index \<open>i < n\<close> the time slot of sample \<open>i\<close> of
  \<^verbatim>\<open>DomainGravity\<close> and of \<^verbatim>\<open>DomainViscosity\<close> equals \<^verbatim>\<open>timeAtFrame[i+1]\<close>, and the
  time slot of sample \<open>i\<close> of \<^verbatim>\<open>DomainTime\<close> is the frame index \<open>i\<close>.
\<close>

theorem sampled_channels_layout:
  assumes run: "fluid_init_all_channels host scene domain_ob channels [] [] = Inr s"
    and n: "n = nat (chan_length channels)"
  shows "\<exists>taf dt dg dv.
           timeAtFrame (smp_channels s) = Some taf \<and> length taf = n + 1 \<and>
           DomainTime (smp_channels s) = Some dt \<and> length dt = 2 * n \<and>
           DomainGravity (smp_channels s) = Some dg \<and> length dg = 4 * n \<and>
           DomainViscosity (smp_channels s) = Some dv \<and> length dv = 2 * n \<and>
           (\<forall>i. i < n \<longrightarrow> dg ! (4 * i + 3) = taf ! (i + 1) \<and> dv ! (2 * i + 1) = taf ! (i + 1)
                          \<and> dt ! (2 * i + 1) = real i) \<and>
           all_objects_ok n (smp_heap s) (smp_fobjects s)"
proof -
  let ?len = "chan_length channels"
  obtain fobjects1 h1 where
    alloc: "allocate_fluid_objects host scene ?len (base scene) ([], []) = (fobjects1, h1)"
    by (cases "allocate_fluid_objects host scene ?len (base scene) ([], [])")
  from run alloc obtain ds ch1 where
    it: "init_time ds channels = Inr ch1"
    and loop: "for_each (sample_frame host domain_ob)
                 (map int [0..<nat (chan_length ch1)])
                 \<lparr>smp_scene = scene,
                  smp_channels = ch1
                    \<lparr>DomainGravity := Some (MEM_callocN (?len * (CHANNEL_VEC + 1))),
                     DomainViscosity := Some (MEM_callocN (?len * (CHANNEL_FLOAT + 1))),
                     DomainTime := Some (MEM_callocN (?len * (CHANNEL_FLOAT + 1)))\<rparr>,
                  smp_fobjects = fobjects1, smp_heap = h1\<rparr> = Inr s"
    by (auto simp add: fluid_init_all_channels_def Let_def then_do_Inr)
  from init_time_Inr [OF it] obtain taf where
    ch1: "ch1 = channels\<lparr>timeAtFrame := Some taf\<rparr>"
    and taf: "length taf = nat (?len + 1)" and len: "1 \<le> ?len"
    by blast
  from len have len0: "0 \<le> ?len" by simp
  from len taf n have taf': "length taf = n + 1" by (simp add: nat_add_distrib)
  have inv0: "domain_channels_upto n 0
                (ch1\<lparr>DomainGravity := Some (MEM_callocN (?len * (CHANNEL_VEC + 1))),
                     DomainViscosity := Some (MEM_callocN (?len * (CHANNEL_FLOAT + 1))),
                     DomainTime := Some (MEM_callocN (?len * (CHANNEL_FLOAT + 1)))\<rparr>)"
    using taf' len0 by (simp add: domain_channels_upto_def ch1 MEM_callocN_length n)
  have ok0: "all_objects_ok n h1 fobjects1"
    unfolding n by (rule allocate_fluid_objects_ok [OF alloc len0]) (simp add: all_objects_ok_def)
  have k: "nat (chan_length ch1) = n"
    by (simp add: ch1 n)
  from sample_frames_ok [OF loop [unfolded k]] inv0 ok0
  have "domain_channels_upto n n (smp_channels s) \<and> all_objects_ok n (smp_heap s) (smp_fobjects s)"
    by simp
  then show ?thesis
    unfolding domain_channels_upto_def by blast
qed

text \<open>
  C2, an instance: the bake of five frames above.
\<close>

theorem sampled_channels_layout_witness:
  "\<exists>s taf dt dg dv.
     fluid_init_all_channels plain_host inflow_scene 0 inflow_channels [] [] = Inr s \<and>
     timeAtFrame (smp_channels s) = Some taf \<and> length taf = 6 \<and>
     DomainTime (smp_channels s) = Some dt \<and> length dt = 10 \<and>
     DomainGravity (smp_channels s) = Some dg \<and> length dg = 20 \<and>
     DomainViscosity (smp_channels s) = Some dv \<and> length dv = 10 \<and>
     dg ! 19 = taf ! 5 \<and> dv ! 9 = taf ! 5 \<and> dt ! 9 = 4 \<and>
     all_objects_ok 5 (smp_heap s) (smp_fobjects s)"
proof -
  obtain s where run: "fluid_init_all_channels plain_host inflow_scene 0 inflow_channels [] [] = Inr s"
    using inflow_domain_buffers
    by (cases "fluid_init_all_channels plain_host inflow_scene 0 inflow_channels [] []") auto
  have n: "5 = nat (chan_length inflow_channels)"
    by (simp add: inflow_channels_def)
  from sampled_channels_layout [OF run n] obtain taf dt dg dv where
    f: "timeAtFrame (smp_channels s) = Some taf" "length taf = 5 + 1"
       "DomainTime (smp_channels s) = Some dt" "length dt = 2 * 5"
       "DomainGravity (smp_channels s) = Some dg" "length dg = 4 * 5"
       "DomainViscosity (smp_channels s) = Some dv" "length dv = 2 * 5"
    and slots: "\<And>i. i < 5 \<Longrightarrow> dg ! (4 * i + 3) = taf ! (i + 1) \<and> dv ! (2 * i + 1) = taf ! (i + 1)
                          \<and> dt ! (2 * i + 1) = real i"
    and ok: "all_objects_ok 5 (smp_heap s) (smp_fobjects s)"
    by blast
  from slots [of 4] have "dg ! 19 = taf ! 5 \<and> dv ! 9 = taf ! 5 \<and> dt ! 9 = 4" by simp
  with run f ok show ?thesis by simp
qed

subsection \<open>The five-frame scenario\<close>

text \<open>
  C3, the scenario evaluated: a single domain and one FLUID object, end frame 5, rate 1,
  \<^verbatim>\<open>animStart\<close> 0, \<^verbatim>\<open>animEnd\<close> 1.  When channel filling has completed,
  \<^verbatim>\<open>timeAtFrame\<close> is 0, 1/5, 2/5, 3/5, 4/5, 1 and not 0, 0, 1/5, 2/5, 3/5, 4/5: the
  sampling loop overwrites entry \<open>i + 1\<close> with entry \<open>i\<close> plus the frame's time step.
\<close>

theorem inflow_times_are_shifted:
  "map_sum id sampled_times (fluidsimBake plain_host writable_env inflow_scene (Some 0) False [])
     = Inr (Some [0, 1 / 5, 2 / 5, 3 / 5, 4 / 5, 1])
   \<and> map_sum id sampled_times (fluidsimBake plain_host writable_env inflow_scene (Some 0) False [])
     \<noteq> Inr (Some [0, 0, 1 / 5, 2 / 5, 3 / 5, 4 / 5])"
proof -
  have "map_sum id sampled_times (fluidsimBake plain_host writable_env inflow_scene (Some 0) False [])
     = Inr (Some [0, 1 / 5, 2 / 5, 3 / 5, 4 / 5, 1])"
    apply (simp add: fluidsimBake_def Let_def inflow_scene_valid inflow_facts inflow_paths deref_def then_do_def)
    apply (simp add: inflow_scene_def update_fss_def default_settings_def plain_host_def
      mesh_object_def identity_m4_def sampled_times_def sampling_defs teardown_defs Let_def eval_defs)
    done
  then show ?thesis by simp
qed

text \<open>
  C3, as the code has it: in that scenario \<^verbatim>\<open>init_time\<close> sets \<^verbatim>\<open>timeAtFrame\<close> to
  0, 0, 1/5, 2/5, 3/5, 4/5; the bake returns 1 with channels of length 5, with
  \<^verbatim>\<open>timeAtFrame\<close> equal to 0, 1/5, 2/5, 3/5, 4/5, 1 after channel filling, and runs the
  solver with \<^verbatim>\<open>noOfFrames\<close> = 5.
\<close>

theorem inflow_bake_scenario:
  "map_sum id timeAtFrame (init_time (default_settings OB_FLUIDSIM_DOMAIN) inflow_channels)
     = Inr (Some [0, 0, 1 / 5, 2 / 5, 3 / 5, 4 / 5])
   \<and> map_sum id bake_times (fluidsimBake plain_host writable_env inflow_scene (Some 0) False [])
     = Inr (1, Some 5, Some [0, 1 / 5, 2 / 5, 3 / 5, 4 / 5, 1], Some 5, True)"
  using inflow_init_time inflow_bake_times by blast

subsection \<open>A mesh that changes its vertex count\<close>

text \<open>
  C4, at a concrete bake: an obstacle with an animated mesh has one vertex when its cache
  is allocated and at frame index 0, two vertices at frame index 1 and one vertex again
  afterwards.  In a bake of two frames the cache block is freed at index 1 but the object
  still points at it when sampling ends: only the local copy of the pointer was set to
  \<^verbatim>\<open>NULL\<close>.  In a bake of three frames the next call of \<^verbatim>\<open>set_vertex_channel\<close>
  therefore is no no-op: it passes the \<^verbatim>\<open>NULL\<close> test and writes into the freed block.
\<close>

theorem dropped_vertex_cache_keeps_its_pointer:
  "map_sum id vertex_caches
     (fluid_init_all_channels growing_mesh_host cloth_scene 0 (cloth_channels 2) [] [])
     = Inr ([None, None, Some 0], [Freed])
   \<and> fluid_init_all_channels growing_mesh_host cloth_scene 0 (cloth_channels 3) [] []
     = Inl UseAfterFree"
proof -
  have a: "map_sum id vertex_caches
     (fluid_init_all_channels growing_mesh_host cloth_scene 0 (cloth_channels 2) [] [])
     = Inr ([None, None, Some 0], [Freed])"
    by (simp add: cloth_channels_def cloth_scene_def default_settings_def growing_mesh_host_def
      mesh_object_def vertex_caches_def sampling_defs Let_def eval_defs
      set_vertex_channel_def heap_alloc_def heap_store_def MEM_freeN_def)
  have b: "fluid_init_all_channels growing_mesh_host cloth_scene 0 (cloth_channels 3) [] []
     = Inl UseAfterFree"
    by (simp add: cloth_channels_def cloth_scene_def default_settings_def growing_mesh_host_def
      mesh_object_def vertex_caches_def sampling_defs Let_def eval_defs
      set_vertex_channel_def heap_alloc_def heap_store_def MEM_freeN_def)
  from a b show ?thesis by blast
qed

subsection \<open>More than one domain\<close>

text \<open>
  C5, at a concrete scene: two DOMAIN objects and a fluid object, and no domain given by
  the caller.  Validation succeeds without a report.
\<close>

theorem two_domains_pass_without_caller_domain:
  "fluid_validate_scene [] two_domain_scene None = (1, [])"
  by (simp add: fluid_validate_scene_def two_domain_scene_def mesh_object_def default_settings_def)

text \<open>
  C5, as the code has it: for a scene with two or more DOMAIN objects and a domain given
  by the caller (any object \<open>d\<close>), validation fails with the report that there should be
  only one domain object, and the bake returns 0 before any solver set-up or job.  With no
  domain given by the caller, validation never makes that report: every DOMAIN object it
  meets just becomes the candidate it adopts.
\<close>

theorem second_domain_rejected_for_given_domain:
  assumes "p \<in> set (base scene)" and "q \<in> set (base scene)" and "p \<noteq> q"
    and "is_domain_mesh scene p" and "is_domain_mesh scene q"
  shows "fluid_validate_scene reps scene (Some d)
           = (0, reps @ [(RPT_ERROR, ''There should be only one domain object'')])
       \<and> (\<exists>r. fluidsimBake host env scene (Some d) do_job reps = Inr r \<and> retval r = 0
              \<and> solver_settings r = None \<and> \<not> job_started r \<and> \<not> simulated r)
       \<and> fluid_validate_scene reps scene None
           \<noteq> (0, reps @ [(RPT_ERROR, ''There should be only one domain object'')])"
proof -
  from assms obtain x where x: "x \<in> set (base scene)" "x \<noteq> d" "is_domain_mesh scene x"
    by (cases "p = d") auto
  have "validate_objects scene (Some d) (base scene) (None, 0, 0) = None"
    using x by (rule validate_objects_conflict)
  then have v: "fluid_validate_scene reps scene (Some d)
           = (0, reps @ [(RPT_ERROR, ''There should be only one domain object'')])"
    by (simp add: fluid_validate_scene_def)
  then have "fst (fluid_validate_scene reps scene (Some d)) = 0" by simp
  then have b: "\<exists>r. fluidsimBake host env scene (Some d) do_job reps = Inr r \<and> retval r = 0
              \<and> solver_settings r = None \<and> \<not> job_started r \<and> \<not> simulated r"
    by (rule bake_stops_when_invalid)
  obtain nd c f where "validate_objects scene None (base scene) (None, 0, 0) = Some (nd, c, f)"
    using validate_objects_no_caller_domain [of scene "base scene" "(None, 0, 0)"]
    by (cases "validate_objects scene None (base scene) (None, 0, 0)") auto
  then have n: "fluid_validate_scene reps scene None
           \<noteq> (0, reps @ [(RPT_ERROR, ''There should be only one domain object'')])"
    by (simp add: fluid_validate_scene_def Let_def)
  from v b n show ?thesis by blast
qed

text \<open>
  C5, an instance: the scene with two domains, the first of them given by the caller.
\<close>

theorem second_domain_rejected_for_given_domain_witness:
  "fluid_validate_scene [] two_domain_scene (Some 0)
     = (0, [(RPT_ERROR, ''There should be only one domain object'')])
   \<and> (\<exists>r. fluidsimBake plain_host writable_env two_domain_scene (Some 0) True [] = Inr r
          \<and> retval r = 0 \<and> solver_settings r = None \<and> \<not> job_started r \<and> \<not> simulated r)
   \<and> fluid_validate_scene [] two_domain_scene None
     \<noteq> (0, [(RPT_ERROR, ''There should be only one domain object'')])"
proof -
  have p: "0 \<in> set (base two_domain_scene)" and q: "1 \<in> set (base two_domain_scene)"
    by (simp_all add: two_domain_scene_def)
  have dp: "is_domain_mesh two_domain_scene 0" and dq: "is_domain_mesh two_domain_scene 1"
    by (simp_all add: is_domain_mesh_def two_domain_scene_def mesh_object_def default_settings_def)
  have ne: "(0::nat) \<noteq> 1" by simp
  from second_domain_rejected_for_given_domain [OF p q ne dp dq,
      of "[]" 0 plain_host writable_env True]
  show ?thesis by simp
qed

subsection \<open>The object limit\<close>

text \<open>
  C6, at concrete scenes: a domain, given by the caller, and 255 fluid objects are
  rejected with the report "Cannot bake with more than 256 objects"; with 254 fluid
  objects the scene is accepted.  The test is \<^verbatim>\<open>channelObjCount >= 255\<close>.
\<close>

theorem object_limit_is_254:
  "fluid_validate_scene [] (crowded_scene 255) (Some 0)
     = (0, [(RPT_ERROR, ''Cannot bake with more than 256 objects'')])
   \<and> fluid_validate_scene [] (crowded_scene 254) (Some 0) = (1, [])"
  by (simp add: fluid_validate_scene_def crowded_scene_counts)

subsection \<open>A cache directory that cannot be used\<close>

text \<open>
  C7, at a concrete file system: the user's directory cannot be created, the default
  directory can and is writable.  The legacy resolver reports one error, stores the
  default path, finds the default usable and still returns failure; the bake returns 0
  without reaching the solver.
\<close>

theorem retry_success_still_aborts:
  "fluid_init_filepaths default_only_env [] (default_settings OB_FLUIDSIM_DOMAIN)
     = (False,
        [(RPT_ERROR, ''Fluidsim: could not create cache directory '' @ quoted ''/tmp/fluid''
                       @ '', reset to default '' @ quoted ''//cache_fluid'')],
        (default_settings OB_FLUIDSIM_DOMAIN)\<lparr>surfdataPath := ''//cache_fluid''\<rparr>,
        ''/home/user/cache_fluid'', ''/home/user/cache_fluid/fluidsim.cfg.tmp'')
   \<and> map_sum id bake_summary (fluidsimBake plain_host default_only_env inflow_scene (Some 0) True [])
     = Inr (0, True, False, False)"
proof -
  have a: "fluid_init_filepaths default_only_env [] (default_settings OB_FLUIDSIM_DOMAIN)
     = (False,
        [(RPT_ERROR, ''Fluidsim: could not create cache directory '' @ quoted ''/tmp/fluid''
                       @ '', reset to default '' @ quoted ''//cache_fluid'')],
        (default_settings OB_FLUIDSIM_DOMAIN)\<lparr>surfdataPath := ''//cache_fluid''\<rparr>,
        ''/home/user/cache_fluid'', ''/home/user/cache_fluid/fluidsim.cfg.tmp'')"
    by (simp add: fluid_init_filepaths_def default_only_env_def default_settings_def
        BLI_strncpy_def Let_def FLUID_SUFFIX_CONFIG_TMP_def FLUID_SUFFIX_CONFIG_def)
  have p: "fluid_init_filepaths default_only_env []
             ((default_settings OB_FLUIDSIM_DOMAIN)\<lparr>bakeStart := 1, bakeEnd := 5, lastgoodframe := - 1\<rparr>)
     = (False,
        [(RPT_ERROR, ''Fluidsim: could not create cache directory '' @ quoted ''/tmp/fluid''
                       @ '', reset to default '' @ quoted ''//cache_fluid'')],
        (default_settings OB_FLUIDSIM_DOMAIN)\<lparr>bakeStart := 1, bakeEnd := 5, lastgoodframe := - 1,
           surfdataPath := ''//cache_fluid''\<rparr>,
        ''/home/user/cache_fluid'', ''/home/user/cache_fluid/fluidsim.cfg.tmp'')"
    by (simp add: fluid_init_filepaths_def default_only_env_def default_settings_def
        BLI_strncpy_def Let_def FLUID_SUFFIX_CONFIG_TMP_def FLUID_SUFFIX_CONFIG_def)
  have s: "r_efra inflow_scene = 5" "fss_of inflow_scene 0 = Inr (default_settings OB_FLUIDSIM_DOMAIN)"
    by (simp_all add: inflow_scene_def fss_of_def deref_def mesh_object_def)
  have c: "previewresxyz (default_settings OB_FLUIDSIM_DOMAIN) \<le> resolutionxyz (default_settings OB_FLUIDSIM_DOMAIN)"
    by (simp add: default_settings_def)
  have b: "map_sum id bake_summary (fluidsimBake plain_host default_only_env inflow_scene (Some 0) True [])
     = Inr (0, True, False, False)"
    using c by (simp add: fluidsimBake_def Let_def inflow_scene_valid s deref_def then_do_def p
        bake_cancelled_def bake_summary_def fluidbake_free_data_nothing)
  from a b show ?thesis by blast
qed

text \<open>
  C7, as the code has it: when the first check fails, the resolver stores the default
  path, reports an error, repeats the check once on the default directory, reports a
  further error if that check fails too, and returns failure whatever the outcome of the
  second check.  For the legacy resolver: its result is failure; its reports are the
  caller's, the warning if the stored path was empty, the error of the first check and,
  only when the second check fails, the error of the second check; the settings hold the
  default path; the two buffers hold the default directory and its probe file.  The
  legacy bake then returns 0 without solver set-up or job.  For the Mantaflow resolver,
  whose checks only create the directory, the same: failure, the default path stored,
  and the reports with the second error only when the second check fails.
\<close>

theorem failed_first_check_aborts:
  "(\<not> legacy_first_check env ds \<longrightarrow>
       fluid_init_filepaths env reps ds
         = (False,
            reps @ legacy_empty_path_warning env ds @ [legacy_first_error env ds]
              @ (if legacy_second_check env then [] else [legacy_second_error env]),
            ds\<lparr>surfdataPath := legacy_default_path env\<rparr>,
            legacy_default_dir env,
            BLI_join_dirfile env (legacy_default_dir env) FLUID_SUFFIX_CONFIG_TMP)
     \<and> (fss_of scene dob = Inr ds \<longrightarrow>
          (\<exists>r. fluidsimBake host env scene (Some dob) do_job reps = Inr r \<and> retval r = 0
              \<and> solver_settings r = None \<and> \<not> job_started r \<and> \<not> simulated r)))
   \<and> (\<not> manta_first_check env sd \<longrightarrow>
       fluid_manta_initpaths env sd reps
         = (False, sd\<lparr>cache_directory := manta_default_path env\<rparr>,
            reps @ manta_empty_path_warning env sd @ [manta_first_error env sd]
              @ (if manta_second_check env then [] else [manta_second_error env])))"
proof -
  have a: "fluid_init_filepaths env reps ds
         = (False,
            reps @ legacy_empty_path_warning env ds @ [legacy_first_error env ds]
              @ (if legacy_second_check env then [] else [legacy_second_error env]),
            ds\<lparr>surfdataPath := legacy_default_path env\<rparr>,
            legacy_default_dir env,
            BLI_join_dirfile env (legacy_default_dir env) FLUID_SUFFIX_CONFIG_TMP)"
    if "\<not> legacy_first_check env ds"
    using that by (rule legacy_resolver_failure)
  have c: "\<exists>r. fluidsimBake host env scene (Some dob) do_job reps = Inr r \<and> retval r = 0
              \<and> solver_settings r = None \<and> \<not> job_started r \<and> \<not> simulated r"
    if "\<not> legacy_first_check env ds" "fss_of scene dob = Inr ds"
    using that(2,1) by (rule bake_stops_when_path_fails)
  have d: "fluid_manta_initpaths env sd reps
         = (False, sd\<lparr>cache_directory := manta_default_path env\<rparr>,
            reps @ manta_empty_path_warning env sd @ [manta_first_error env sd]
              @ (if manta_second_check env then [] else [manta_second_error env]))"
    if "\<not> manta_first_check env sd"
    using that by (rule manta_resolver_failure)
  from a c d show ?thesis by blast
qed

text \<open>
  C7, two instances, each for a legacy domain and for a Mantaflow domain: the file
  system above, where the second check succeeds and one error is reported, and a file
  system on which no directory can be created, where the second check fails and two
  errors are reported.
\<close>

theorem failed_first_check_aborts_witness:
  "fluid_init_filepaths default_only_env [] (default_settings OB_FLUIDSIM_DOMAIN)
     = (False,
        [(RPT_ERROR, ''Fluidsim: could not create cache directory '' @ quoted ''/tmp/fluid''
                       @ '', reset to default '' @ quoted ''//cache_fluid'')],
        (default_settings OB_FLUIDSIM_DOMAIN)\<lparr>surfdataPath := ''//cache_fluid''\<rparr>,
        ''/home/user/cache_fluid'', ''/home/user/cache_fluid/fluidsim.cfg.tmp'')
   \<and> (\<exists>r. fluidsimBake plain_host default_only_env inflow_scene (Some 0) True [] = Inr r
          \<and> retval r = 0 \<and> solver_settings r = None \<and> \<not> job_started r \<and> \<not> simulated r)
   \<and> fluid_manta_initpaths default_only_env plain_smoke_domain []
     = (False, plain_smoke_domain\<lparr>cache_directory := ''//cache_fluid''\<rparr>,
        [(RPT_ERROR, ''Fluid Mantaflow: Could not create cache directory ''
                       @ quoted ''/readonly/cache'' @ '', reset to default ''
                       @ quoted ''//cache_fluid'')])
   \<and> fluid_init_filepaths readonly_env [] (default_settings OB_FLUIDSIM_DOMAIN)
     = (False,
        [(RPT_ERROR, ''Fluidsim: could not create cache directory '' @ quoted ''/tmp/fluid''
                       @ '', reset to default '' @ quoted ''//cache_fluid''),
         (RPT_ERROR, ''Fluidsim: could not use default cache directory ''
                       @ quoted ''/home/user/cache_fluid''
                       @ '', please define a valid cache path manually'')],
        (default_settings OB_FLUIDSIM_DOMAIN)\<lparr>surfdataPath := ''//cache_fluid''\<rparr>,
        ''/home/user/cache_fluid'', ''/home/user/cache_fluid/fluidsim.cfg.tmp'')
   \<and> fluid_manta_initpaths readonly_env plain_smoke_domain []
     = (False, plain_smoke_domain\<lparr>cache_directory := ''//cache_fluid''\<rparr>,
        [(RPT_ERROR, ''Fluid Mantaflow: Could not create cache directory ''
                       @ quoted ''/readonly/cache'' @ '', reset to default ''
                       @ quoted ''//cache_fluid''),
         (RPT_ERROR, ''Fluid Mantaflow: Could not use default cache directory ''
                       @ quoted ''/home/user/cache_fluid''
                       @ '', please define a valid cache path manually'')])"
proof -
  have l: "\<not> legacy_first_check default_only_env (default_settings OB_FLUIDSIM_DOMAIN)"
    "\<not> legacy_first_check readonly_env (default_settings OB_FLUIDSIM_DOMAIN)"
    by (simp_all add: legacy_first_check_def legacy_first_dir_def default_only_env_def
        readonly_env_def default_settings_def BLI_strncpy_def)
  have m: "\<not> manta_first_check default_only_env plain_smoke_domain"
    "\<not> manta_first_check readonly_env plain_smoke_domain"
    by (simp_all add: manta_first_check_def manta_first_dir_def default_only_env_def
        readonly_env_def plain_smoke_domain_def BLI_strncpy_def)
  have s: "fss_of inflow_scene 0 = Inr (default_settings OB_FLUIDSIM_DOMAIN)"
    by (rule inflow_facts)
  have e: "legacy_default_path default_only_env = ''//cache_fluid''"
    "legacy_default_dir default_only_env = ''/home/user/cache_fluid''"
    "legacy_second_check default_only_env"
    "legacy_first_dir default_only_env (default_settings OB_FLUIDSIM_DOMAIN) = ''/tmp/fluid''"
    "manta_default_path default_only_env = ''//cache_fluid''"
    "manta_default_dir default_only_env = ''/home/user/cache_fluid''"
    "manta_second_check default_only_env"
    "manta_first_dir default_only_env plain_smoke_domain = ''/readonly/cache''"
    by (simp_all add: legacy_default_path_def legacy_default_dir_def legacy_second_check_def
        legacy_first_dir_def manta_default_path_def manta_default_dir_def manta_second_check_def
        manta_first_dir_def default_only_env_def default_settings_def plain_smoke_domain_def
        BLI_strncpy_def)
  have f: "legacy_default_path readonly_env = ''//cache_fluid''"
    "legacy_default_dir readonly_env = ''/home/user/cache_fluid''"
    "\<not> legacy_second_check readonly_env"
    "legacy_first_dir readonly_env (default_settings OB_FLUIDSIM_DOMAIN) = ''/tmp/fluid''"
    "manta_default_path readonly_env = ''//cache_fluid''"
    "manta_default_dir readonly_env = ''/home/user/cache_fluid''"
    "\<not> manta_second_check readonly_env"
    "manta_first_dir readonly_env plain_smoke_domain = ''/readonly/cache''"
    by (simp_all add: legacy_default_path_def legacy_default_dir_def legacy_second_check_def
        legacy_first_dir_def manta_default_path_def manta_default_dir_def manta_second_check_def
        manta_first_dir_def default_only_env_def readonly_env_def default_settings_def
        plain_smoke_domain_def BLI_strncpy_def)
  have g: "surfdataPath (default_settings OB_FLUIDSIM_DOMAIN) \<noteq> []"
    "cache_directory plain_smoke_domain \<noteq> []"
    "BLI_join_dirfile default_only_env ''/home/user/cache_fluid'' FLUID_SUFFIX_CONFIG_TMP
       = ''/home/user/cache_fluid/fluidsim.cfg.tmp''"
    "BLI_join_dirfile readonly_env ''/home/user/cache_fluid'' FLUID_SUFFIX_CONFIG_TMP
       = ''/home/user/cache_fluid/fluidsim.cfg.tmp''"
    "dir_create_ok default_only_env ''/tmp/fluid'' = False"
    "dir_create_ok readonly_env ''/tmp/fluid'' = False"
    by (simp_all add: default_settings_def plain_smoke_domain_def default_only_env_def
        readonly_env_def FLUID_SUFFIX_CONFIG_TMP_def FLUID_SUFFIX_CONFIG_def)
  from failed_first_check_aborts [of default_only_env "default_settings OB_FLUIDSIM_DOMAIN" "[]"
      inflow_scene 0 plain_host True plain_smoke_domain]
    failed_first_check_aborts [of readonly_env "default_settings OB_FLUIDSIM_DOMAIN" "[]"
      inflow_scene 0 plain_host True plain_smoke_domain] l m s
  show ?thesis
    by (simp add: e f g legacy_empty_path_warning_def legacy_first_error_def
        legacy_second_error_def manta_empty_path_warning_def manta_first_error_def
        manta_second_error_def)
qed

end
